theory Spec2Isabelle
  imports Complex_Main "HOL-Library.AList"
begin

section \<open>Data model (types/client.ts)\<close>

text \<open>
  String-literal union types become datatypes, interfaces become records. A constructor
  or field keeps the name it has in the source unless that name is already taken by
  another constant; then it carries the prefix of its type. JavaScript numbers that hold
  counts, scores and epoch milliseconds are integers or naturals; the staff rating and the
  routing score computed from it are the rationals that binary64 values denote.
  Optional fields are options.
\<close>

datatype FilingStatus =
  single | married_filing_jointly | married_filing_separately | head_of_household
  | qualifying_widow

datatype IncomeType =
  wages_w2 | self_employment_1099nec | freelance_1099misc | gig_economy | rental_income
  | investment_income | dividends | capital_gains | retirement_distributions
  | social_security | unemployment | alimony_received | gambling_winnings | crypto_income
  | foreign_income | other

datatype DeductionType =
  mortgage_interest | property_taxes | state_local_taxes | charitable_donations
  | medical_expenses | student_loan_interest | educator_expenses | home_office
  | business_expenses | hsa_contributions | ira_contributions | contributions_401k
  | childcare_expenses | alimony_paid | moving_expenses | none

datatype DocumentCategory =
  cat_identity | cat_income | cat_expenses | cat_investments | cat_property | cat_business
  | cat_healthcare | cat_education | cat_other

datatype ComplexityLevel = simple | moderate | complex | expert

datatype Specialization =
  spec_individual | spec_self_employment | spec_small_business | spec_investments
  | spec_real_estate | spec_crypto | spec_foreign_income | spec_estate_planning
  | spec_audit_representation

datatype IntakeStep =
  step_personal_info | step_filing_status | step_dependents | step_employment
  | step_income_types | step_deductions | step_special_situations | step_document_upload
  | step_review | step_complete

datatype AppointmentStatus =
  scheduled | confirmed | apt_in_progress | apt_completed | cancelled | no_show

datatype AppointmentType = virtual | in_person

datatype SessionStatus = in_progress | completed | abandoned

datatype EmploymentIncomeType = emp_W2 | emp_1099 | emp_both

record Address =
  street :: string
  city :: string
  state :: string
  zipCode :: string

record Dependent =
  dep_firstName :: string
  dep_lastName :: string
  relationship :: string
  dep_dateOfBirth :: string
  dep_ssn :: "string option"
  livesWithClient :: bool
  monthsLivedWithClient :: int

record EmploymentInfo =
  employerName :: string
  employerEIN :: "string option"
  jobTitle :: string
  isCurrentJob :: bool
  startDate :: string
  endDate :: "string option"
  emp_incomeType :: EmploymentIncomeType
  estimatedIncome :: "int option"

record ClientProfile =
  client_id :: string
  firstName :: string
  lastName :: string
  email :: string
  phone :: string
  ssn :: "string option"
  dateOfBirth :: "string option"
  address :: "Address option"
  filingStatus :: FilingStatus
  dependents :: "Dependent list"
  employmentInfo :: "EmploymentInfo list"
  incomeTypes :: "IncomeType list"
  deductions :: "DeductionType list"
  previousYearAGI :: "int option"
  hasHealthInsurance :: bool
  hasCrypto :: bool
  hasForeignAccounts :: bool
  hasRentalProperty :: bool
  hasBusinessIncome :: bool
  appointmentId :: "string option"
  intakeCompleted :: bool
  intakeCompletedAt :: "nat option"
  documentsCollected :: "string list"
  documentsPending :: "string list"
  complexityScore :: int
  assignedTaxPro :: "string option"
  client_notes :: "string list"
  createdAt :: nat
  updatedAt :: nat

record DocumentItem =
  doc_id :: string
  doc_name :: string
  description :: string
  category :: DocumentCategory
  required :: bool
  collected :: bool
  source :: "string option"
  reminderSent :: bool
  reminderSentAt :: "nat option"
  doc_notes :: "string option"

record DocumentChecklist =
  checklist_clientId :: string
  documents :: "DocumentItem list"
  generatedAt :: nat
  lastUpdated :: nat

record Appointment =
  apt_id :: string
  apt_clientId :: string
  taxProId :: string
  scheduledAt :: nat
  duration :: int
  status :: AppointmentStatus
  apt_type :: AppointmentType
  apt_notes :: "string option"
  intakeScore :: int
  estimatedComplexity :: ComplexityLevel

record TaxProfessional =
  taxPro_id :: string
  taxPro_name :: string
  taxPro_email :: string
  specializations :: "Specialization list"
  maxComplexity :: ComplexityLevel
  currentLoad :: int
  maxDailyAppointments :: int
  available :: bool
  rating :: rat

record IntakeResponse =
  step :: IntakeStep
  question :: string
  answer :: string
  timestamp :: nat

record IntakeSession =
  session_id :: string
  session_clientId :: string
  startedAt :: nat
  lastActivityAt :: nat
  currentStep :: IntakeStep
  completedSteps :: "IntakeStep list"
  responses :: "IntakeResponse list"
  session_status :: SessionStatus

datatype ReminderType =
  appointment_confirmation | document_reminder | appointment_reminder_24h
  | appointment_reminder_1h | follow_up

datatype Channel = channel_email | channel_sms | channel_both

text \<open>
  The texts that the services store and return. A fixed text is the string itself. A
  text that a service composes from records, with pictographs, printed fractions or
  local times, is kept as the template together with the values it is filled with: the
  routing reason of \<open>formatRoutingReason\<close> and of the no-match branch of
  \<open>findBestTaxPro\<close>, the estimate of \<open>getAppointmentEstimate\<close>, and the reminder texts of
  \<open>generatePersonalizedMessage\<close>, \<open>createAppointmentReminder\<close> and
  \<open>createBatchDocumentReminder\<close>.
\<close>

datatype Message =
  Text string
  | NoProCanHandle ComplexityLevel "Specialization list"
  | RoutingReason ClientProfile TaxProfessional ComplexityLevel "Specialization list"
  | EstimateMessage ComplexityLevel bool int int int
  | PersonalizedMessage ClientProfile DocumentItem
  | AppointmentReminder24hMessage string string nat
  | AppointmentReminder1hMessage string string
  | BatchReminderMessage string "DocumentItem list"

record Reminder =
  reminder_id :: string
  reminder_clientId :: string
  reminder_appointmentId :: string
  reminder_type :: ReminderType
  reminder_message :: Message
  scheduledFor :: nat
  sent :: bool
  sentAt :: "nat option"
  channel :: Channel
  documentIds :: "string list option"

section \<open>JavaScript numbers\<close>

text \<open>
  A JavaScript number is an IEEE 754 binary64 value. A finite one is modelled by the
  rational it denotes, and an arithmetic operation by the exact operation followed by
  rounding to the nearest value with a 53-bit significand, ties to the even significand.
  The exponent range is not limited and there is no infinity and no NaN: the model is
  the program's arithmetic where no operation overflows, underflows below the normal
  range or divides by zero, which the properties of the routing score ensure by their
  hypotheses on the stored numbers.
\<close>

text \<open>The number of binary digits of a positive integer.\<close>

function bit_length :: "int \<Rightarrow> int" where
  "bit_length n = (if n \<le> 0 then 0 else 1 + bit_length (n div 2))"
  by pat_completeness auto
termination
  by (relation "measure nat") auto

declare bit_length.simps [simp del]

text \<open>\<open>2\<close> to an integer power.\<close>

definition pow2 :: "int \<Rightarrow> rat" where
  "pow2 e = (if 0 \<le> e then 2 ^ nat e else 1 / 2 ^ nat (- e))"

text \<open>For \<open>x > 0\<close>, the \<open>e\<close> with \<open>2^e \<le> x < 2^(e+1)\<close>.\<close>

definition binary_exponent :: "rat \<Rightarrow> int" where
  "binary_exponent x =
    (let (p, q) = quotient_of x;
         e = bit_length p - bit_length q
     in if pow2 e \<le> x then e else e - 1)"

definition round_half_even :: "rat \<Rightarrow> int" where
  "round_half_even q =
    (let f = \<lfloor>q\<rfloor>; d = q - of_int f
     in if d < 1 / 2 then f else if 1 / 2 < d then f + 1 else if even f then f else f + 1)"

text \<open>
  Rounding to binary64: the magnitude is measured in units of the last place of its
  binade, \<open>2^(e - 52)\<close>, and rounded to a whole number of them.
\<close>

definition round_double :: "rat \<Rightarrow> rat" where
  "round_double x =
    (if x = 0 then 0
     else (let a = \<bar>x\<bar>; ulp = pow2 (binary_exponent a - 52)
           in sgn x * (of_int (round_half_even (a / ulp)) * ulp)))"

text \<open>The operators \<open>+\<close>, \<open>-\<close>, \<open>*\<close> and \<open>/\<close> on numbers.\<close>

definition js_add :: "rat \<Rightarrow> rat \<Rightarrow> rat" where "js_add a b = round_double (a + b)"
definition js_sub :: "rat \<Rightarrow> rat \<Rightarrow> rat" where "js_sub a b = round_double (a - b)"
definition js_mul :: "rat \<Rightarrow> rat \<Rightarrow> rat" where "js_mul a b = round_double (a * b)"
definition js_div :: "rat \<Rightarrow> rat \<Rightarrow> rat" where "js_div a b = round_double (a / b)"

section \<open>The in-memory store (class Database)\<close>

text \<open>
  A JavaScript \<open>Map\<close> iterates in insertion order and \<open>set\<close> on a key that is present
  replaces the value where it stands: an association list read with \<^const>\<open>map_of\<close> and
  written with \<^const>\<open>AList.update\<close>.
\<close>

type_synonym ('k, 'v) jsmap = "('k \<times> 'v) list"

record Database =
  clients :: "(string, ClientProfile) jsmap"
  checklists :: "(string, DocumentChecklist) jsmap"
  appointments :: "(string, Appointment) jsmap"
  taxPros :: "(string, TaxProfessional) jsmap"
  reminders :: "(string, Reminder) jsmap"
  sessions :: "(string, IntakeSession) jsmap"

definition initializeTaxPros :: "TaxProfessional list" where
  "initializeTaxPros =
    [\<lparr>taxPro_id = ''tp-001'', taxPro_name = ''Sarah Johnson'',
      taxPro_email = ''sarah.johnson@taxfirm.com'',
      specializations = [spec_individual, spec_self_employment],
      maxComplexity = moderate, currentLoad = 3, maxDailyAppointments = 8,
      available = True, rating = round_double (48 / 10)\<rparr>,
     \<lparr>taxPro_id = ''tp-002'', taxPro_name = ''Michael Chen'',
      taxPro_email = ''michael.chen@taxfirm.com'',
      specializations = [spec_investments, spec_crypto, spec_foreign_income],
      maxComplexity = expert, currentLoad = 5, maxDailyAppointments = 6,
      available = True, rating = round_double (49 / 10)\<rparr>,
     \<lparr>taxPro_id = ''tp-003'', taxPro_name = ''Emily Rodriguez'',
      taxPro_email = ''emily.rodriguez@taxfirm.com'',
      specializations = [spec_small_business, spec_self_employment, spec_real_estate],
      maxComplexity = complex, currentLoad = 4, maxDailyAppointments = 7,
      available = True, rating = round_double (47 / 10)\<rparr>,
     \<lparr>taxPro_id = ''tp-004'', taxPro_name = ''James Wilson'',
      taxPro_email = ''james.wilson@taxfirm.com'',
      specializations = [spec_individual],
      maxComplexity = simple, currentLoad = 6, maxDailyAppointments = 12,
      available = True, rating = round_double (45 / 10)\<rparr>,
     \<lparr>taxPro_id = ''tp-005'', taxPro_name = ''Dr. Patricia Martinez'',
      taxPro_email = ''patricia.martinez@taxfirm.com'',
      specializations = [spec_estate_planning, spec_foreign_income, spec_audit_representation],
      maxComplexity = expert, currentLoad = 2, maxDailyAppointments = 4,
      available = True, rating = 5\<rparr>]"

definition newDatabase :: Database where
  "newDatabase =
    \<lparr>clients = [], checklists = [], appointments = [],
     taxPros = foldl (\<lambda>m tp. AList.update (taxPro_id tp) tp m) [] initializeTaxPros,
     reminders = [], sessions = []\<rparr>"

definition createClient :: "Database \<Rightarrow> ClientProfile \<Rightarrow> Database" where
  "createClient db client = db\<lparr>clients := AList.update (client_id client) client (clients db)\<rparr>"

definition getClient :: "Database \<Rightarrow> string \<Rightarrow> ClientProfile option" where
  "getClient db cid = map_of (clients db) cid"

text \<open>
  \<open>updateClient\<close> merges a partial object into the stored one and stamps \<open>updatedAt\<close>;
  the partial object is the function \<open>updates\<close> that sets its fields. The clock reading
  \<open>now\<close> is an input of every operation that calls \<open>new Date()\<close>.
\<close>

definition updateClient ::
  "Database \<Rightarrow> nat \<Rightarrow> string \<Rightarrow> (ClientProfile \<Rightarrow> ClientProfile) \<Rightarrow> Database" where
  "updateClient db now cid updates =
    (case map_of (clients db) cid of
       Some client \<Rightarrow>
         db\<lparr>clients := AList.update cid ((updates client)\<lparr>updatedAt := now\<rparr>) (clients db)\<rparr>
     | None \<Rightarrow> db)"

definition getAvailableTaxPros :: "Database \<Rightarrow> TaxProfessional list" where
  "getAvailableTaxPros db =
    filter (\<lambda>tp. available tp \<and> currentLoad tp < maxDailyAppointments tp)
      (map snd (taxPros db))"

definition getTaxPro :: "Database \<Rightarrow> string \<Rightarrow> TaxProfessional option" where
  "getTaxPro db tid = map_of (taxPros db) tid"

definition getAppointment :: "Database \<Rightarrow> string \<Rightarrow> Appointment option" where
  "getAppointment db aid = map_of (appointments db) aid"

definition createReminder :: "Database \<Rightarrow> Reminder \<Rightarrow> Database" where
  "createReminder db reminder =
    db\<lparr>reminders := AList.update (reminder_id reminder) reminder (reminders db)\<rparr>"

definition getReminder :: "Database \<Rightarrow> string \<Rightarrow> Reminder option" where
  "getReminder db rid = map_of (reminders db) rid"

definition markReminderSent :: "Database \<Rightarrow> nat \<Rightarrow> string \<Rightarrow> Database" where
  "markReminderSent db now rid =
    (case map_of (reminders db) rid of
       Some reminder \<Rightarrow>
         db\<lparr>reminders :=
              AList.update rid (reminder\<lparr>sent := True, sentAt := Some now\<rparr>) (reminders db)\<rparr>
     | None \<Rightarrow> db)"

definition updateTaxProLoad :: "Database \<Rightarrow> string \<Rightarrow> int \<Rightarrow> Database" where
  "updateTaxProLoad db tid change =
    (case map_of (taxPros db) tid of
       Some taxPro \<Rightarrow>
         db\<lparr>taxPros :=
              AList.update tid (taxPro\<lparr>currentLoad := max 0 (currentLoad taxPro + change)\<rparr>)
                (taxPros db)\<rparr>
     | None \<Rightarrow> db)"

section \<open>Complexity scoring (services/routing.ts)\<close>

text \<open>
  \<open>COMPLEXITY_WEIGHTS\<close>: one table per attribute. The source reads a table with
  \<open>table[key] || 0\<close>; every key of the typed input is in its table, so the fallback
  never fires and each table is a total function.
\<close>

fun weight_filingStatus :: "FilingStatus \<Rightarrow> int" where
  "weight_filingStatus single = 0"
| "weight_filingStatus married_filing_jointly = 5"
| "weight_filingStatus married_filing_separately = 15"
| "weight_filingStatus head_of_household = 10"
| "weight_filingStatus qualifying_widow = 10"

fun weight_incomeTypes :: "IncomeType \<Rightarrow> int" where
  "weight_incomeTypes wages_w2 = 0"
| "weight_incomeTypes self_employment_1099nec = 20"
| "weight_incomeTypes freelance_1099misc = 15"
| "weight_incomeTypes gig_economy = 15"
| "weight_incomeTypes rental_income = 25"
| "weight_incomeTypes investment_income = 10"
| "weight_incomeTypes dividends = 5"
| "weight_incomeTypes capital_gains = 15"
| "weight_incomeTypes retirement_distributions = 5"
| "weight_incomeTypes social_security = 5"
| "weight_incomeTypes unemployment = 5"
| "weight_incomeTypes alimony_received = 10"
| "weight_incomeTypes gambling_winnings = 10"
| "weight_incomeTypes crypto_income = 30"
| "weight_incomeTypes foreign_income = 35"
| "weight_incomeTypes other = 10"

fun weight_deductions :: "DeductionType \<Rightarrow> int" where
  "weight_deductions mortgage_interest = 5"
| "weight_deductions property_taxes = 5"
| "weight_deductions state_local_taxes = 5"
| "weight_deductions charitable_donations = 5"
| "weight_deductions medical_expenses = 10"
| "weight_deductions student_loan_interest = 0"
| "weight_deductions educator_expenses = 0"
| "weight_deductions home_office = 15"
| "weight_deductions business_expenses = 20"
| "weight_deductions hsa_contributions = 5"
| "weight_deductions ira_contributions = 5"
| "weight_deductions contributions_401k = 0"
| "weight_deductions childcare_expenses = 5"
| "weight_deductions alimony_paid = 10"
| "weight_deductions moving_expenses = 10"
| "weight_deductions none = 0"

definition weight_crypto :: int where "weight_crypto = 25"
definition weight_foreignAccounts :: int where "weight_foreignAccounts = 30"
definition weight_rentalProperty :: int where "weight_rentalProperty = 20"
definition weight_businessIncome :: int where "weight_businessIncome = 20"
definition dependentsBase :: int where "dependentsBase = 5"
definition dependentsMax :: int where "dependentsMax = 20"

text \<open>\<open>COMPLEXITY_THRESHOLDS\<close>: the \<open>min\<close> and \<open>max\<close> of each tier, as the table has them.\<close>

fun threshold_min :: "ComplexityLevel \<Rightarrow> int" where
  "threshold_min simple = 0"
| "threshold_min moderate = 21"
| "threshold_min complex = 51"
| "threshold_min expert = 81"

fun threshold_max :: "ComplexityLevel \<Rightarrow> int" where
  "threshold_max simple = 20"
| "threshold_max moderate = 50"
| "threshold_max complex = 80"
| "threshold_max expert = 200"

text \<open>Each \<open>forEach\<close> that adds to \<open>score\<close> is a left fold over the list.\<close>

definition calculateComplexityScore :: "ClientProfile \<Rightarrow> int" where
  "calculateComplexityScore client =
    (let score = 0;
         score = score + weight_filingStatus (filingStatus client);
         score = foldl (\<lambda>s t. s + weight_incomeTypes t) score (incomeTypes client);
         score = foldl (\<lambda>s d. s + weight_deductions d) score (deductions client);
         score = (if hasCrypto client then score + weight_crypto else score);
         score = (if hasForeignAccounts client then score + weight_foreignAccounts else score);
         score = (if hasRentalProperty client then score + weight_rentalProperty else score);
         score = (if hasBusinessIncome client then score + weight_businessIncome else score);
         dependentScore = min (int (length (dependents client)) * dependentsBase) dependentsMax;
         score = score + dependentScore
     in min score 100)"

definition getComplexityLevel :: "int \<Rightarrow> ComplexityLevel" where
  "getComplexityLevel score =
    (if score \<le> threshold_max simple then simple
     else if score \<le> threshold_max moderate then moderate
     else if score \<le> threshold_max complex then complex
     else expert)"


section \<open>JavaScript library functions used by the services\<close>

text \<open>\<open>Array.prototype.indexOf\<close>: the first position of the element, \<open>-1\<close> when absent.\<close>

fun indexOf :: "'a list \<Rightarrow> 'a \<Rightarrow> int" where
  "indexOf [] x = -1"
| "indexOf (y # ys) x =
     (if y = x then 0 else (let i = indexOf ys x in if i < 0 then -1 else i + 1))"

text \<open>
  \<open>Array.prototype.sort\<close> with a comparator is a stable sort: \<open>cmp a b \<le> 0\<close> keeps
  \<open>a\<close> before \<open>b\<close>, and elements that compare equal keep their input order. Insertion
  from the right end computes that order.
\<close>

fun insert_by :: "('a \<Rightarrow> 'a \<Rightarrow> 'b::{zero,ord}) \<Rightarrow> 'a \<Rightarrow> 'a list \<Rightarrow> 'a list" where
  "insert_by cmp x [] = [x]"
| "insert_by cmp x (y # ys) =
     (if cmp x y \<le> 0 then x # y # ys else y # insert_by cmp x ys)"

definition sort_by :: "('a \<Rightarrow> 'a \<Rightarrow> 'b::{zero,ord}) \<Rightarrow> 'a list \<Rightarrow> 'a list" where
  "sort_by cmp xs = foldr (insert_by cmp) xs []"

text \<open>A number printed in decimal, as a template literal prints a non-negative integer.\<close>

fun digit_char :: "nat \<Rightarrow> char" where
  "digit_char n = char_of (48 + n)"

fun show_nat :: "nat \<Rightarrow> string" where
  "show_nat n = (if n < 10 then [digit_char n] else show_nat (n div 10) @ [digit_char (n mod 10)])"

text \<open>\<open>Array.prototype.join\<close> with a separator.\<close>

fun join :: "string \<Rightarrow> string list \<Rightarrow> string" where
  "join sep [] = []"
| "join sep [x] = x"
| "join sep (x # y # ys) = x @ sep @ join sep (y # ys)"

section \<open>Routing (services/routing.ts)\<close>

text \<open>
  \<open>getRequiredSpecializations\<close> collects into a \<open>Set\<close>, which keeps insertion order and
  ignores a value that is already present, and returns \<open>Array.from\<close> of it.
\<close>

definition set_add :: "'a list \<Rightarrow> 'a \<Rightarrow> 'a list" where
  "set_add s x = (if x \<in> set s then s else s @ [x])"

definition getRequiredSpecializations :: "ClientProfile \<Rightarrow> Specialization list" where
  "getRequiredSpecializations client =
    (let specs = [];
         specs = set_add specs spec_individual;
         specs =
           (if hasBusinessIncome client
               \<or> self_employment_1099nec \<in> set (incomeTypes client)
               \<or> freelance_1099misc \<in> set (incomeTypes client)
               \<or> gig_economy \<in> set (incomeTypes client)
            then (let specs = set_add specs spec_self_employment
                  in if hasBusinessIncome client then set_add specs spec_small_business
                     else specs)
            else specs);
         specs =
           (if investment_income \<in> set (incomeTypes client)
               \<or> dividends \<in> set (incomeTypes client)
               \<or> capital_gains \<in> set (incomeTypes client)
            then set_add specs spec_investments else specs);
         specs =
           (if hasRentalProperty client \<or> rental_income \<in> set (incomeTypes client)
            then set_add specs spec_real_estate else specs);
         specs =
           (if hasCrypto client \<or> crypto_income \<in> set (incomeTypes client)
            then set_add specs spec_crypto else specs);
         specs =
           (if hasForeignAccounts client \<or> foreign_income \<in> set (incomeTypes client)
            then set_add specs spec_foreign_income else specs)
     in specs)"

record ScoredPro =
  pro :: TaxProfessional
  score :: rat
  reasons :: "string list"

record FindResult =
  found_taxPro :: "TaxProfessional option"
  reason :: Message
  found_alternates :: "TaxProfessional list"

definition proComplexityOrder :: "ComplexityLevel list" where
  "proComplexityOrder = [simple, moderate, complex, expert]"

text \<open>
  The callback of \<open>availablePros.map\<close> in \<open>findBestTaxPro\<close>; every \<open>+=\<close>, \<open>-=\<close>,
  \<open>*\<close> and \<open>/\<close> of it is the operation on numbers.
\<close>

definition scorePro :: "ComplexityLevel \<Rightarrow> Specialization list \<Rightarrow> TaxProfessional \<Rightarrow> ScoredPro" where
  "scorePro complexityLevel requiredSpecs p =
    (let score = 0;
         reasons = [];
         proMaxIndex = indexOf proComplexityOrder (maxComplexity p);
         requiredIndex = indexOf proComplexityOrder complexityLevel;
         (score, reasons) =
           (if proMaxIndex < requiredIndex
            then (js_sub score 100, reasons @ [''Cannot handle complexity level''])
            else (js_add score 20, reasons @ [''Can handle complexity'']));
         matchingSpecs = filter (\<lambda>spec. spec \<in> set (specializations p)) requiredSpecs;
         specMatchScore =
           js_mul (js_div (of_nat (length matchingSpecs)) (of_nat (length requiredSpecs))) 50;
         score = js_add score specMatchScore;
         reasons =
           (if length matchingSpecs = length requiredSpecs
            then reasons @ [''Full specialization match'']
            else if length matchingSpecs > 0
            then reasons @ [''Partial specialization match ('' @ show_nat (length matchingSpecs)
                            @ ''/'' @ show_nat (length requiredSpecs) @ '')'']
            else reasons);
         loadScore =
           js_mul (js_div (js_sub (of_int (maxDailyAppointments p)) (of_int (currentLoad p)))
                     (of_int (maxDailyAppointments p))) 20;
         score = js_add score loadScore;
         score = js_add score (js_mul (rating p) 2)
     in \<lparr>pro = p, score = score, reasons = reasons\<rparr>)"

definition findBestTaxPro :: "Database \<Rightarrow> nat \<Rightarrow> ClientProfile \<Rightarrow> Database \<times> FindResult" where
  "findBestTaxPro db now client =
    (let complexityScore' = calculateComplexityScore client;
         complexityLevel = getComplexityLevel complexityScore';
         requiredSpecs = getRequiredSpecializations client;
         db = updateClient db now (client_id client) (\<lambda>c. c\<lparr>complexityScore := complexityScore'\<rparr>);
         availablePros = getAvailableTaxPros db
     in if length availablePros = 0
        then (db, \<lparr>found_taxPro = None,
                   reason = Text ''No tax professionals are currently available. Please try again later.'',
                   found_alternates = []\<rparr>)
        else
          (let scoredPros = map (scorePro complexityLevel requiredSpecs) availablePros;
               scoredPros = sort_by (\<lambda>a b. js_sub (score b) (score a)) scoredPros;
               best = hd scoredPros;
               alternates = map pro (take 2 (drop 1 scoredPros))
           in if score best < 0
              then (db, \<lparr>found_taxPro = None,
                         reason = NoProCanHandle complexityLevel requiredSpecs,
                         found_alternates = []\<rparr>)
              else (db, \<lparr>found_taxPro = Some (pro best),
                         reason = RoutingReason client (pro best) complexityLevel requiredSpecs,
                         found_alternates = alternates\<rparr>)))"

record RouteResult =
  success :: bool
  routed_taxPro :: "TaxProfessional option"
  message :: Message
  routed_alternates :: "TaxProfessional list option"

text \<open>
  \<open>updateTaxProLoad\<close> writes the new load into the stored object, and the object that
  \<open>routeClientToTaxPro\<close> returns is that stored object (every entry of \<open>taxPros\<close> is
  stored under its own id): the result is read back from the store.
\<close>

definition routeClientToTaxPro :: "Database \<Rightarrow> nat \<Rightarrow> string \<Rightarrow> Database \<times> RouteResult" where
  "routeClientToTaxPro db now clientId =
    (case getClient db clientId of
       None \<Rightarrow>
         (db, \<lparr>success = False, routed_taxPro = None, message = Text ''Client not found'',
               routed_alternates = None\<rparr>)
     | Some client \<Rightarrow>
         (let (db, found) = findBestTaxPro db now client
          in case found_taxPro found of
               None \<Rightarrow>
                 (db, \<lparr>success = False, routed_taxPro = None, message = reason found,
                       routed_alternates = Some (found_alternates found)\<rparr>)
             | Some taxPro \<Rightarrow>
                 (let db = updateClient db now clientId
                             (\<lambda>c. c\<lparr>assignedTaxPro := Some (taxPro_id taxPro)\<rparr>);
                      db = updateTaxProLoad db (taxPro_id taxPro) 1;
                      taxPro' = (case map_of (taxPros db) (taxPro_id taxPro) of
                                   Some stored \<Rightarrow> stored | None \<Rightarrow> taxPro)
                  in (db, \<lparr>success = True, routed_taxPro = Some taxPro', message = reason found,
                           routed_alternates = Some (found_alternates found)\<rparr>))))"

text \<open>An exception thrown by a service: \<open>throw new Error(text)\<close>.\<close>

datatype error = Error string

text \<open>
  \<open>Date.now()\<close> and \<open>Math.random().toString(36).substr(2, 9)\<close> are inputs: an identifier
  generator takes the clock reading and the random suffix.
\<close>

definition generateAppointmentId :: "nat \<Rightarrow> string \<Rightarrow> string" where
  "generateAppointmentId now rnd = ''apt-'' @ show_nat now @ ''-'' @ rnd"

fun optimizedDurations :: "ComplexityLevel \<Rightarrow> int" where
  "optimizedDurations simple = 15"
| "optimizedDurations moderate = 20"
| "optimizedDurations complex = 30"
| "optimizedDurations expert = 45"

fun standardDurations :: "ComplexityLevel \<Rightarrow> int" where
  "standardDurations simple = 30"
| "standardDurations moderate = 45"
| "standardDurations complex = 60"
| "standardDurations expert = 90"

definition createAppointment ::
  "Database \<Rightarrow> nat \<Rightarrow> string \<Rightarrow> string \<Rightarrow> string \<Rightarrow> nat \<Rightarrow> AppointmentType
     \<Rightarrow> error + (Database \<times> Appointment)" where
  "createAppointment db now rnd clientId taxProId' scheduledAt' type =
    (case getClient db clientId of
       None \<Rightarrow> Inl (Error ''Client not found'')
     | Some client \<Rightarrow>
         (let complexityLevel = getComplexityLevel (complexityScore client);
              duration' = (if intakeCompleted client then optimizedDurations complexityLevel
                           else standardDurations complexityLevel);
              appointment =
                \<lparr>apt_id = generateAppointmentId now rnd, apt_clientId = clientId,
                 taxProId = taxProId', scheduledAt = scheduledAt', duration = duration',
                 status = scheduled, apt_type = type, apt_notes = None,
                 intakeScore = (if intakeCompleted client then 100 else 0),
                 estimatedComplexity = complexityLevel\<rparr>;
              db = db\<lparr>appointments := AList.update (apt_id appointment) appointment (appointments db)\<rparr>;
              db = updateClient db now clientId (\<lambda>c. c\<lparr>appointmentId := Some (apt_id appointment)\<rparr>)
          in Inr (db, appointment)))"

record Estimate =
  estimatedDuration :: int
  savings :: int
  est_complexityLevel :: ComplexityLevel
  est_message :: Message

definition getAppointmentEstimate :: "Database \<Rightarrow> string \<Rightarrow> error + Estimate" where
  "getAppointmentEstimate db clientId =
    (case getClient db clientId of
       None \<Rightarrow> Inl (Error ''Client not found'')
     | Some client \<Rightarrow>
         (let complexityLevel = getComplexityLevel (complexityScore client);
              standardTime = standardDurations complexityLevel;
              optimizedTime = optimizedDurations complexityLevel;
              savings' = standardTime - optimizedTime
          in Inr \<lparr>estimatedDuration = (if intakeCompleted client then optimizedTime else standardTime),
                  savings = (if intakeCompleted client then savings' else 0),
                  est_complexityLevel = complexityLevel,
                  est_message = EstimateMessage complexityLevel (intakeCompleted client)
                                  standardTime optimizedTime savings'\<rparr>))"


section \<open>Document checklist (services/checklist.ts)\<close>

text \<open>
  \<open>DOCUMENT_TEMPLATES\<close>: the static table from a template key to the fields that every
  item made from it carries.
\<close>

record DocumentTemplate =
  tmpl_name :: string
  tmpl_description :: string
  tmpl_category :: DocumentCategory
  tmpl_required :: bool
  tmpl_source :: "string option"

definition DOCUMENT_TEMPLATES :: "(string \<times> DocumentTemplate) list" where
  "DOCUMENT_TEMPLATES =
    [
     (''id_primary'',
      \<lparr>tmpl_name = ''Government-issued Photo ID'',
       tmpl_description = ''Valid driver's license, state ID, or passport'',
       tmpl_category = cat_identity, tmpl_required = True, tmpl_source = None\<rparr>),
     (''id_ssn_card'',
      \<lparr>tmpl_name = ''Social Security Card'',
       tmpl_description = ''SSN card for yourself and all dependents'',
       tmpl_category = cat_identity, tmpl_required = True, tmpl_source = None\<rparr>),
     (''id_prior_return'',
      \<lparr>tmpl_name = ''Prior Year Tax Return'',
       tmpl_description = ''Complete copy of last year's federal and state tax returns'',
       tmpl_category = cat_identity, tmpl_required = False, tmpl_source = None\<rparr>),
     (''income_w2'',
      \<lparr>tmpl_name = ''W-2 Forms'',
       tmpl_description = ''W-2 from each employer showing wages and withholdings'',
       tmpl_category = cat_income, tmpl_required = True, tmpl_source = None\<rparr>),
     (''income_1099nec'',
      \<lparr>tmpl_name = ''1099-NEC Forms'',
       tmpl_description = ''Non-employee compensation from clients/companies (Uber, freelance work, etc.)'',
       tmpl_category = cat_income, tmpl_required = True, tmpl_source = None\<rparr>),
     (''income_1099misc'',
      \<lparr>tmpl_name = ''1099-MISC Forms'',
       tmpl_description = ''Miscellaneous income including royalties, prizes, awards'',
       tmpl_category = cat_income, tmpl_required = True, tmpl_source = None\<rparr>),
     (''income_1099k'',
      \<lparr>tmpl_name = ''1099-K Forms'',
       tmpl_description = ''Payment card and third-party network transactions (PayPal, Venmo, etc.)'',
       tmpl_category = cat_income, tmpl_required = True, tmpl_source = None\<rparr>),
     (''income_1099div'',
      \<lparr>tmpl_name = ''1099-DIV Forms'',
       tmpl_description = ''Dividend income from investments'',
       tmpl_category = cat_investments, tmpl_required = True, tmpl_source = None\<rparr>),
     (''income_1099int'',
      \<lparr>tmpl_name = ''1099-INT Forms'',
       tmpl_description = ''Interest income from banks and investments'',
       tmpl_category = cat_investments, tmpl_required = True, tmpl_source = None\<rparr>),
     (''income_1099b'',
      \<lparr>tmpl_name = ''1099-B Forms'',
       tmpl_description = ''Proceeds from broker and barter exchange transactions'',
       tmpl_category = cat_investments, tmpl_required = True, tmpl_source = None\<rparr>),
     (''income_1099r'',
      \<lparr>tmpl_name = ''1099-R Forms'',
       tmpl_description = ''Distributions from pensions, annuities, retirement plans, IRAs'',
       tmpl_category = cat_income, tmpl_required = True, tmpl_source = None\<rparr>),
     (''income_ssa1099'',
      \<lparr>tmpl_name = ''SSA-1099'',
       tmpl_description = ''Social Security benefit statement'',
       tmpl_category = cat_income, tmpl_required = True, tmpl_source = None\<rparr>),
     (''income_1099g'',
      \<lparr>tmpl_name = ''1099-G Forms'',
       tmpl_description = ''Unemployment compensation and state tax refunds'',
       tmpl_category = cat_income, tmpl_required = True, tmpl_source = None\<rparr>),
     (''income_crypto'',
      \<lparr>tmpl_name = ''Cryptocurrency Transaction Records'',
       tmpl_description = ''Complete transaction history from all crypto exchanges (Coinbase, Binance, etc.)'',
       tmpl_category = cat_investments, tmpl_required = True, tmpl_source = None\<rparr>),
     (''income_crypto_1099'',
      \<lparr>tmpl_name = ''Crypto 1099 Forms'',
       tmpl_description = ''1099-MISC or 1099-B from cryptocurrency exchanges'',
       tmpl_category = cat_investments, tmpl_required = False, tmpl_source = None\<rparr>),
     (''income_rental'',
      \<lparr>tmpl_name = ''Rental Income Records'',
       tmpl_description = ''Annual rental income summary for each property'',
       tmpl_category = cat_property, tmpl_required = True, tmpl_source = None\<rparr>),
     (''expense_rental'',
      \<lparr>tmpl_name = ''Rental Expense Records'',
       tmpl_description = ''Receipts for repairs, maintenance, property management, insurance'',
       tmpl_category = cat_property, tmpl_required = True, tmpl_source = None\<rparr>),
     (''doc_1098_rental'',
      \<lparr>tmpl_name = ''1098 Mortgage Interest (Rental)'',
       tmpl_description = ''Mortgage interest statement for rental properties'',
       tmpl_category = cat_property, tmpl_required = True, tmpl_source = None\<rparr>),
     (''income_foreign'',
      \<lparr>tmpl_name = ''Foreign Income Documentation'',
       tmpl_description = ''Income statements from foreign employers or sources'',
       tmpl_category = cat_income, tmpl_required = True, tmpl_source = None\<rparr>),
     (''doc_fbar'',
      \<lparr>tmpl_name = ''Foreign Bank Account Records'',
       tmpl_description = ''Statements showing highest balances for all foreign accounts (FBAR requirement)'',
       tmpl_category = cat_other, tmpl_required = True, tmpl_source = None\<rparr>),
     (''income_business'',
      \<lparr>tmpl_name = ''Business Income Records'',
       tmpl_description = ''Profit & Loss statement or income summary for your business'',
       tmpl_category = cat_business, tmpl_required = True, tmpl_source = None\<rparr>),
     (''expense_business'',
      \<lparr>tmpl_name = ''Business Expense Records'',
       tmpl_description = ''Receipts and records for all business expenses'',
       tmpl_category = cat_business, tmpl_required = True, tmpl_source = None\<rparr>),
     (''doc_business_assets'',
      \<lparr>tmpl_name = ''Business Asset Records'',
       tmpl_description = ''Records of equipment, vehicles, and other assets purchased for business'',
       tmpl_category = cat_business, tmpl_required = False, tmpl_source = None\<rparr>),
     (''ded_1098'',
      \<lparr>tmpl_name = ''1098 Mortgage Interest Statement'',
       tmpl_description = ''Shows mortgage interest paid during the year'',
       tmpl_category = cat_property, tmpl_required = True, tmpl_source = None\<rparr>),
     (''ded_property_tax'',
      \<lparr>tmpl_name = ''Property Tax Statements'',
       tmpl_description = ''Annual property tax bills or statements'',
       tmpl_category = cat_property, tmpl_required = True, tmpl_source = None\<rparr>),
     (''ded_charity_cash'',
      \<lparr>tmpl_name = ''Charitable Donation Receipts'',
       tmpl_description = ''Receipts for cash donations to qualified charities'',
       tmpl_category = cat_expenses, tmpl_required = True, tmpl_source = None\<rparr>),
     (''ded_charity_noncash'',
      \<lparr>tmpl_name = ''Non-Cash Donation Records'',
       tmpl_description = ''Receipts and fair market value for donated items'',
       tmpl_category = cat_expenses, tmpl_required = False, tmpl_source = None\<rparr>),
     (''ded_1098e'',
      \<lparr>tmpl_name = ''1098-E Student Loan Interest'',
       tmpl_description = ''Statement showing student loan interest paid'',
       tmpl_category = cat_education, tmpl_required = True, tmpl_source = None\<rparr>),
     (''ded_1098t'',
      \<lparr>tmpl_name = ''1098-T Tuition Statement'',
       tmpl_description = ''Statement of tuition paid for higher education'',
       tmpl_category = cat_education, tmpl_required = True, tmpl_source = None\<rparr>),
     (''ded_401k'',
      \<lparr>tmpl_name = ''401(k) Contribution Records'',
       tmpl_description = ''Year-end statement showing 401(k) contributions (usually on W-2)'',
       tmpl_category = cat_other, tmpl_required = False, tmpl_source = None\<rparr>),
     (''ded_ira'',
      \<lparr>tmpl_name = ''IRA Contribution Records'',
       tmpl_description = ''Form 5498 or statements showing IRA contributions'',
       tmpl_category = cat_other, tmpl_required = True, tmpl_source = None\<rparr>),
     (''ded_hsa'',
      \<lparr>tmpl_name = ''HSA Contribution Records'',
       tmpl_description = ''Form 5498-SA or statements showing HSA contributions'',
       tmpl_category = cat_healthcare, tmpl_required = True, tmpl_source = None\<rparr>),
     (''ded_1099sa'',
      \<lparr>tmpl_name = ''1099-SA HSA Distributions'',
       tmpl_description = ''Statement of HSA distributions'',
       tmpl_category = cat_healthcare, tmpl_required = True, tmpl_source = None\<rparr>),
     (''ded_medical'',
      \<lparr>tmpl_name = ''Medical Expense Records'',
       tmpl_description = ''Receipts for out-of-pocket medical expenses'',
       tmpl_category = cat_healthcare, tmpl_required = False, tmpl_source = None\<rparr>),
     (''ded_childcare'',
      \<lparr>tmpl_name = ''Childcare Provider Information'',
       tmpl_description = ''Provider name, address, tax ID, and amount paid'',
       tmpl_category = cat_expenses, tmpl_required = True, tmpl_source = None\<rparr>),
     (''hc_1095a'',
      \<lparr>tmpl_name = ''1095-A Health Insurance Marketplace'',
       tmpl_description = ''Statement from Healthcare.gov if you had marketplace insurance'',
       tmpl_category = cat_healthcare, tmpl_required = True, tmpl_source = None\<rparr>),
     (''hc_1095b'',
      \<lparr>tmpl_name = ''1095-B Health Coverage'',
       tmpl_description = ''Statement from health insurance provider'',
       tmpl_category = cat_healthcare, tmpl_required = False, tmpl_source = None\<rparr>),
     (''ded_home_office'',
      \<lparr>tmpl_name = ''Home Office Records'',
       tmpl_description = ''Square footage of home and office, home expenses (utilities, rent/mortgage, etc.)'',
       tmpl_category = cat_business, tmpl_required = True, tmpl_source = None\<rparr>),
     (''gig_uber'',
      \<lparr>tmpl_name = ''1099-NEC from Uber'',
       tmpl_description = ''Non-employee compensation from Uber'',
       tmpl_category = cat_income, tmpl_required = True, tmpl_source = Some ''Uber''\<rparr>),
     (''gig_lyft'',
      \<lparr>tmpl_name = ''1099-NEC from Lyft'',
       tmpl_description = ''Non-employee compensation from Lyft'',
       tmpl_category = cat_income, tmpl_required = True, tmpl_source = Some ''Lyft''\<rparr>),
     (''gig_doordash'',
      \<lparr>tmpl_name = ''1099-NEC from DoorDash'',
       tmpl_description = ''Non-employee compensation from DoorDash'',
       tmpl_category = cat_income, tmpl_required = True, tmpl_source = Some ''DoorDash''\<rparr>),
     (''gig_mileage'',
      \<lparr>tmpl_name = ''Mileage Log'',
       tmpl_description = ''Record of business miles driven for gig work'',
       tmpl_category = cat_business, tmpl_required = True, tmpl_source = None\<rparr>)]"

fun INCOME_TO_DOCUMENTS :: "IncomeType \<Rightarrow> string list" where
  "INCOME_TO_DOCUMENTS wages_w2 = [''income_w2'']"
| "INCOME_TO_DOCUMENTS self_employment_1099nec = [''income_1099nec'', ''income_1099k'', ''expense_business'']"
| "INCOME_TO_DOCUMENTS freelance_1099misc = [''income_1099misc'', ''income_1099nec'', ''expense_business'']"
| "INCOME_TO_DOCUMENTS gig_economy = [''income_1099nec'', ''income_1099k'', ''gig_mileage'']"
| "INCOME_TO_DOCUMENTS rental_income = [''income_rental'', ''expense_rental'', ''doc_1098_rental'']"
| "INCOME_TO_DOCUMENTS investment_income = [''income_1099b'', ''income_1099int'']"
| "INCOME_TO_DOCUMENTS dividends = [''income_1099div'']"
| "INCOME_TO_DOCUMENTS capital_gains = [''income_1099b'']"
| "INCOME_TO_DOCUMENTS retirement_distributions = [''income_1099r'']"
| "INCOME_TO_DOCUMENTS social_security = [''income_ssa1099'']"
| "INCOME_TO_DOCUMENTS unemployment = [''income_1099g'']"
| "INCOME_TO_DOCUMENTS alimony_received = []"
| "INCOME_TO_DOCUMENTS gambling_winnings = []"
| "INCOME_TO_DOCUMENTS crypto_income = [''income_crypto'', ''income_crypto_1099'']"
| "INCOME_TO_DOCUMENTS foreign_income = [''income_foreign'', ''doc_fbar'']"
| "INCOME_TO_DOCUMENTS other = []"

fun DEDUCTION_TO_DOCUMENTS :: "DeductionType \<Rightarrow> string list" where
  "DEDUCTION_TO_DOCUMENTS mortgage_interest = [''ded_1098'']"
| "DEDUCTION_TO_DOCUMENTS property_taxes = [''ded_property_tax'']"
| "DEDUCTION_TO_DOCUMENTS state_local_taxes = []"
| "DEDUCTION_TO_DOCUMENTS charitable_donations = [''ded_charity_cash'', ''ded_charity_noncash'']"
| "DEDUCTION_TO_DOCUMENTS medical_expenses = [''ded_medical'']"
| "DEDUCTION_TO_DOCUMENTS student_loan_interest = [''ded_1098e'']"
| "DEDUCTION_TO_DOCUMENTS educator_expenses = []"
| "DEDUCTION_TO_DOCUMENTS home_office = [''ded_home_office'']"
| "DEDUCTION_TO_DOCUMENTS business_expenses = [''expense_business'', ''doc_business_assets'']"
| "DEDUCTION_TO_DOCUMENTS hsa_contributions = [''ded_hsa'', ''ded_1099sa'']"
| "DEDUCTION_TO_DOCUMENTS ira_contributions = [''ded_ira'']"
| "DEDUCTION_TO_DOCUMENTS contributions_401k = [''ded_401k'']"
| "DEDUCTION_TO_DOCUMENTS childcare_expenses = [''ded_childcare'']"
| "DEDUCTION_TO_DOCUMENTS alimony_paid = []"
| "DEDUCTION_TO_DOCUMENTS moving_expenses = []"
| "DEDUCTION_TO_DOCUMENTS none = []"

definition generateDocumentId :: "nat \<Rightarrow> string \<Rightarrow> string" where
  "generateDocumentId now rnd = ''doc-'' @ show_nat now @ ''-'' @ rnd"

text \<open>
  \<open>String.prototype.localeCompare\<close>, used on the category names only: lower-case ASCII
  words, which it orders letter by letter.
\<close>

fun category_name :: "DocumentCategory \<Rightarrow> string" where
  "category_name cat_identity = ''identity''"
| "category_name cat_income = ''income''"
| "category_name cat_expenses = ''expenses''"
| "category_name cat_investments = ''investments''"
| "category_name cat_property = ''property''"
| "category_name cat_business = ''business''"
| "category_name cat_healthcare = ''healthcare''"
| "category_name cat_education = ''education''"
| "category_name cat_other = ''other''"

fun localeCompare :: "string \<Rightarrow> string \<Rightarrow> int" where
  "localeCompare [] [] = 0"
| "localeCompare [] (y # ys) = -1"
| "localeCompare (x # xs) [] = 1"
| "localeCompare (x # xs) (y # ys) =
     (if x = y then localeCompare xs ys
      else if (of_char x :: nat) < of_char y then -1 else 1)"

definition compareDocuments :: "DocumentItem \<Rightarrow> DocumentItem \<Rightarrow> int" where
  "compareDocuments a b =
    (if required a \<noteq> required b then (if required a then -1 else 1)
     else localeCompare (category_name (category a)) (category_name (category b)))"

text \<open>
  The loop that turns the key set into items. \<open>ids i\<close> is what the \<open>i\<close>-th call of
  \<open>generateDocumentId\<close> reads: the clock and the random suffix. A key without a template
  is skipped and consumes no identifier.
\<close>

fun makeDocuments ::
  "(nat \<Rightarrow> nat \<times> string) \<Rightarrow> string list \<Rightarrow> nat \<Rightarrow> string list \<Rightarrow> DocumentItem list" where
  "makeDocuments ids collectedKeys i [] = []"
| "makeDocuments ids collectedKeys i (docKey # docKeys) =
     (case map_of DOCUMENT_TEMPLATES docKey of
        None \<Rightarrow> makeDocuments ids collectedKeys i docKeys
      | Some template \<Rightarrow>
          \<lparr>doc_id = generateDocumentId (fst (ids i)) (snd (ids i)),
           doc_name = tmpl_name template,
           description = tmpl_description template,
           category = tmpl_category template,
           required = tmpl_required template,
           collected = (docKey \<in> set collectedKeys),
           source = tmpl_source template,
           reminderSent = False,
           reminderSentAt = None,
           doc_notes = None\<rparr>
          # makeDocuments ids collectedKeys (Suc i) docKeys)"

text \<open>The key set that \<open>generateDocumentChecklist\<close> builds before it makes the items.\<close>

definition documentKeys :: "ClientProfile \<Rightarrow> string list" where
  "documentKeys client =
    (let documentSet = [];
         documentSet = foldl set_add documentSet [''id_primary'', ''id_ssn_card'', ''id_prior_return''];
         documentSet =
           foldl (\<lambda>s incomeType. foldl set_add s (INCOME_TO_DOCUMENTS incomeType))
             documentSet (incomeTypes client);
         documentSet =
           foldl (\<lambda>s deductionType. foldl set_add s (DEDUCTION_TO_DOCUMENTS deductionType))
             documentSet (deductions client);
         documentSet =
           (if hasCrypto client
            then foldl set_add documentSet [''income_crypto'', ''income_crypto_1099'']
            else documentSet);
         documentSet =
           (if hasForeignAccounts client
            then foldl set_add documentSet [''income_foreign'', ''doc_fbar'']
            else documentSet);
         documentSet =
           (if hasRentalProperty client
            then foldl set_add documentSet [''income_rental'', ''expense_rental'', ''doc_1098_rental'']
            else documentSet);
         documentSet =
           (if hasBusinessIncome client
            then foldl set_add documentSet
                   [''income_business'', ''expense_business'', ''doc_business_assets'', ''ded_home_office'']
            else documentSet);
         documentSet =
           (if hasHealthInsurance client
            then foldl set_add documentSet [''hc_1095a'', ''hc_1095b'']
            else documentSet)
     in documentSet)"

definition generateDocumentChecklist ::
  "Database \<Rightarrow> nat \<Rightarrow> (nat \<Rightarrow> nat \<times> string) \<Rightarrow> string
     \<Rightarrow> error + (Database \<times> DocumentChecklist)" where
  "generateDocumentChecklist db now ids clientId =
    (case getClient db clientId of
       None \<Rightarrow> Inl (Error ''Client not found'')
     | Some client \<Rightarrow>
         (let documentSet = documentKeys client;
              documents' = makeDocuments ids (documentsCollected client) 0 documentSet;
              documents' = sort_by compareDocuments documents';
              checklist = \<lparr>checklist_clientId = clientId, documents = documents',
                           generatedAt = now, lastUpdated = now\<rparr>;
              pending = map doc_id (filter (\<lambda>d. \<not> collected d \<and> required d) documents');
              db = updateClient db now clientId (\<lambda>c. c\<lparr>documentsPending := pending\<rparr>);
              db = db\<lparr>checklists := AList.update (checklist_clientId checklist) checklist (checklists db)\<rparr>
          in Inr (db, checklist)))"

definition getDocumentChecklist :: "Database \<Rightarrow> string \<Rightarrow> DocumentChecklist option" where
  "getDocumentChecklist db clientId = map_of (checklists db) clientId"

text \<open>\<open>db.updateChecklistItem\<close>: the first item with the id gets the partial update.\<close>

fun updateFirst :: "('a \<Rightarrow> bool) \<Rightarrow> ('a \<Rightarrow> 'a) \<Rightarrow> 'a list \<Rightarrow> 'a list" where
  "updateFirst P f [] = []"
| "updateFirst P f (x # xs) = (if P x then f x # xs else x # updateFirst P f xs)"

definition updateChecklistItem ::
  "Database \<Rightarrow> nat \<Rightarrow> string \<Rightarrow> string \<Rightarrow> (DocumentItem \<Rightarrow> DocumentItem) \<Rightarrow> Database" where
  "updateChecklistItem db now clientId documentId updates =
    (case map_of (checklists db) clientId of
       Some checklist \<Rightarrow>
         (if \<exists>d \<in> set (documents checklist). doc_id d = documentId
          then db\<lparr>checklists :=
                    AList.update clientId
                      (checklist\<lparr>documents :=
                                   updateFirst (\<lambda>d. doc_id d = documentId) updates (documents checklist),
                                 lastUpdated := now\<rparr>)
                      (checklists db)\<rparr>
          else db)
     | None \<Rightarrow> db)"

record MarkResult =
  mark_success :: bool
  mark_message :: string

definition markDocumentCollected ::
  "Database \<Rightarrow> nat \<Rightarrow> string \<Rightarrow> string \<Rightarrow> Database \<times> MarkResult" where
  "markDocumentCollected db now clientId documentId =
    (case map_of (checklists db) clientId of
       None \<Rightarrow> (db, \<lparr>mark_success = False, mark_message = ''Checklist not found''\<rparr>)
     | Some checklist \<Rightarrow>
         (case find (\<lambda>d. doc_id d = documentId) (documents checklist) of
            None \<Rightarrow> (db, \<lparr>mark_success = False, mark_message = ''Document not found in checklist''\<rparr>)
          | Some document \<Rightarrow>
              (let db = updateChecklistItem db now clientId documentId (\<lambda>d. d\<lparr>collected := True\<rparr>);
                   db =
                     (case getClient db clientId of
                        Some client \<Rightarrow>
                          (let collected' =
                                 (if documentId \<notin> set (documentsCollected client)
                                  then documentsCollected client @ [documentId]
                                  else documentsCollected client);
                               pending' = filter (\<lambda>i. i \<noteq> documentId) (documentsPending client)
                           in updateClient db now clientId
                                (\<lambda>c. c\<lparr>documentsCollected := collected', documentsPending := pending'\<rparr>))
                      | None \<Rightarrow> db)
               in (db, \<lparr>mark_success = True,
                        mark_message = ''Marked '' @ [CHR 0x22] @ doc_name document @ [CHR 0x22]
                                         @ '' as collected''\<rparr>))))"

definition getPendingDocuments :: "Database \<Rightarrow> string \<Rightarrow> DocumentItem list" where
  "getPendingDocuments db clientId =
    (case map_of (checklists db) clientId of
       None \<Rightarrow> []
     | Some checklist \<Rightarrow> filter (\<lambda>d. \<not> collected d \<and> required d) (documents checklist))"


section \<open>Guided intake (services/intake.ts)\<close>

text \<open>
  An answer is a string of code units below 256. The string methods the service calls:
  \<open>toLowerCase\<close> (the ASCII capitals and the Latin-1 capitals have a lower-case form in
  that range), \<open>includes\<close>, \<open>trim\<close>, \<open>split\<close> on one character, and the test of the
  phone pattern \<open>\d{3}[-.\s]?\d{3}[-.\s]?\d{4}\<close> at any position.
\<close>

definition toLowerCase_char :: "char \<Rightarrow> char" where
  "toLowerCase_char c =
    (let n = (of_char c :: nat)
     in if (65 \<le> n \<and> n \<le> 90) \<or> (192 \<le> n \<and> n \<le> 222 \<and> n \<noteq> 215)
        then char_of (n + 32) else c)"

definition toLowerCase :: "string \<Rightarrow> string" where
  "toLowerCase s = map toLowerCase_char s"

fun startsWith :: "string \<Rightarrow> string \<Rightarrow> bool" where
  "startsWith s [] = True"
| "startsWith [] (p # ps) = False"
| "startsWith (c # cs) (p # ps) = (c = p \<and> startsWith cs ps)"

fun str_includes :: "string \<Rightarrow> string \<Rightarrow> bool" where
  "str_includes [] pat = startsWith [] pat"
| "str_includes (c # cs) pat = (startsWith (c # cs) pat \<or> str_includes cs pat)"

definition isWhiteSpace :: "char \<Rightarrow> bool" where
  "isWhiteSpace c =
    (let n = (of_char c :: nat) in (9 \<le> n \<and> n \<le> 13) \<or> n = 32 \<or> n = 160)"

definition trim :: "string \<Rightarrow> string" where
  "trim s = rev (dropWhile isWhiteSpace (rev (dropWhile isWhiteSpace s)))"

fun split :: "char \<Rightarrow> string \<Rightarrow> string list" where
  "split sep [] = [[]]"
| "split sep (c # cs) =
     (if c = sep then [] # split sep cs
      else (case split sep cs of [] \<Rightarrow> [[c]] | p # ps \<Rightarrow> (c # p) # ps))"

definition isDigit :: "char \<Rightarrow> bool" where
  "isDigit c = (let n = (of_char c :: nat) in 48 \<le> n \<and> n \<le> 57)"

fun matchDigits :: "nat \<Rightarrow> string \<Rightarrow> string option" where
  "matchDigits 0 s = Some s"
| "matchDigits (Suc n) [] = None"
| "matchDigits (Suc n) (c # cs) = (if isDigit c then matchDigits n cs else None)"

definition skipSeparator :: "string \<Rightarrow> string" where
  "skipSeparator s =
    (case s of
       [] \<Rightarrow> []
     | c # cs \<Rightarrow> if c = CHR ''-'' \<or> c = CHR ''.'' \<or> isWhiteSpace c then cs else c # cs)"

definition matchPhoneAt :: "string \<Rightarrow> bool" where
  "matchPhoneAt s =
    (case matchDigits 3 s of
       None \<Rightarrow> False
     | Some r \<Rightarrow>
         (case matchDigits 3 (skipSeparator r) of
            None \<Rightarrow> False
          | Some r' \<Rightarrow> matchDigits 4 (skipSeparator r') \<noteq> None))"

fun testPhonePattern :: "string \<Rightarrow> bool" where
  "testPhonePattern [] = matchPhoneAt []"
| "testPhonePattern (c # cs) = (matchPhoneAt (c # cs) \<or> testPhonePattern cs)"

definition INTAKE_STEPS :: "IntakeStep list" where
  "INTAKE_STEPS =
    [step_personal_info, step_filing_status, step_dependents, step_employment,
     step_income_types, step_deductions, step_special_situations, step_document_upload,
     step_review, step_complete]"

fun INTAKE_QUESTIONS :: "IntakeStep \<Rightarrow> string list" where
  "INTAKE_QUESTIONS step_personal_info =
     [''What is your full legal name?'',
      ''What is your email address?'',
      ''What is your phone number?'',
      ''What is your date of birth?'',
      ''What is your current address?'']"
| "INTAKE_QUESTIONS step_filing_status =
     [''What is your filing status? (Single, Married Filing Jointly, Married Filing Separately, Head of Household, Qualifying Widow/Widower)'']"
| "INTAKE_QUESTIONS step_dependents =
     [''Do you have any dependents to claim?'',
      ''For each dependent, please provide: name, relationship, date of birth, and months lived with you.'']"
| "INTAKE_QUESTIONS step_employment =
     [''Who were your employers in 2024?'',
      ''For each employer, were you a W-2 employee or 1099 contractor?'',
      ''Did you have any self-employment or freelance income?'']"
| "INTAKE_QUESTIONS step_income_types =
     [''Besides employment, what other types of income did you receive? (investments, rental property, retirement distributions, etc.)'']"
| "INTAKE_QUESTIONS step_deductions =
     [''Do you own a home and pay mortgage interest?'',
      ''Did you make any charitable donations?'',
      ''Do you have student loans?'',
      ''Did you contribute to retirement accounts (401k, IRA)?'',
      ''Do you have any business expenses or home office deductions?'']"
| "INTAKE_QUESTIONS step_special_situations =
     [''Did you buy or sell cryptocurrency?'',
      ''Do you have any foreign bank accounts or foreign income?'',
      ''Did you buy or sell real estate?'',
      ''Did you have any major life changes (marriage, divorce, new baby, etc.)?'']"
| "INTAKE_QUESTIONS step_document_upload =
     [''Please upload or confirm you have gathered all required documents from your checklist.'']"
| "INTAKE_QUESTIONS step_review =
     [''Please review all your information and confirm it's accurate.'']"
| "INTAKE_QUESTIONS step_complete = []"

text \<open>The object literal of \<open>createNewClient\<close>, and the function that stores it.\<close>

definition newClientProfile :: "string \<Rightarrow> nat \<Rightarrow> ClientProfile" where
  "newClientProfile cid now =
    \<lparr>client_id = cid, firstName = [], lastName = [], email = [], phone = [],
     ssn = None, dateOfBirth = None, address = None,
     filingStatus = single, dependents = [], employmentInfo = [], incomeTypes = [],
     deductions = [], previousYearAGI = None,
     hasHealthInsurance = False, hasCrypto = False, hasForeignAccounts = False,
     hasRentalProperty = False, hasBusinessIncome = False,
     appointmentId = None, intakeCompleted = False, intakeCompletedAt = None,
     documentsCollected = [], documentsPending = [], complexityScore = 0,
     assignedTaxPro = None, client_notes = [], createdAt = now, updatedAt = now\<rparr>"

definition createNewClient :: "Database \<Rightarrow> nat \<Rightarrow> string \<Rightarrow> Database \<times> ClientProfile" where
  "createNewClient db now cid =
    (let client = newClientProfile cid now in (createClient db client, client))"

text \<open>Reading an array at an index: \<open>undefined\<close> outside the array.\<close>

definition at_index :: "'a list \<Rightarrow> int \<Rightarrow> 'a option" where
  "at_index xs i = (if 0 \<le> i \<and> i < int (length xs) then Some (xs ! nat i) else None)"

definition getCurrentQuestion :: "IntakeSession \<Rightarrow> string" where
  "getCurrentQuestion session =
    (let stepQuestions = INTAKE_QUESTIONS (currentStep session);
         stepResponses = filter (\<lambda>r. step r = currentStep session) (responses session);
         index = min (int (length stepResponses)) (int (length stepQuestions) - 1)
     in case at_index stepQuestions index of None \<Rightarrow> [] | Some q \<Rightarrow> q)"

definition isStepComplete :: "IntakeStep \<Rightarrow> string \<Rightarrow> bool" where
  "isStepComplete step' answer' =
    (let lowerAnswer = toLowerCase answer'
     in if step' = step_dependents \<and> (str_includes lowerAnswer ''no'' \<or> str_includes lowerAnswer ''none'')
        then True
        else if step' = step_special_situations \<and> str_includes lowerAnswer ''no''
                \<and> str_includes lowerAnswer ''none''
        then True
        else False)"

text \<open>\<open>[...new Set([...old, ...added])]\<close>: the old list followed by the new values, each once.\<close>

definition set_union :: "'a list \<Rightarrow> 'a list \<Rightarrow> 'a list" where
  "set_union old added = foldl set_add [] (old @ added)"

definition push_if :: "bool \<Rightarrow> 'a list \<Rightarrow> 'a list \<Rightarrow> 'a list" where
  "push_if b xs ys = (if b then xs @ ys else xs)"

text \<open>
  The \<open>switch\<close> of \<open>updateClientFromResponse\<close>: what an answer writes into the client
  object, by step.
\<close>

definition applyResponse :: "ClientProfile \<Rightarrow> IntakeStep \<Rightarrow> string \<Rightarrow> ClientProfile" where
  "applyResponse client step' answer' =
    (let lowerAnswer = toLowerCase answer'
     in case step' of
          step_personal_info \<Rightarrow>
            (if str_includes answer' ''@'' then client\<lparr>email := trim answer'\<rparr>
             else if testPhonePattern answer' then client\<lparr>phone := trim answer'\<rparr>
             else if str_includes answer' '' ''
             then (let parts = split CHR '' '' (trim answer')
                   in client\<lparr>firstName := hd parts, lastName := join '' '' (tl parts)\<rparr>)
             else client)
        | step_filing_status \<Rightarrow>
            (if str_includes lowerAnswer ''single'' then client\<lparr>filingStatus := single\<rparr>
             else if str_includes lowerAnswer ''jointly''
             then client\<lparr>filingStatus := married_filing_jointly\<rparr>
             else if str_includes lowerAnswer ''separately''
             then client\<lparr>filingStatus := married_filing_separately\<rparr>
             else if str_includes lowerAnswer ''head'' then client\<lparr>filingStatus := head_of_household\<rparr>
             else if str_includes lowerAnswer ''widow'' then client\<lparr>filingStatus := qualifying_widow\<rparr>
             else client)
        | step_income_types \<Rightarrow>
            (let incomeTypes' = [];
                 incomeTypes' =
                   push_if (str_includes lowerAnswer ''w2'' \<or> str_includes lowerAnswer ''w-2'')
                     incomeTypes' [wages_w2];
                 incomeTypes' =
                   push_if (str_includes lowerAnswer ''1099'' \<or> str_includes lowerAnswer ''freelance''
                            \<or> str_includes lowerAnswer ''contractor'')
                     incomeTypes' [self_employment_1099nec];
                 incomeTypes' =
                   push_if (str_includes lowerAnswer ''uber'' \<or> str_includes lowerAnswer ''lyft''
                            \<or> str_includes lowerAnswer ''doordash'' \<or> str_includes lowerAnswer ''gig'')
                     incomeTypes' [gig_economy];
                 rental = (str_includes lowerAnswer ''rental'' \<or> str_includes lowerAnswer ''property'');
                 incomeTypes' = push_if rental incomeTypes' [rental_income];
                 client = (if rental then client\<lparr>hasRentalProperty := True\<rparr> else client);
                 incomeTypes' =
                   push_if (str_includes lowerAnswer ''invest'' \<or> str_includes lowerAnswer ''stock''
                            \<or> str_includes lowerAnswer ''dividend'')
                     incomeTypes' [investment_income, dividends];
                 crypto = (str_includes lowerAnswer ''crypto'' \<or> str_includes lowerAnswer ''bitcoin'');
                 incomeTypes' = push_if crypto incomeTypes' [crypto_income];
                 client = (if crypto then client\<lparr>hasCrypto := True\<rparr> else client);
                 incomeTypes' =
                   push_if (str_includes lowerAnswer ''retirement'' \<or> str_includes lowerAnswer ''pension''
                            \<or> str_includes lowerAnswer ''401k'')
                     incomeTypes' [retirement_distributions];
                 incomeTypes' =
                   push_if (str_includes lowerAnswer ''social security'') incomeTypes' [social_security]
             in client\<lparr>incomeTypes := set_union (incomeTypes client) incomeTypes'\<rparr>)
        | step_deductions \<Rightarrow>
            (let deductions' = [];
                 deductions' = push_if (str_includes lowerAnswer ''mortgage'') deductions' [mortgage_interest];
                 deductions' = push_if (str_includes lowerAnswer ''property tax'') deductions' [property_taxes];
                 deductions' =
                   push_if (str_includes lowerAnswer ''charit'' \<or> str_includes lowerAnswer ''donat'')
                     deductions' [charitable_donations];
                 deductions' =
                   push_if (str_includes lowerAnswer ''student loan'') deductions' [student_loan_interest];
                 deductions' =
                   push_if (str_includes lowerAnswer ''401k'' \<or> str_includes lowerAnswer ''ira''
                            \<or> str_includes lowerAnswer ''retirement'')
                     deductions' [contributions_401k, ira_contributions];
                 deductions' = push_if (str_includes lowerAnswer ''home office'') deductions' [home_office];
                 business = str_includes lowerAnswer ''business expense'';
                 deductions' = push_if business deductions' [business_expenses];
                 client = (if business then client\<lparr>hasBusinessIncome := True\<rparr> else client);
                 deductions' =
                   push_if (str_includes lowerAnswer ''childcare'' \<or> str_includes lowerAnswer ''daycare'')
                     deductions' [childcare_expenses]
             in client\<lparr>deductions := set_union (deductions client) deductions'\<rparr>)
        | step_special_situations \<Rightarrow>
            (let client =
                   (if str_includes lowerAnswer ''crypto'' \<or> str_includes lowerAnswer ''bitcoin''
                    then client\<lparr>hasCrypto := True,
                                incomeTypes := push_if (crypto_income \<notin> set (incomeTypes client))
                                                 (incomeTypes client) [crypto_income]\<rparr>
                    else client);
                 client =
                   (if str_includes lowerAnswer ''foreign''
                    then client\<lparr>hasForeignAccounts := True,
                                incomeTypes := push_if (foreign_income \<notin> set (incomeTypes client))
                                                 (incomeTypes client) [foreign_income]\<rparr>
                    else client);
                 client =
                   (if str_includes lowerAnswer ''rental'' \<or> str_includes lowerAnswer ''real estate''
                    then client\<lparr>hasRentalProperty := True\<rparr>
                    else client)
             in client)
        | step_employment \<Rightarrow>
            (if str_includes lowerAnswer ''self-employ'' \<or> str_includes lowerAnswer ''freelance''
                \<or> str_includes lowerAnswer ''own business''
             then client\<lparr>hasBusinessIncome := True,
                         incomeTypes := push_if (self_employment_1099nec \<notin> set (incomeTypes client))
                                          (incomeTypes client) [self_employment_1099nec]\<rparr>
             else client)
        | _ \<Rightarrow> client)"

text \<open>
  The services work on the stored objects. What \<open>updateClientFromResponse\<close> and
  \<open>processIntakeResponse\<close> write into the client object is written to the store under
  the key the object was read from (\<open>storeClient\<close>), before \<open>db.updateClient\<close> stores
  the copy under the client's id. The session object is written back by
  \<open>db.updateSession\<close> on every path that changes it.
\<close>

definition storeClient :: "Database \<Rightarrow> string \<Rightarrow> ClientProfile \<Rightarrow> Database" where
  "storeClient db key client = db\<lparr>clients := AList.update key client (clients db)\<rparr>"

definition updateClientFromResponse ::
  "Database \<Rightarrow> nat \<Rightarrow> string \<Rightarrow> ClientProfile \<Rightarrow> IntakeStep \<Rightarrow> string
     \<Rightarrow> Database \<times> ClientProfile" where
  "updateClientFromResponse db now key client step' answer' =
    (let client = applyResponse client step' answer';
         db = storeClient db key client;
         db = updateClient db now (client_id client) (\<lambda>_. client)
     in (db, client))"

definition updateSession ::
  "Database \<Rightarrow> nat \<Rightarrow> string \<Rightarrow> (IntakeSession \<Rightarrow> IntakeSession) \<Rightarrow> Database" where
  "updateSession db now sid updates =
    (case map_of (sessions db) sid of
       Some session \<Rightarrow>
         db\<lparr>sessions := AList.update sid ((updates session)\<lparr>lastActivityAt := now\<rparr>) (sessions db)\<rparr>
     | None \<Rightarrow> db)"

record IntakeResult =
  intake_success :: bool
  nextQuestion :: "string option"
  intake_currentStep :: "IntakeStep option"
  stepCompleted :: "bool option"
  intake_intakeCompleted :: "bool option"
  intake_client :: "ClientProfile option"
  intake_message :: "string option"

definition emptyIntakeResult :: "bool \<Rightarrow> IntakeResult" where
  "emptyIntakeResult ok =
    \<lparr>intake_success = ok, nextQuestion = None, intake_currentStep = None, stepCompleted = None,
     intake_intakeCompleted = None, intake_client = None, intake_message = None\<rparr>"

definition processIntakeResponse ::
  "Database \<Rightarrow> nat \<Rightarrow> string \<Rightarrow> string \<Rightarrow> Database \<times> IntakeResult" where
  "processIntakeResponse db now sessionId answer' =
    (case map_of (sessions db) sessionId of
       None \<Rightarrow> (db, (emptyIntakeResult False)\<lparr>intake_message := Some ''Session not found''\<rparr>)
     | Some session \<Rightarrow>
         (case getClient db (session_clientId session) of
            None \<Rightarrow> (db, (emptyIntakeResult False)\<lparr>intake_message := Some ''Client not found''\<rparr>)
          | Some client \<Rightarrow>
              (let response = \<lparr>step = currentStep session, question = getCurrentQuestion session,
                               answer = answer', timestamp = now\<rparr>;
                   session = session\<lparr>responses := responses session @ [response]\<rparr>;
                   (db, client) = updateClientFromResponse db now (session_clientId session) client
                                    (currentStep session) answer';
                   stepQuestions = INTAKE_QUESTIONS (currentStep session);
                   stepResponses = filter (\<lambda>r. step r = currentStep session) (responses session);
                   stepDone = (length stepResponses \<ge> length stepQuestions
                               \<or> isStepComplete (currentStep session) answer');
                   currentIndex = indexOf INTAKE_STEPS (currentStep session);
                   session = (if stepDone
                              then session\<lparr>completedSteps := completedSteps session @ [currentStep session]\<rparr>
                              else session)
               in if stepDone \<and> currentIndex < int (length INTAKE_STEPS) - 1
                  then
                    (let session = session\<lparr>currentStep := INTAKE_STEPS ! nat (currentIndex + 1)\<rparr>
                     in if currentStep session = step_complete
                        then
                          (let session = session\<lparr>session_status := completed\<rparr>;
                               client = client\<lparr>intakeCompleted := True, intakeCompletedAt := Some now\<rparr>;
                               db = storeClient db (session_clientId session) client;
                               db = updateClient db now (client_id client) (\<lambda>_. client);
                               db = updateSession db now sessionId (\<lambda>_. session)
                           in (db, (emptyIntakeResult True)
                                     \<lparr>intake_intakeCompleted := Some True,
                                      intake_client := Some client,
                                      intake_message := Some ''Congratulations! Your intake is complete. We will now generate your personalized document checklist.''\<rparr>))
                        else
                          (let db = updateSession db now sessionId (\<lambda>_. session)
                           in (db, (emptyIntakeResult True)
                                     \<lparr>nextQuestion := at_index (INTAKE_QUESTIONS (currentStep session)) 0,
                                      intake_currentStep := Some (currentStep session),
                                      stepCompleted := Some True,
                                      intake_client := Some client\<rparr>)))
                  else
                    (let db = updateSession db now sessionId (\<lambda>_. session);
                         nextQuestionIndex = length stepResponses
                     in if nextQuestionIndex < length stepQuestions
                        then (db, (emptyIntakeResult True)
                                    \<lparr>nextQuestion := Some (stepQuestions ! nextQuestionIndex),
                                     intake_currentStep := Some (currentStep session),
                                     stepCompleted := Some False,
                                     intake_client := Some client\<rparr>)
                        else (db, (emptyIntakeResult True)
                                    \<lparr>nextQuestion := Some ''Please provide more details.'',
                                     intake_currentStep := Some (currentStep session),
                                     intake_client := Some client\<rparr>)))))"


section \<open>Reminders (services/reminders.ts)\<close>

definition generateReminderId :: "nat \<Rightarrow> string \<Rightarrow> string" where
  "generateReminderId now rnd = ''reminder-'' @ show_nat now @ ''-'' @ rnd"

text \<open>
  The loop of \<open>createDocumentReminder\<close>: one stored reminder per document, due 24 hours
  after \<open>now\<close>. \<open>ids i\<close> is what the \<open>i\<close>-th call of \<open>generateReminderId\<close> reads.
\<close>

fun documentReminders ::
  "Database \<Rightarrow> nat \<Rightarrow> (nat \<Rightarrow> nat \<times> string) \<Rightarrow> nat \<Rightarrow> ClientProfile \<Rightarrow> string \<Rightarrow> string
     \<Rightarrow> DocumentItem list \<Rightarrow> Database \<times> Reminder list" where
  "documentReminders db now ids i client clientId appointmentId' [] = (db, [])"
| "documentReminders db now ids i client clientId appointmentId' (doc # docs) =
     (let reminder =
            \<lparr>reminder_id = generateReminderId (fst (ids i)) (snd (ids i)),
             reminder_clientId = clientId, reminder_appointmentId = appointmentId',
             reminder_type = document_reminder,
             reminder_message = PersonalizedMessage client doc,
             scheduledFor = now + 24 * 60 * 60 * 1000, sent = False, sentAt = None,
             channel = channel_email, documentIds = Some [doc_id doc]\<rparr>;
          db = createReminder db reminder;
          (db, rest) = documentReminders db now ids (Suc i) client clientId appointmentId' docs
      in (db, reminder # rest))"

definition createDocumentReminder ::
  "Database \<Rightarrow> nat \<Rightarrow> (nat \<Rightarrow> nat \<times> string) \<Rightarrow> string \<Rightarrow> string \<Rightarrow> DocumentItem list
     \<Rightarrow> error + (Database \<times> Reminder list)" where
  "createDocumentReminder db now ids clientId appointmentId' documents' =
    (case getClient db clientId of
       None \<Rightarrow> Inl (Error ''Client not found'')
     | Some client \<Rightarrow> Inr (documentReminders db now ids 0 client clientId appointmentId' documents'))"

definition createAppointmentReminder ::
  "Database \<Rightarrow> nat \<Rightarrow> string \<Rightarrow> string \<Rightarrow> string \<Rightarrow> ReminderType \<Rightarrow> nat
     \<Rightarrow> error + (Database \<times> Reminder)" where
  "createAppointmentReminder db now rnd clientId appointmentId' reminderType scheduledFor' =
    (case (getClient db clientId, getAppointment db appointmentId') of
       (Some client, Some appointment) \<Rightarrow>
         (let taxProName =
                (case getTaxPro db (taxProId appointment) of
                   None \<Rightarrow> ''your tax professional''
                 | Some taxPro \<Rightarrow>
                     if taxPro_name taxPro = [] then ''your tax professional''
                     else taxPro_name taxPro);
              message' =
                (if reminderType = appointment_reminder_24h
                 then AppointmentReminder24hMessage (firstName client) taxProName
                        (scheduledAt appointment)
                 else AppointmentReminder1hMessage (firstName client) taxProName);
              reminder =
                \<lparr>reminder_id = generateReminderId now rnd, reminder_clientId = clientId,
                 reminder_appointmentId = appointmentId', reminder_type = reminderType,
                 reminder_message = message', scheduledFor = scheduledFor', sent = False,
                 sentAt = None, channel = channel_both, documentIds = None\<rparr>
          in Inr (createReminder db reminder, reminder))
     | _ \<Rightarrow> Inl (Error ''Client or appointment not found''))"

definition createBatchDocumentReminder ::
  "Database \<Rightarrow> nat \<Rightarrow> string \<Rightarrow> string \<Rightarrow> string \<Rightarrow> Database \<times> Reminder option" where
  "createBatchDocumentReminder db now rnd clientId appointmentId' =
    (case getClient db clientId of
       None \<Rightarrow> (db, None)
     | Some client \<Rightarrow>
         (let pendingDocs = getPendingDocuments db clientId
          in if length pendingDocs = 0 then (db, None)
             else
               (let firstName' = (if firstName client = [] then ''there'' else firstName client);
                    reminder =
                      \<lparr>reminder_id = generateReminderId now rnd, reminder_clientId = clientId,
                       reminder_appointmentId = appointmentId', reminder_type = document_reminder,
                       reminder_message = BatchReminderMessage firstName' pendingDocs,
                       scheduledFor = now + 48 * 60 * 60 * 1000, sent = False, sentAt = None,
                       channel = channel_email, documentIds = Some (map doc_id pendingDocs)\<rparr>
                in (createReminder db reminder, Some reminder))))"

fun channel_name :: "Channel \<Rightarrow> string" where
  "channel_name channel_email = ''email''"
| "channel_name channel_sms = ''sms''"
| "channel_name channel_both = ''both''"

record SendResult =
  send_success :: bool
  send_message :: string

text \<open>\<open>sendReminder\<close>; its two \<open>console.log\<close> lines change nothing and are left out.\<close>

definition sendReminder :: "Database \<Rightarrow> nat \<Rightarrow> string \<Rightarrow> Database \<times> SendResult" where
  "sendReminder db now reminderId =
    (case getReminder db reminderId of
       None \<Rightarrow> (db, \<lparr>send_success = False, send_message = ''Reminder not found''\<rparr>)
     | Some reminder \<Rightarrow>
         if sent reminder
         then (db, \<lparr>send_success = False, send_message = ''Reminder already sent''\<rparr>)
         else
           (case getClient db (reminder_clientId reminder) of
              None \<Rightarrow> (db, \<lparr>send_success = False, send_message = ''Client not found''\<rparr>)
            | Some client \<Rightarrow>
                (markReminderSent db now reminderId,
                 \<lparr>send_success = True,
                  send_message = ''Reminder sent to '' @ email client @ '' via ''
                                   @ channel_name (channel reminder)\<rparr>)))"

text \<open>
  \<open>scheduleAppointmentReminders\<close> moves the appointment time back by 24 hours and by 1
  hour with \<open>setHours\<close>, in the host's local time: \<open>shiftHours t h\<close> is the instant that the
  host's calendar gives for \<open>t\<close> moved by \<open>h\<close> hours, an input. An exception of
  \<open>createAppointmentReminder\<close> leaves the reminders stored before it in the store, so the
  store is returned beside the outcome.
\<close>

definition scheduleAppointmentReminders ::
  "Database \<Rightarrow> nat \<Rightarrow> (nat \<Rightarrow> nat \<times> string) \<Rightarrow> (nat \<Rightarrow> int \<Rightarrow> nat) \<Rightarrow> Appointment
     \<Rightarrow> Database \<times> (error + Reminder list)" where
  "scheduleAppointmentReminders db now ids shiftHours appointment =
    (let appointmentTime = scheduledAt appointment;
         reminder24h = shiftHours appointmentTime (- 24);
         step24 =
           (if reminder24h > now
            then (case createAppointmentReminder db (fst (ids 0)) (snd (ids 0))
                         (apt_clientId appointment) (apt_id appointment)
                         appointment_reminder_24h reminder24h of
                    Inl e \<Rightarrow> Inl e
                  | Inr (db', r) \<Rightarrow> Inr (db', [r], Suc 0))
            else Inr (db, [], 0))
     in case step24 of
          Inl e \<Rightarrow> (db, Inl e)
        | Inr (db, reminders', i) \<Rightarrow>
            (let reminder1h = shiftHours appointmentTime (- 1);
                 step1 =
                   (if reminder1h > now
                    then (case createAppointmentReminder db (fst (ids i)) (snd (ids i))
                                 (apt_clientId appointment) (apt_id appointment)
                                 appointment_reminder_1h reminder1h of
                            Inl e \<Rightarrow> Inl e
                          | Inr (db', r) \<Rightarrow> Inr (db', reminders' @ [r], Suc i))
                    else Inr (db, reminders', i))
             in case step1 of
                  Inl e \<Rightarrow> (db, Inl e)
                | Inr (db, reminders', i) \<Rightarrow>
                    (case createBatchDocumentReminder db (fst (ids i)) (snd (ids i))
                            (apt_clientId appointment) (apt_id appointment) of
                       (db, None) \<Rightarrow> (db, Inr reminders')
                     | (db, Some docReminder) \<Rightarrow> (db, Inr (reminders' @ [docReminder])))))"

section \<open>Starting an intake and reading its progress (services/intake.ts)\<close>

definition generateClientId :: "nat \<Rightarrow> string \<Rightarrow> string" where
  "generateClientId now rnd = ''client-'' @ show_nat now @ ''-'' @ rnd"

definition generateSessionId :: "nat \<Rightarrow> string \<Rightarrow> string" where
  "generateSessionId now rnd = ''session-'' @ show_nat now @ ''-'' @ rnd"

definition getSessionByClient :: "Database \<Rightarrow> string \<Rightarrow> IntakeSession option" where
  "getSessionByClient db clientId =
    find (\<lambda>s. session_clientId s = clientId \<and> session_status s = in_progress)
      (map snd (sessions db))"

definition createSession :: "Database \<Rightarrow> IntakeSession \<Rightarrow> Database" where
  "createSession db session = db\<lparr>sessions := AList.update (session_id session) session (sessions db)\<rparr>"

record StartResult =
  started_session :: IntakeSession
  started_client :: ClientProfile
  started_nextQuestion :: string
  started_currentStep :: IntakeStep

text \<open>
  \<open>startIntakeSession\<close>. The optional argument is an option, and \<open>if (clientId)\<close> is also
  false for the empty string. \<open>ids i\<close> is what the \<open>i\<close>-th call of an identifier generator
  reads.
\<close>

definition startIntakeSession ::
  "Database \<Rightarrow> nat \<Rightarrow> (nat \<Rightarrow> nat \<times> string) \<Rightarrow> string option \<Rightarrow> Database \<times> StartResult" where
  "startIntakeSession db now ids clientId =
    (let given = (case clientId of None \<Rightarrow> None | Some cid \<Rightarrow> if cid = [] then None else Some cid);
         (db, client, i) =
           (case given of
              Some cid \<Rightarrow>
                (case getClient db cid of
                   Some existing \<Rightarrow> (db, existing, 0)
                 | None \<Rightarrow> (let (db, client) = createNewClient db now cid in (db, client, 0)))
            | None \<Rightarrow>
                (let (db, client) = createNewClient db now (generateClientId (fst (ids 0)) (snd (ids 0)))
                 in (db, client, Suc 0)))
     in case getSessionByClient db (client_id client) of
          Some existingSession \<Rightarrow>
            (db, \<lparr>started_session = existingSession, started_client = client,
                  started_nextQuestion =
                    (case at_index (INTAKE_QUESTIONS (currentStep existingSession)) 0 of
                       None \<Rightarrow> ''Let's continue where we left off.''
                     | Some q \<Rightarrow> if q = [] then ''Let's continue where we left off.'' else q),
                  started_currentStep = currentStep existingSession\<rparr>)
        | None \<Rightarrow>
            (let session =
                   \<lparr>session_id = generateSessionId (fst (ids i)) (snd (ids i)),
                    session_clientId = client_id client, startedAt = now, lastActivityAt = now,
                    currentStep = step_personal_info, completedSteps = [], responses = [],
                    session_status = in_progress\<rparr>;
                 db = createSession db session
             in (db, \<lparr>started_session = session, started_client = client,
                      started_nextQuestion = hd (INTAKE_QUESTIONS step_personal_info),
                      started_currentStep = step_personal_info\<rparr>)))"

text \<open>\<open>Math.round\<close>: the nearest integer, a half rounded up.\<close>

definition math_round :: "rat \<Rightarrow> int" where
  "math_round x = \<lfloor>x + 1 / 2\<rfloor>"

record IntakeProgress =
  progress_currentStep :: IntakeStep
  progress_completedSteps :: "IntakeStep list"
  totalSteps :: nat
  percentComplete :: int
  remainingSteps :: "IntakeStep list"

definition getIntakeProgress :: "Database \<Rightarrow> string \<Rightarrow> IntakeProgress option" where
  "getIntakeProgress db sessionId =
    (case map_of (sessions db) sessionId of
       None \<Rightarrow> None
     | Some session \<Rightarrow>
         (let currentIndex = indexOf INTAKE_STEPS (currentStep session);
              remainingSteps' = drop (nat (currentIndex + 1)) INTAKE_STEPS
          in Some \<lparr>progress_currentStep = currentStep session,
                   progress_completedSteps = completedSteps session,
                   totalSteps = length INTAKE_STEPS,
                   percentComplete =
                     math_round
                       (js_mul (js_div (of_nat (length (completedSteps session)))
                                  (of_nat (length INTAKE_STEPS))) 100),
                   remainingSteps = remainingSteps'\<rparr>))"

section \<open>The tool-call handler (index.ts)\<close>

text \<open>
  What a tool returns as its text. A fixed text is the string itself; a text printed from
  a value (\<open>JSON.stringify\<close>, \<open>formatChecklistForDisplay\<close>, \<open>formatRemindersForDisplay\<close>,
  \<open>getIntakeSummary\<close>, \<open>getTaxProRecommendations\<close>, a template literal) is kept as the
  template together with the value.
\<close>

datatype Display =
  Plain string
  | Shown Message
  | StartedJson string string IntakeStep string
  | IntakeResultJson IntakeResult
  | ProgressJson IntakeProgress
  | SummaryText ClientProfile
  | ChecklistText DocumentChecklist
  | MarkResultJson MarkResult
  | PendingText "DocumentItem list"
  | AllCollectedText
  | CreatedRemindersText "Reminder list"
  | RemindersText "Reminder list"
  | SendResultJson SendResult
  | ComplexityJson string int ComplexityLevel string
  | RoutedText Message
  | RoutingFailedText Message
  | RecommendationsText Message "TaxProfessional list"
  | AppointmentJson Appointment nat
  | TaxProsText "TaxProfessional list"
  | ClientJson ClientProfile

text \<open>The services that return a text, and the text they return when the id is unknown.\<close>

definition getIntakeSummary :: "Database \<Rightarrow> string \<Rightarrow> Display" where
  "getIntakeSummary db clientId =
    (case getClient db clientId of
       None \<Rightarrow> Plain ''Client not found''
     | Some client \<Rightarrow> SummaryText client)"

definition formatChecklistForDisplay :: "DocumentChecklist \<Rightarrow> Display" where
  "formatChecklistForDisplay checklist = ChecklistText checklist"

definition getClientReminders :: "Database \<Rightarrow> string \<Rightarrow> Reminder list" where
  "getClientReminders db clientId =
    filter (\<lambda>r. reminder_clientId r = clientId) (map snd (reminders db))"

definition formatRemindersForDisplay :: "Reminder list \<Rightarrow> Display" where
  "formatRemindersForDisplay reminders' =
    (if length reminders' = 0 then Plain ''No reminders scheduled.''
     else RemindersText reminders')"

definition getTaxProRecommendations :: "Database \<Rightarrow> nat \<Rightarrow> string \<Rightarrow> Database \<times> Display" where
  "getTaxProRecommendations db now clientId =
    (case getClient db clientId of
       None \<Rightarrow> (db, Plain ''Client not found'')
     | Some client \<Rightarrow>
         (let (db, found) = findBestTaxPro db now client
          in (db, RecommendationsText (reason found) (found_alternates found))))"

fun getComplexityInterpretation :: "ComplexityLevel \<Rightarrow> string" where
  "getComplexityInterpretation simple =
     ''Standard return with W-2 income and basic deductions. Quick appointment expected.''"
| "getComplexityInterpretation moderate =
     ''Multiple income sources or itemized deductions. May require additional documentation.''"
| "getComplexityInterpretation complex =
     ''Business income, rental properties, or investments. Requires experienced tax professional.''"
| "getComplexityInterpretation expert =
     ''Advanced situations like foreign accounts, crypto, or audit representation. Requires specialist.''"

text \<open>
  The request handler for tool calls: a \<open>switch\<close> on the tool name inside \<open>try\<close>/\<open>catch\<close>.
  A call is the tool with its arguments; a name that is no tool is \<open>unknown_tool\<close>. The
  \<open>switch\<close> returns the store beside its outcome, since what a case stored before an
  exception stays stored. In create_appointment, \<open>ids 0\<close> gives the random suffix of the
  appointment id, and the identifiers of the reminders are read from \<open>ids\<close> after it.
  The arguments that the schema of a tool requires are present, and \<open>scheduledAt\<close> is
  the parsed time. A response that the source returns without \<open>isError\<close> has it
  \<open>False\<close> here. The services throw nothing but \<open>new Error(message)\<close>, which is the
  branch \<open>error.message\<close> of the \<open>catch\<close>.
\<close>

datatype ToolCall =
  start_intake "string option"
  | process_intake_response string string
  | get_intake_progress string
  | get_client_summary string
  | generate_document_checklist string
  | get_document_checklist string
  | mark_document_collected string string
  | get_pending_documents string
  | create_document_reminders string string
  | get_client_reminders string
  | send_reminder string
  | calculate_complexity string
  | route_to_tax_pro string
  | get_tax_pro_recommendations string
  | create_appointment string string nat "AppointmentType option"
  | get_appointment_estimate string
  | list_tax_professionals
  | get_client string
  | unknown_tool string

record ToolResponse =
  content_text :: Display
  isError :: bool

definition textResponse :: "Display \<Rightarrow> ToolResponse" where
  "textResponse t = \<lparr>content_text = t, isError = False\<rparr>"

definition toolCase ::
  "Database \<Rightarrow> nat \<Rightarrow> (nat \<Rightarrow> nat \<times> string) \<Rightarrow> (nat \<Rightarrow> int \<Rightarrow> nat) \<Rightarrow> ToolCall
     \<Rightarrow> Database \<times> (error + ToolResponse)" where
  "toolCase db now ids shiftHours call =
    (case call of
       start_intake clientId \<Rightarrow>
         (let (db, result) = startIntakeSession db now ids clientId
          in (db, Inr (textResponse
                        (StartedJson (session_id (started_session result))
                           (client_id (started_client result)) (started_currentStep result)
                           (started_nextQuestion result)))))
     | process_intake_response sessionId answer' \<Rightarrow>
         (let (db, result) = processIntakeResponse db now sessionId answer'
          in (db, Inr (textResponse (IntakeResultJson result))))
     | get_intake_progress sessionId \<Rightarrow>
         (case getIntakeProgress db sessionId of
            Some progress \<Rightarrow> (db, Inr (textResponse (ProgressJson progress)))
          | None \<Rightarrow> (db, Inr (textResponse (Plain ''Session not found''))))
     | get_client_summary clientId \<Rightarrow>
         (db, Inr (textResponse (getIntakeSummary db clientId)))
     | generate_document_checklist clientId \<Rightarrow>
         (case generateDocumentChecklist db now ids clientId of
            Inl e \<Rightarrow> (db, Inl e)
          | Inr (db, checklist) \<Rightarrow>
              (db, Inr (textResponse (formatChecklistForDisplay checklist))))
     | get_document_checklist clientId \<Rightarrow>
         (case getDocumentChecklist db clientId of
            None \<Rightarrow>
              (db, Inr (textResponse
                         (Plain ''No checklist found. Generate one first using generate_document_checklist.'')))
          | Some checklist \<Rightarrow> (db, Inr (textResponse (formatChecklistForDisplay checklist))))
     | mark_document_collected clientId documentId \<Rightarrow>
         (let (db, result) = markDocumentCollected db now clientId documentId
          in (db, Inr (textResponse (MarkResultJson result))))
     | get_pending_documents clientId \<Rightarrow>
         (let pending = getPendingDocuments db clientId
          in (db, Inr (textResponse
                        (if length pending > 0 then PendingText pending else AllCollectedText))))
     | create_document_reminders clientId appointmentId' \<Rightarrow>
         (let pending = getPendingDocuments db clientId
          in if length pending = 0
             then (db, Inr (textResponse (Plain ''No pending documents to create reminders for.'')))
             else (case createDocumentReminder db now ids clientId appointmentId' pending of
                     Inl e \<Rightarrow> (db, Inl e)
                   | Inr (db, reminders') \<Rightarrow>
                       (db, Inr (textResponse (CreatedRemindersText reminders')))))
     | get_client_reminders clientId \<Rightarrow>
         (db, Inr (textResponse (formatRemindersForDisplay (getClientReminders db clientId))))
     | send_reminder reminderId \<Rightarrow>
         (let (db, result) = sendReminder db now reminderId
          in (db, Inr (textResponse (SendResultJson result))))
     | calculate_complexity clientId \<Rightarrow>
         (case getClient db clientId of
            None \<Rightarrow> (db, Inr (textResponse (Plain ''Client not found'')))
          | Some client \<Rightarrow>
              (let score' = calculateComplexityScore client;
                   level = getComplexityLevel score'
               in (db, Inr (textResponse
                             (ComplexityJson (client_id client) score' level
                                (getComplexityInterpretation level))))))
     | route_to_tax_pro clientId \<Rightarrow>
         (let (db, result) = routeClientToTaxPro db now clientId
          in (db, Inr (textResponse
                        (if success result then RoutedText (message result)
                         else RoutingFailedText (message result)))))
     | get_tax_pro_recommendations clientId \<Rightarrow>
         (let (db, recommendations) = getTaxProRecommendations db now clientId
          in (db, Inr (textResponse recommendations)))
     | create_appointment clientId taxProId' scheduledAt' type \<Rightarrow>
         (case createAppointment db now (snd (ids 0)) clientId taxProId' scheduledAt'
                 (case type of None \<Rightarrow> virtual | Some t \<Rightarrow> t) of
            Inl e \<Rightarrow> (db, Inl e)
          | Inr (db, appointment) \<Rightarrow>
              (case scheduleAppointmentReminders db now (\<lambda>i. ids (Suc i)) shiftHours appointment of
                 (db, Inl e) \<Rightarrow> (db, Inl e)
               | (db, Inr reminders') \<Rightarrow>
                   (db, Inr (textResponse (AppointmentJson appointment (length reminders'))))))
     | get_appointment_estimate clientId \<Rightarrow>
         (case getAppointmentEstimate db clientId of
            Inl e \<Rightarrow> (db, Inl e)
          | Inr estimate \<Rightarrow> (db, Inr (textResponse (Shown (est_message estimate)))))
     | list_tax_professionals \<Rightarrow>
         (db, Inr (textResponse (TaxProsText (map snd (taxPros db)))))
     | get_client clientId \<Rightarrow>
         (case getClient db clientId of
            None \<Rightarrow> (db, Inr (textResponse (Plain ''Client not found'')))
          | Some client \<Rightarrow> (db, Inr (textResponse (ClientJson client))))
     | unknown_tool name \<Rightarrow>
         (db, Inr \<lparr>content_text = Plain (''Unknown tool: '' @ name), isError = True\<rparr>))"

definition handleToolCall ::
  "Database \<Rightarrow> nat \<Rightarrow> (nat \<Rightarrow> nat \<times> string) \<Rightarrow> (nat \<Rightarrow> int \<Rightarrow> nat) \<Rightarrow> ToolCall
     \<Rightarrow> Database \<times> ToolResponse" where
  "handleToolCall db now ids shiftHours call =
    (case toolCase db now ids shiftHours call of
       (db, Inr response) \<Rightarrow> (db, response)
     | (db, Inl (Error message')) \<Rightarrow>
         (db, \<lparr>content_text = Plain (''Error: '' @ message'), isError = True\<rparr>))"

section \<open>Notions used to state the properties\<close>

text \<open>The order of the tiers: simple < moderate < complex < expert.\<close>

fun tier_rank :: "ComplexityLevel \<Rightarrow> nat" where
  "tier_rank simple = 0"
| "tier_rank moderate = 1"
| "tier_rank complex = 2"
| "tier_rank expert = 3"

text \<open>
  The staff table as the constructor builds it and the services keep it: every entry is
  stored under its own id, no key occurs twice, and no load is negative.
\<close>

definition staff_wf :: "Database \<Rightarrow> bool" where
  "staff_wf db =
    (distinct (map fst (taxPros db))
     \<and> (\<forall>(k, tp) \<in> set (taxPros db). taxPro_id tp = k \<and> 0 \<le> currentLoad tp))"

text \<open>
  The numbers of the staff table are in the range of the data model: a load is a count,
  a capacity is an integer that a number holds exactly, and a rating is a number
  between 0 and 5.
\<close>

definition staff_numbers_ok :: "Database \<Rightarrow> bool" where
  "staff_numbers_ok db =
    (\<forall>tp \<in> snd ` set (taxPros db).
       0 \<le> currentLoad tp \<and> maxDailyAppointments tp \<le> 2 ^ 53
       \<and> 0 \<le> rating tp \<and> rating tp \<le> 5 \<and> round_double (rating tp) = rating tp)"

text \<open>The candidates of \<open>findBestTaxPro\<close>, scored and sorted as in its body.\<close>

definition rankedPros :: "Database \<Rightarrow> ClientProfile \<Rightarrow> ScoredPro list" where
  "rankedPros db c =
    sort_by (\<lambda>a b. js_sub (score b) (score a))
      (map (scorePro (getComplexityLevel (calculateComplexityScore c)) (getRequiredSpecializations c))
        (getAvailableTaxPros db))"

text \<open>
  A run of the two checklist operations on one client: regenerating the checklist and
  marking a document collected, each with the clock reading (and identifier source) it
  is called with.
\<close>

datatype ChecklistOp = Generate nat "nat \<Rightarrow> nat \<times> string" | Mark nat string

fun applyOp :: "string \<Rightarrow> Database \<Rightarrow> ChecklistOp \<Rightarrow> Database" where
  "applyOp clientId db (Generate now ids) =
     (case generateDocumentChecklist db now ids clientId of
        Inl e \<Rightarrow> db
      | Inr (db', checklist) \<Rightarrow> db')"
| "applyOp clientId db (Mark now documentId) =
     fst (markDocumentCollected db now clientId documentId)"

definition runOps :: "string \<Rightarrow> Database \<Rightarrow> ChecklistOp list \<Rightarrow> Database" where
  "runOps clientId db ops = foldl (applyOp clientId) db ops"

text \<open>
  The client exists, every entry of its \<open>documentsCollected\<close> starts with \<open>doc-\<close>, as
  the identifiers made by \<open>generateDocumentId\<close> do, and so does the id of every item of
  its stored checklist.
\<close>

definition ids_generated :: "Database \<Rightarrow> string \<Rightarrow> bool" where
  "ids_generated db clientId =
    ((case getClient db clientId of
        None \<Rightarrow> False
      | Some client \<Rightarrow> \<forall>k \<in> set (documentsCollected client). startsWith k ''doc-'')
     \<and> (case map_of (checklists db) clientId of
           None \<Rightarrow> True
         | Some checklist \<Rightarrow> \<forall>d \<in> set (documents checklist). startsWith (doc_id d) ''doc-''))"

section \<open>Example data\<close>

definition allIncomeTypes :: "IncomeType list" where
  "allIncomeTypes =
    [wages_w2, self_employment_1099nec, freelance_1099misc, gig_economy, rental_income,
     investment_income, dividends, capital_gains, retirement_distributions, social_security,
     unemployment, alimony_received, gambling_winnings, crypto_income, foreign_income, other]"

definition allDeductions :: "DeductionType list" where
  "allDeductions =
    [mortgage_interest, property_taxes, state_local_taxes, charitable_donations,
     medical_expenses, student_loan_interest, educator_expenses, home_office,
     business_expenses, hsa_contributions, ira_contributions, contributions_401k,
     childcare_expenses, alimony_paid, moving_expenses, none]"

definition exampleDependent :: Dependent where
  "exampleDependent =
    \<lparr>dep_firstName = ''Ann'', dep_lastName = ''Doe'', relationship = ''child'',
     dep_dateOfBirth = ''2015-01-01'', dep_ssn = None, livesWithClient = True,
     monthsLivedWithClient = 12\<rparr>"

definition saturatedClient :: ClientProfile where
  "saturatedClient =
    (newClientProfile ''client-1'' 0)
      \<lparr>filingStatus := married_filing_separately,
       dependents := replicate 10 exampleDependent,
       incomeTypes := allIncomeTypes, deductions := allDeductions,
       hasCrypto := True, hasForeignAccounts := True, hasRentalProperty := True,
       hasBusinessIncome := True\<rparr>"

definition cryptoClient :: ClientProfile where
  "cryptoClient =
    (newClientProfile ''client-2'' 0)\<lparr>incomeTypes := [wages_w2, crypto_income], hasCrypto := True\<rparr>"

definition expertPro :: TaxProfessional where
  "expertPro =
    \<lparr>taxPro_id = ''tp-a'', taxPro_name = ''Ada'', taxPro_email = ''ada@taxfirm.com'',
     specializations = [spec_individual, spec_crypto], maxComplexity = expert,
     currentLoad = 1, maxDailyAppointments = 4, available = True, rating = 5\<rparr>"

definition simplePro :: TaxProfessional where
  "simplePro =
    \<lparr>taxPro_id = ''tp-b'', taxPro_name = ''Bob'', taxPro_email = ''bob@taxfirm.com'',
     specializations = [spec_individual], maxComplexity = simple,
     currentLoad = 0, maxDailyAppointments = 10, available = True, rating = 45 / 10\<rparr>"

definition routingDb :: Database where
  "routingDb =
    \<lparr>clients = [(''client-2'', cryptoClient)], checklists = [], appointments = [],
     taxPros = [(''tp-a'', expertPro), (''tp-b'', simplePro)], reminders = [],
     sessions = []\<rparr>"

definition fullDb :: Database where
  "fullDb =
    \<lparr>clients = [(''client-1'', saturatedClient)], checklists = [], appointments = [],
     taxPros = [(''tp-a'', expertPro\<lparr>currentLoad := 4\<rparr>)], reminders = [],
     sessions = []\<rparr>"

definition tieProA :: TaxProfessional where
  "tieProA =
    \<lparr>taxPro_id = ''tp-a'', taxPro_name = ''Ada'', taxPro_email = ''ada@taxfirm.com'',
     specializations = [spec_individual, spec_crypto], maxComplexity = expert,
     currentLoad = 1, maxDailyAppointments = 12, available = True, rating = 45 / 10\<rparr>"

definition tieProB :: TaxProfessional where
  "tieProB =
    \<lparr>taxPro_id = ''tp-b'', taxPro_name = ''Bob'', taxPro_email = ''bob@taxfirm.com'',
     specializations = [spec_individual, spec_investments, spec_crypto], maxComplexity = expert,
     currentLoad = 11, maxDailyAppointments = 12, available = True, rating = 45 / 10\<rparr>"

definition tieClient :: ClientProfile where
  "tieClient = (newClientProfile ''client-3'' 0)\<lparr>incomeTypes := [dividends, crypto_income]\<rparr>"

definition tieDb :: Database where
  "tieDb =
    \<lparr>clients = [(''client-3'', tieClient)], checklists = [], appointments = [],
     taxPros = [(''tp-a'', tieProA), (''tp-b'', tieProB)], reminders = [],
     sessions = []\<rparr>"

definition exampleIds :: "nat \<Rightarrow> nat \<times> string" where
  "exampleIds i = (7, ''r'' @ show_nat i)"

definition exampleOps :: "ChecklistOp list" where
  "exampleOps = [Generate 7 exampleIds, Mark 8 ''doc-7-r0'']"

definition checklistDb :: Database where
  "checklistDb = applyOp ''client-2'' routingDb (Generate 7 exampleIds)"

definition intakeSession :: IntakeSession where
  "intakeSession =
    \<lparr>session_id = ''session-1'', session_clientId = ''client-2'', startedAt = 1,
     lastActivityAt = 5, currentStep = step_special_situations,
     completedSteps = [step_personal_info, step_filing_status, step_dependents, step_employment,
                       step_income_types, step_deductions],
     responses = [], session_status = in_progress\<rparr>"

definition intakeDb :: Database where
  "intakeDb = routingDb\<lparr>sessions := [(''session-1'', intakeSession)]\<rparr>"

definition orphanAppointment :: Appointment where
  "orphanAppointment =
    \<lparr>apt_id = ''apt-1'', apt_clientId = ''client-2'', taxProId = ''tp-none'',
     scheduledAt = 1000, duration = 60, status = scheduled, apt_type = virtual,
     apt_notes = None, intakeScore = 0, estimatedComplexity = complex\<rparr>"

definition orphanReminder :: Reminder where
  "orphanReminder =
    \<lparr>reminder_id = ''reminder-1'', reminder_clientId = ''client-9'',
     reminder_appointmentId = ''apt-1'', reminder_type = follow_up,
     reminder_message = Text ''Thank you'', scheduledFor = 50, sent = False, sentAt = None,
     channel = channel_email, documentIds = None\<rparr>"

definition orphanDb :: Database where
  "orphanDb =
    routingDb
      \<lparr>appointments := [(''apt-1'', orphanAppointment)],
       reminders := [(''reminder-1'', orphanReminder)],
       sessions := [(''session-2'', intakeSession\<lparr>session_id := ''session-2'',
                                                  session_clientId := ''client-9''\<rparr>)]\<rparr>"

definition exampleShift :: "nat \<Rightarrow> int \<Rightarrow> nat" where
  "exampleShift t h = nat (int t + h * 3600000)"

section \<open>Properties of the complexity score\<close>

lemma foldl_add_sum_list: "foldl (\<lambda>s t. s + f t) a xs = a + sum_list (map f xs)" for a :: int
  by (induction xs arbitrary: a) simp_all

lemma weight_incomeTypes_nonneg: "0 \<le> weight_incomeTypes t"
  by (cases t) simp_all

lemma weight_deductions_nonneg: "0 \<le> weight_deductions d"
  by (cases d) simp_all

lemma weight_filingStatus_nonneg: "0 \<le> weight_filingStatus f"
  by (cases f) simp_all

lemma sum_list_incomeTypes_nonneg: "0 \<le> sum_list (map weight_incomeTypes ts)"
  by (induction ts) (simp_all add: weight_incomeTypes_nonneg)

lemma sum_list_deductions_nonneg: "0 \<le> sum_list (map weight_deductions ds)"
  by (induction ds) (simp_all add: weight_deductions_nonneg)

text \<open>The score in closed form: the capped sum of the table entries.\<close>

lemma calculateComplexityScore_sum:
  "calculateComplexityScore c =
     min (weight_filingStatus (filingStatus c)
          + sum_list (map weight_incomeTypes (incomeTypes c))
          + sum_list (map weight_deductions (deductions c))
          + (if hasCrypto c then 25 else 0)
          + (if hasForeignAccounts c then 30 else 0)
          + (if hasRentalProperty c then 20 else 0)
          + (if hasBusinessIncome c then 20 else 0)
          + min (int (length (dependents c)) * 5) 20) 100"
  by (simp add: calculateComplexityScore_def Let_def foldl_add_sum_list weight_crypto_def
      weight_foreignAccounts_def weight_rentalProperty_def weight_businessIncome_def
      dependentsBase_def dependentsMax_def add.assoc)

lemma set_allIncomeTypes: "set allIncomeTypes = UNIV"
proof -
  have "t \<in> set allIncomeTypes" for t
    by (cases t) (simp_all add: allIncomeTypes_def)
  then show ?thesis by auto
qed

lemma set_allDeductions: "set allDeductions = UNIV"
proof -
  have "d \<in> set allDeductions" for d
    by (cases d) (simp_all add: allDeductions_def)
  then show ?thesis by auto
qed

text \<open>
  C3. For every client, whatever its filing status and however many income types,
  deductions, situation flags and dependents it has, \<open>calculateComplexityScore\<close> is between
  0 and 100; a client with every income type, every deduction, all four flags and ten
  dependents scores exactly 100.
\<close>

theorem calculateComplexityScore_range:
  "0 \<le> calculateComplexityScore c \<and> calculateComplexityScore c \<le> 100
   \<and> (set (incomeTypes c) = UNIV \<and> set (deductions c) = UNIV
        \<and> hasCrypto c \<and> hasForeignAccounts c \<and> hasRentalProperty c \<and> hasBusinessIncome c
        \<and> length (dependents c) = 10
        \<longrightarrow> calculateComplexityScore c = 100)"
proof -
  have a: "0 \<le> weight_filingStatus (filingStatus c)"
    by (rule weight_filingStatus_nonneg)
  have b: "0 \<le> sum_list (map weight_incomeTypes (incomeTypes c))"
    by (rule sum_list_incomeTypes_nonneg)
  have d: "0 \<le> sum_list (map weight_deductions (deductions c))"
    by (rule sum_list_deductions_nonneg)
  show ?thesis
    unfolding calculateComplexityScore_sum using a b d by auto
qed

theorem calculateComplexityScore_range_witness:
  "set (incomeTypes saturatedClient) = UNIV \<and> set (deductions saturatedClient) = UNIV
   \<and> hasCrypto saturatedClient \<and> hasForeignAccounts saturatedClient
   \<and> hasRentalProperty saturatedClient \<and> hasBusinessIncome saturatedClient
   \<and> length (dependents saturatedClient) = 10
   \<and> calculateComplexityScore saturatedClient = 100"
  using calculateComplexityScore_range [of saturatedClient]
  by (simp add: saturatedClient_def newClientProfile_def set_allIncomeTypes set_allDeductions)

text \<open>
  C4. On the scores 0 to 100, \<open>getComplexityLevel\<close> is simple exactly on 0..20, moderate
  exactly on 21..50, complex exactly on 51..80 and expert exactly on 81..100; the boundary
  scores 0, 20, 21, 50, 51, 80, 81, 100 map to simple, simple, moderate, moderate, complex,
  complex, expert, expert.
\<close>

theorem getComplexityLevel_ranges:
  "(0 \<le> s \<and> s \<le> 100 \<longrightarrow>
      (getComplexityLevel s = simple \<longleftrightarrow> 0 \<le> s \<and> s \<le> 20)
    \<and> (getComplexityLevel s = moderate \<longleftrightarrow> 21 \<le> s \<and> s \<le> 50)
    \<and> (getComplexityLevel s = complex \<longleftrightarrow> 51 \<le> s \<and> s \<le> 80)
    \<and> (getComplexityLevel s = expert \<longleftrightarrow> 81 \<le> s \<and> s \<le> 100))
   \<and> map getComplexityLevel [0, 20, 21, 50, 51, 80, 81, 100]
       = [simple, simple, moderate, moderate, complex, complex, expert, expert]"
  by (auto simp: getComplexityLevel_def)

theorem getComplexityLevel_ranges_witness:
  "(0::int) \<le> 50 \<and> (50::int) \<le> 100 \<and> getComplexityLevel 50 = moderate
   \<and> getComplexityLevel 50 \<noteq> simple \<and> getComplexityLevel 50 \<noteq> complex
   \<and> getComplexityLevel 50 \<noteq> expert"
  using getComplexityLevel_ranges [of 50] by simp

text \<open>
  C5. A client with income types wages_w2 and crypto_income, the crypto flag set, the other
  three flags clear, no dependents, filing status single and no deductions scores
  0 + 0 + 30 + 25 = 55, and 55 is the level complex.
\<close>

theorem crypto_example_score:
  "incomeTypes c = [wages_w2, crypto_income] \<Longrightarrow> hasCrypto c \<Longrightarrow> \<not> hasForeignAccounts c
   \<Longrightarrow> \<not> hasRentalProperty c \<Longrightarrow> \<not> hasBusinessIncome c \<Longrightarrow> dependents c = []
   \<Longrightarrow> filingStatus c = single \<Longrightarrow> deductions c = []
   \<Longrightarrow> calculateComplexityScore c = 55
       \<and> weight_filingStatus (filingStatus c) = 0 \<and> weight_incomeTypes wages_w2 = 0
       \<and> weight_incomeTypes crypto_income = 30 \<and> weight_crypto = 25
       \<and> getComplexityLevel (calculateComplexityScore c) = complex"
  by (simp add: calculateComplexityScore_sum getComplexityLevel_def weight_crypto_def)

theorem crypto_example_score_witness:
  "incomeTypes cryptoClient = [wages_w2, crypto_income] \<and> hasCrypto cryptoClient
   \<and> \<not> hasForeignAccounts cryptoClient \<and> \<not> hasRentalProperty cryptoClient
   \<and> \<not> hasBusinessIncome cryptoClient \<and> dependents cryptoClient = []
   \<and> filingStatus cryptoClient = single \<and> deductions cryptoClient = []
   \<and> calculateComplexityScore cryptoClient = 55
   \<and> getComplexityLevel (calculateComplexityScore cryptoClient) = complex"
proof -
  have h: "incomeTypes cryptoClient = [wages_w2, crypto_income]" "hasCrypto cryptoClient"
    "\<not> hasForeignAccounts cryptoClient" "\<not> hasRentalProperty cryptoClient"
    "\<not> hasBusinessIncome cryptoClient" "dependents cryptoClient = []"
    "filingStatus cryptoClient = single" "deductions cryptoClient = []"
    by (simp_all add: cryptoClient_def newClientProfile_def)
  from crypto_example_score [OF h] show ?thesis
    using h by blast
qed


section \<open>Properties of the rounding\<close>

lemma pow2_pos [simp]: "0 < pow2 e"
  by (simp add: pow2_def)

lemma pow2_add: "pow2 (a + b) = pow2 a * pow2 b"
proof -
  have "pow2 e = 2 powi e" for e
    by (simp add: pow2_def power_int_def field_simps)
  then show ?thesis by (simp add: power_int_add)
qed

lemma pow2_Suc: "pow2 (e + 1) = 2 * pow2 e"
  using pow2_add [of e 1] by (simp add: pow2_def)

lemma pow2_nat: "pow2 (int n) = 2 ^ n"
  by (simp add: pow2_def)

lemma bit_length_pos: "0 < n \<Longrightarrow> 0 < bit_length n"
proof (induction n rule: bit_length.induct)
  case (1 n)
  show ?case
  proof (cases "n div 2 \<le> 0")
    case True
    with "1.prems" have "n = 1" by linarith
    then show ?thesis
      by (simp add: bit_length.simps [of 1] bit_length.simps [of 0])
  next
    case False
    with "1.IH" "1.prems" have "0 < bit_length (n div 2)" by simp
    with "1.prems" show ?thesis by (simp add: bit_length.simps [of n])
  qed
qed

lemma bit_length_bounds:
  "0 < n \<Longrightarrow> pow2 (bit_length n - 1) \<le> of_int n \<and> of_int n < pow2 (bit_length n)"
proof (induction n rule: bit_length.induct)
  case (1 n)
  have step: "bit_length n = 1 + bit_length (n div 2)"
    using "1.prems" by (simp add: bit_length.simps [of n])
  show ?case
  proof (cases "n div 2 \<le> 0")
    case True
    with "1.prems" have "n = 1" by linarith
    then show ?thesis
      by (simp add: bit_length.simps [of 1] bit_length.simps [of 0] pow2_def)
  next
    case False
    with "1.IH" "1.prems" have ih: "pow2 (bit_length (n div 2) - 1) \<le> of_int (n div 2)"
      "(of_int (n div 2) :: rat) < pow2 (bit_length (n div 2))" by auto
    have "2 * (n div 2) \<le> n" by linarith
    then have lo: "(of_int (2 * (n div 2)) :: rat) \<le> of_int n"
      by (rule of_int_le_iff [THEN iffD2])
    have "n \<le> 2 * (n div 2) + 1" by linarith
    then have hi: "(of_int n :: rat) \<le> of_int (2 * (n div 2) + 1)"
      by (rule of_int_le_iff [THEN iffD2])
    have a: "pow2 (bit_length n - 1) = 2 * pow2 (bit_length (n div 2) - 1)"
      using pow2_Suc [of "bit_length (n div 2) - 1"] by (simp add: step)
    have b: "pow2 (bit_length n) = 2 * pow2 (bit_length (n div 2))"
      using pow2_Suc [of "bit_length (n div 2)"] by (simp add: step add.commute)
    have "pow2 (bit_length n - 1) \<le> of_int n"
      using ih(1) lo unfolding a by simp
    moreover have "(of_int n :: rat) < pow2 (bit_length n)"
    proof -
      from False have p: "0 < bit_length (n div 2)" by (simp add: bit_length_pos)
      then have "pow2 (bit_length (n div 2)) = of_int (2 ^ nat (bit_length (n div 2)))"
        by (simp add: pow2_def)
      with ih(2) have "n div 2 < 2 ^ nat (bit_length (n div 2))"
        by (simp only: of_int_less_iff)
      then have "2 * (n div 2) + 1 < 2 * 2 ^ nat (bit_length (n div 2))" by linarith
      then have "(of_int (2 * (n div 2) + 1) :: rat) < of_int (2 * 2 ^ nat (bit_length (n div 2)))"
        by (simp only: of_int_less_iff)
      with hi p show ?thesis unfolding b by (simp add: pow2_def)
    qed
    ultimately show ?thesis by simp
  qed
qed


lemma binary_exponent_bounds:
  assumes "0 < x"
  shows "pow2 (binary_exponent x) \<le> x \<and> x < pow2 (binary_exponent x + 1)"
proof -
  obtain p q where pq: "quotient_of x = (p, q)" by (cases "quotient_of x")
  then have q: "0 < q" by (rule quotient_of_denom_pos)
  from pq have x: "x = of_int p / of_int q" by (rule quotient_of_div)
  with assms q have p: "0 < p" by (simp add: zero_less_divide_iff)
  note bp = bit_length_bounds [OF p]
  note bq = bit_length_bounds [OF q]
  let ?e = "bit_length p - bit_length q"
  have qpos: "(0::rat) < of_int q" using q by simp
  have lo: "pow2 (?e - 1) \<le> x"
  proof -
    have "pow2 (?e - 1) * pow2 (bit_length q) = pow2 (bit_length p - 1)"
      by (simp add: pow2_add [symmetric])
    moreover have "pow2 (?e - 1) * of_int q \<le> pow2 (?e - 1) * pow2 (bit_length q)"
      using bq by (simp add: mult_left_mono less_imp_le)
    ultimately have "pow2 (?e - 1) * of_int q \<le> of_int p" using bp by linarith
    then show ?thesis using qpos by (simp add: x pos_le_divide_eq)
  qed
  have hi: "x < pow2 (?e + 1)"
  proof -
    have "pow2 (?e + 1) * pow2 (bit_length q - 1) = pow2 (bit_length p)"
      by (simp add: pow2_add [symmetric])
    moreover have "pow2 (?e + 1) * pow2 (bit_length q - 1) \<le> pow2 (?e + 1) * of_int q"
      using bq by (simp add: mult_left_mono less_imp_le)
    ultimately have "of_int p < pow2 (?e + 1) * of_int q" using bp by linarith
    then show ?thesis using qpos by (simp add: x pos_divide_less_eq)
  qed
  show ?thesis
  proof (cases "pow2 ?e \<le> x")
    case True
    with hi pq show ?thesis by (simp add: binary_exponent_def)
  next
    case False
    with lo pq show ?thesis by (simp add: binary_exponent_def)
  qed
qed

lemma round_half_even_pos: "1 \<le> q \<Longrightarrow> 0 < round_half_even q"
proof -
  assume "1 \<le> q"
  then have "1 \<le> \<lfloor>q\<rfloor>" by (simp add: le_floor_iff)
  then show ?thesis by (simp add: round_half_even_def Let_def)
qed

lemma round_double_pos: "0 < x \<Longrightarrow> 0 < round_double x"
proof -
  assume x: "0 < x"
  let ?u = "pow2 (binary_exponent x - 52)"
  have "pow2 (binary_exponent x) = pow2 52 * ?u"
    by (simp add: pow2_add [symmetric])
  with binary_exponent_bounds [OF x] have "pow2 52 * ?u \<le> x" by simp
  then have "pow2 52 \<le> x / ?u" by (simp add: pos_le_divide_eq)
  moreover have "(1::rat) \<le> pow2 52" by (simp add: pow2_def)
  ultimately have "1 \<le> x / ?u" by linarith
  then have "0 < round_half_even (x / ?u)" by (rule round_half_even_pos)
  with x show ?thesis by (simp add: round_double_def Let_def)
qed

lemma round_double_minus: "round_double (- x) = - round_double x"
  by (simp add: round_double_def Let_def)

lemma round_double_neg: "x < 0 \<Longrightarrow> round_double x < 0"
  using round_double_pos [of "- x"] by (simp add: round_double_minus)

lemma round_double_le_0_iff: "round_double x \<le> 0 \<longleftrightarrow> x \<le> 0"
proof (cases "x = 0")
  case True
  then show ?thesis by (simp add: round_double_def)
next
  case False
  then consider "0 < x" | "x < 0" by linarith
  then show ?thesis
  proof cases
    case 1
    with round_double_pos [OF 1] show ?thesis by simp
  next
    case 2
    with round_double_neg [OF 2] show ?thesis by simp
  qed
qed

lemma js_sub_le_0_iff: "js_sub a b \<le> 0 \<longleftrightarrow> a \<le> b"
  by (simp add: js_sub_def round_double_le_0_iff)

lemma js_initial_score: "js_sub 0 100 = - 100" "js_add 0 20 = 20"
  by code_simp+

section \<open>Properties of the routing engine\<close>

lemma indexOf_proComplexityOrder: "indexOf proComplexityOrder l = int (tier_rank l)"
  by (cases l) (simp_all add: proComplexityOrder_def)

lemma set_insert_by: "set (insert_by cmp x xs) = insert x (set xs)"
  by (induction xs) auto

lemma set_sort_by: "set (sort_by cmp xs) = set xs"
  by (induction xs) (simp_all add: sort_by_def set_insert_by)

lemma length_insert_by: "length (insert_by cmp x xs) = Suc (length xs)"
  by (induction xs) auto

lemma length_sort_by: "length (sort_by cmp xs) = length xs"
  by (induction xs) (simp_all add: sort_by_def length_insert_by)

lemma count_list_insert_by: "count_list (insert_by cmp x xs) y = count_list (x # xs) y"
  by (induction xs) auto

lemma count_list_sort_by: "count_list (sort_by cmp xs) y = count_list xs y"
  by (induction xs) (simp_all add: sort_by_def count_list_insert_by)

lemma sorted_insert_by_score:
  "sorted_wrt (\<lambda>a b. score b \<le> score a) xs
   \<Longrightarrow> sorted_wrt (\<lambda>a b. score b \<le> score a) (insert_by (\<lambda>a b. js_sub (score b) (score a)) x xs)"
  by (induction xs) (auto simp: set_insert_by js_sub_le_0_iff)

lemma sorted_sort_by_score:
  "sorted_wrt (\<lambda>a b. score b \<le> score a) (sort_by (\<lambda>a b. js_sub (score b) (score a)) xs)"
proof (induction xs)
  case Nil
  show ?case by (simp add: sort_by_def)
next
  case (Cons x xs)
  then show ?case
    using sorted_insert_by_score [of "sort_by (\<lambda>a b. js_sub (score b) (score a)) xs" x]
    by (simp add: sort_by_def)
qed

lemma sort_by_Nil_iff: "sort_by cmp xs = [] \<longleftrightarrow> xs = []"
  using length_sort_by [of cmp xs] by (metis length_0_conv)

lemma hd_sorted_max:
  assumes "sorted_wrt (\<lambda>a b. score b \<le> score a) xs" "x \<in> set xs"
  shows "score x \<le> score (hd xs)"
  using assms by (cases xs) auto

lemma taxPros_updateClient [simp]: "taxPros (updateClient db now k f) = taxPros db"
  by (simp add: updateClient_def split: option.splits)

lemma getAvailableTaxPros_updateClient [simp]:
  "getAvailableTaxPros (updateClient db now k f) = getAvailableTaxPros db"
  by (simp add: getAvailableTaxPros_def)

lemma getRequiredSpecializations_nonempty: "getRequiredSpecializations c \<noteq> []"
  by (simp add: getRequiredSpecializations_def Let_def set_add_def)

lemma score_scorePro:
  "score (scorePro level req p) =
     js_add
       (js_add
          (js_add (if tier_rank (maxComplexity p) < tier_rank level then - 100 else 20)
             (js_mul (js_div (of_nat (length (filter (\<lambda>s. s \<in> set (specializations p)) req)))
                        (of_nat (length req))) 50))
          (js_mul (js_div (js_sub (of_int (maxDailyAppointments p)) (of_int (currentLoad p)))
                     (of_int (maxDailyAppointments p))) 20))
       (js_mul (rating p) 2)"
  by (simp add: scorePro_def Let_def indexOf_proComplexityOrder js_initial_score)

lemma pro_scorePro [simp]: "pro (scorePro level req p) = p"
  by (simp add: scorePro_def Let_def split: prod.splits)

lemma findBestTaxPro_fst:
  "fst (findBestTaxPro db now c) =
     updateClient db now (client_id c) (\<lambda>x. x\<lparr>complexityScore := calculateComplexityScore c\<rparr>)"
  by (simp add: findBestTaxPro_def Let_def)

lemma findBestTaxPro_none_available:
  "getAvailableTaxPros db = [] \<Longrightarrow>
   snd (findBestTaxPro db now c) =
     \<lparr>found_taxPro = None,
      reason = Text ''No tax professionals are currently available. Please try again later.'',
      found_alternates = []\<rparr>"
  by (simp add: findBestTaxPro_def Let_def)

lemma findBestTaxPro_some_available:
  "getAvailableTaxPros db \<noteq> [] \<Longrightarrow>
   snd (findBestTaxPro db now c) =
     (if score (hd (rankedPros db c)) < 0
      then \<lparr>found_taxPro = None,
            reason = NoProCanHandle (getComplexityLevel (calculateComplexityScore c))
                       (getRequiredSpecializations c),
            found_alternates = []\<rparr>
      else \<lparr>found_taxPro = Some (pro (hd (rankedPros db c))),
            reason = RoutingReason c (pro (hd (rankedPros db c)))
                       (getComplexityLevel (calculateComplexityScore c))
                       (getRequiredSpecializations c),
            found_alternates = map pro (take 2 (drop 1 (rankedPros db c)))\<rparr>)"
  by (simp add: findBestTaxPro_def Let_def rankedPros_def)

lemma set_rankedPros:
  "set (rankedPros db c) =
     scorePro (getComplexityLevel (calculateComplexityScore c)) (getRequiredSpecializations c)
       ` set (getAvailableTaxPros db)"
  by (simp add: rankedPros_def set_sort_by)

lemma rankedPros_Nil_iff: "rankedPros db c = [] \<longleftrightarrow> getAvailableTaxPros db = []"
  by (simp add: rankedPros_def sort_by_Nil_iff)

lemma pro_rankedPros: "x \<in> set (rankedPros db c) \<Longrightarrow> pro x \<in> set (getAvailableTaxPros db)"
  by (auto simp: set_rankedPros)

lemma available_positive_capacity:
  assumes "staff_numbers_ok db" "p \<in> set (getAvailableTaxPros db)"
  shows "0 < maxDailyAppointments p"
  using assms by (force simp: getAvailableTaxPros_def staff_numbers_ok_def)

text \<open>
  C1. In a store whose staff numbers are in the range of the data model, every candidate
  of \<open>findBestTaxPro\<close> has a positive capacity and its score is: -100 if its maximum tier
  is below the client's tier in the order simple < moderate < complex < expert, else +20;
  plus (matched required specializations / required specializations) * 50, where at least
  one is required; plus ((capacity - load) / capacity) * 20; plus rating * 2, each
  operation being the operation on numbers, in this order. The candidates are sorted by
  this score, highest first. When there is a candidate, the first one is returned as the match
  if and only if its score is at least 0; then the next up to two candidates are the
  alternates, whatever their scores; otherwise there is no match and no alternate.
\<close>

theorem findBestTaxPro_scoring:
  assumes "staff_numbers_ok db"
  shows
    "(let level = getComplexityLevel (calculateComplexityScore client);
          req = getRequiredSpecializations client;
          cands = getAvailableTaxPros db;
          ranked = sort_by (\<lambda>a b. js_sub (score b) (score a)) (map (scorePro level req) cands);
          r = snd (findBestTaxPro db now client)
      in (\<forall>p \<in> set cands.
            req \<noteq> [] \<and> 0 < maxDailyAppointments p
            \<and> score (scorePro level req p) =
                js_add
                  (js_add
                     (js_add (if tier_rank (maxComplexity p) < tier_rank level then - 100 else 20)
                        (js_mul
                           (js_div
                              (of_nat (length (filter (\<lambda>s. s \<in> set (specializations p)) req)))
                              (of_nat (length req))) 50))
                     (js_mul
                        (js_div (js_sub (of_int (maxDailyAppointments p)) (of_int (currentLoad p)))
                           (of_int (maxDailyAppointments p))) 20))
                  (js_mul (rating p) 2))
         \<and> sorted_wrt (\<lambda>a b. score b \<le> score a) ranked
         \<and> (\<forall>x. count_list ranked x = count_list (map (scorePro level req) cands) x)
         \<and> (cands \<noteq> [] \<longrightarrow>
              (found_taxPro r \<noteq> None \<longleftrightarrow> 0 \<le> score (hd ranked))
              \<and> (0 \<le> score (hd ranked) \<longrightarrow>
                    found_taxPro r = Some (pro (hd ranked))
                    \<and> found_alternates r = map pro (take 2 (drop 1 ranked)))
              \<and> (score (hd ranked) < 0 \<longrightarrow> found_taxPro r = None \<and> found_alternates r = [])))"
proof -
  let ?level = "getComplexityLevel (calculateComplexityScore client)"
  let ?req = "getRequiredSpecializations client"
  have a: "\<forall>p \<in> set (getAvailableTaxPros db).
            ?req \<noteq> [] \<and> 0 < maxDailyAppointments p
            \<and> score (scorePro ?level ?req p) =
                js_add
                  (js_add
                     (js_add (if tier_rank (maxComplexity p) < tier_rank ?level then - 100 else 20)
                        (js_mul
                           (js_div
                              (of_nat (length (filter (\<lambda>s. s \<in> set (specializations p)) ?req)))
                              (of_nat (length ?req))) 50))
                     (js_mul
                        (js_div (js_sub (of_int (maxDailyAppointments p)) (of_int (currentLoad p)))
                           (of_int (maxDailyAppointments p))) 20))
                  (js_mul (rating p) 2)"
    using available_positive_capacity [OF assms]
    by (simp add: getRequiredSpecializations_nonempty score_scorePro)
  have b: "sorted_wrt (\<lambda>a b. score b \<le> score a) (rankedPros db client)"
    unfolding rankedPros_def by (rule sorted_sort_by_score)
  have c: "\<forall>x. count_list (rankedPros db client) x
                = count_list (map (scorePro ?level ?req) (getAvailableTaxPros db)) x"
    unfolding rankedPros_def by (simp add: count_list_sort_by)
  have d: "getAvailableTaxPros db \<noteq> [] \<longrightarrow>
           (found_taxPro (snd (findBestTaxPro db now client)) \<noteq> None
              \<longleftrightarrow> 0 \<le> score (hd (rankedPros db client)))
           \<and> (0 \<le> score (hd (rankedPros db client)) \<longrightarrow>
                 found_taxPro (snd (findBestTaxPro db now client)) = Some (pro (hd (rankedPros db client)))
                 \<and> found_alternates (snd (findBestTaxPro db now client))
                     = map pro (take 2 (drop 1 (rankedPros db client))))
           \<and> (score (hd (rankedPros db client)) < 0 \<longrightarrow>
                 found_taxPro (snd (findBestTaxPro db now client)) = None
                 \<and> found_alternates (snd (findBestTaxPro db now client)) = [])"
    by (simp add: findBestTaxPro_some_available not_less [symmetric])
  show ?thesis
    unfolding Let_def using a b c d unfolding rankedPros_def by blast
qed

text \<open>
  C2. Whoever \<open>findBestTaxPro\<close> returns, as the match or as an alternate, is a stored staff
  member that is marked available and whose load is strictly below its capacity. When no
  staff member is such, there is no match and no alternate. In particular, when the only
  staff member can handle the expert tier and is at full load (load = capacity = 4),
  there is no match.
\<close>

theorem findBestTaxPro_only_available:
  "(let r = snd (findBestTaxPro db now client)
    in (\<forall>p. found_taxPro r = Some p \<or> p \<in> set (found_alternates r) \<longrightarrow>
             p \<in> snd ` set (taxPros db) \<and> available p
             \<and> currentLoad p < maxDailyAppointments p)
       \<and> ((\<forall>p \<in> snd ` set (taxPros db).
              \<not> (available p \<and> currentLoad p < maxDailyAppointments p))
            \<longrightarrow> found_taxPro r = None \<and> found_alternates r = [])
       \<and> (\<forall>tp. taxPros db = [(taxPro_id tp, tp)] \<and> maxComplexity tp = expert
                \<and> currentLoad tp = 4 \<and> maxDailyAppointments tp = 4
                \<longrightarrow> found_taxPro r = None))"
proof -
  let ?r = "snd (findBestTaxPro db now client)"
  have mem: "p \<in> snd ` set (taxPros db) \<and> available p \<and> currentLoad p < maxDailyAppointments p"
    if "p \<in> set (getAvailableTaxPros db)" for p
    using that by (auto simp: getAvailableTaxPros_def)
  have a: "p \<in> set (getAvailableTaxPros db)"
    if "found_taxPro ?r = Some p \<or> p \<in> set (found_alternates ?r)" for p
  proof (cases "getAvailableTaxPros db = []")
    case True
    with that show ?thesis by (simp add: findBestTaxPro_none_available)
  next
    case False
    then have ne: "rankedPros db client \<noteq> []" by (simp add: rankedPros_Nil_iff)
    from that False consider
      "p = pro (hd (rankedPros db client))"
      | "p \<in> set (map pro (take 2 (drop 1 (rankedPros db client))))"
      by (auto simp: findBestTaxPro_some_available split: if_splits)
    then show ?thesis
    proof cases
      case 1
      with ne show ?thesis using pro_rankedPros [OF hd_in_set [OF ne]] by simp
    next
      case 2
      then obtain x where "x \<in> set (rankedPros db client)" "p = pro x"
        by (auto dest!: in_set_takeD in_set_dropD)
      then show ?thesis by (simp add: pro_rankedPros)
    qed
  qed
  have b: "getAvailableTaxPros db = []"
    if "\<forall>p \<in> snd ` set (taxPros db). \<not> (available p \<and> currentLoad p < maxDailyAppointments p)"
    using that by (auto simp: getAvailableTaxPros_def filter_empty_conv)
  have c: "found_taxPro ?r = None"
    if "taxPros db = [(taxPro_id tp, tp)] \<and> maxComplexity tp = expert
        \<and> currentLoad tp = 4 \<and> maxDailyAppointments tp = 4" for tp
  proof -
    from that have "getAvailableTaxPros db = []" by (simp add: getAvailableTaxPros_def)
    then show ?thesis by (simp add: findBestTaxPro_none_available)
  qed
  have a': "\<forall>p. found_taxPro ?r = Some p \<or> p \<in> set (found_alternates ?r) \<longrightarrow>
             p \<in> snd ` set (taxPros db) \<and> available p
             \<and> currentLoad p < maxDailyAppointments p"
    using a mem by blast
  have b': "(\<forall>p \<in> snd ` set (taxPros db).
              \<not> (available p \<and> currentLoad p < maxDailyAppointments p))
            \<longrightarrow> found_taxPro ?r = None \<and> found_alternates ?r = []"
    using b by (simp add: findBestTaxPro_none_available)
  have c': "\<forall>tp. taxPros db = [(taxPro_id tp, tp)] \<and> maxComplexity tp = expert
                \<and> currentLoad tp = 4 \<and> maxDailyAppointments tp = 4
                \<longrightarrow> found_taxPro ?r = None"
    using c by blast
  show ?thesis
    unfolding Let_def by (intro conjI a' b' c')
qed

lemma map_of_clients_updateClient:
  "map_of (clients (updateClient db now k f)) k' =
     (if k' = k then map_option (\<lambda>c. (f c)\<lparr>updatedAt := now\<rparr>) (map_of (clients db) k)
      else map_of (clients db) k')"
  by (simp add: updateClient_def update_conv' split: option.splits)

lemma clients_updateTaxProLoad [simp]: "clients (updateTaxProLoad db k n) = clients db"
  by (simp add: updateTaxProLoad_def split: option.splits)

lemma available_in_store:
  "p \<in> set (getAvailableTaxPros db) \<Longrightarrow> \<exists>k. (k, p) \<in> set (taxPros db)"
  by (auto simp: getAvailableTaxPros_def)

lemma staff_wf_lookup:
  assumes "staff_wf db" "(k, p) \<in> set (taxPros db)"
  shows "map_of (taxPros db) k = Some p" "taxPro_id p = k" "0 \<le> currentLoad p"
  using assms by (auto simp: staff_wf_def)

lemma found_taxPro_available:
  assumes "found_taxPro (snd (findBestTaxPro db now c)) = Some tp"
  shows "tp \<in> set (getAvailableTaxPros db)"
proof (cases "getAvailableTaxPros db = []")
  case True
  with assms show ?thesis by (simp add: findBestTaxPro_none_available)
next
  case False
  then have ne: "rankedPros db c \<noteq> []" by (simp add: rankedPros_Nil_iff)
  from assms False have "tp = pro (hd (rankedPros db c))"
    by (auto simp: findBestTaxPro_some_available split: if_splits)
  then show ?thesis using pro_rankedPros [OF hd_in_set [OF ne]] by simp
qed

lemma taxPros_findBestTaxPro [simp]: "taxPros (fst (findBestTaxPro db now c)) = taxPros db"
  by (simp add: findBestTaxPro_fst)

lemma assigned_findBestTaxPro:
  "map_option assignedTaxPro (map_of (clients (fst (findBestTaxPro db now c))) k)
     = map_option assignedTaxPro (map_of (clients db) k)"
  by (simp add: findBestTaxPro_fst map_of_clients_updateClient option.map_comp comp_def)

lemma routeClientToTaxPro_unknown:
  "getClient db cid = None \<Longrightarrow>
   routeClientToTaxPro db now cid =
     (db, \<lparr>success = False, routed_taxPro = None, message = Text ''Client not found'',
           routed_alternates = None\<rparr>)"
  by (simp add: routeClientToTaxPro_def)

lemma routeClientToTaxPro_no_match:
  "getClient db cid = Some c \<Longrightarrow> found_taxPro (snd (findBestTaxPro db now c)) = None \<Longrightarrow>
   routeClientToTaxPro db now cid =
     (fst (findBestTaxPro db now c),
      \<lparr>success = False, routed_taxPro = None, message = reason (snd (findBestTaxPro db now c)),
       routed_alternates = Some (found_alternates (snd (findBestTaxPro db now c)))\<rparr>)"
  by (cases "findBestTaxPro db now c") (simp add: routeClientToTaxPro_def)

lemma routeClientToTaxPro_match:
  "getClient db cid = Some c \<Longrightarrow> found_taxPro (snd (findBestTaxPro db now c)) = Some tp \<Longrightarrow>
   routeClientToTaxPro db now cid =
     (let db1 = updateClient (fst (findBestTaxPro db now c)) now cid
                  (\<lambda>x. x\<lparr>assignedTaxPro := Some (taxPro_id tp)\<rparr>);
          db2 = updateTaxProLoad db1 (taxPro_id tp) 1
      in (db2,
          \<lparr>success = True,
           routed_taxPro = Some (case map_of (taxPros db2) (taxPro_id tp) of
                                  Some stored \<Rightarrow> stored | None \<Rightarrow> tp),
           message = reason (snd (findBestTaxPro db now c)),
           routed_alternates = Some (found_alternates (snd (findBestTaxPro db now c)))\<rparr>))"
  by (cases "findBestTaxPro db now c") (simp add: routeClientToTaxPro_def Let_def)

lemma getClient_findBestTaxPro_dom:
  "getClient db cid = Some c \<Longrightarrow> \<exists>c'. map_of (clients (fst (findBestTaxPro db now x))) cid = Some c'"
  by (auto simp: findBestTaxPro_fst map_of_clients_updateClient getClient_def)

text \<open>
  C6. \<open>routeClientToTaxPro\<close> on a well-formed staff table. When it succeeds, the staff member
  that \<open>findBestTaxPro\<close> selected is stored as the client's \<open>assignedTaxPro\<close>, that staff
  member's load is one higher, every other staff member is unchanged, and no other
  client's assignment changes. When it fails, the client is unknown or nobody matched,
  the staff table is unchanged and no client's assignment changes.
\<close>

theorem routeClientToTaxPro_frame:
  assumes wf: "staff_wf db" and run: "routeClientToTaxPro db now cid = (db', r)"
  shows
    "(success r \<longrightarrow>
        (\<exists>c tp. getClient db cid = Some c
           \<and> found_taxPro (snd (findBestTaxPro db now c)) = Some tp
           \<and> (taxPro_id tp, tp) \<in> set (taxPros db)
           \<and> map_option assignedTaxPro (getClient db' cid) = Some (Some (taxPro_id tp))
           \<and> routed_taxPro r = Some (tp\<lparr>currentLoad := currentLoad tp + 1\<rparr>)
           \<and> map fst (taxPros db') = map fst (taxPros db)
           \<and> (\<forall>(k, p) \<in> set (taxPros db).
                 map_of (taxPros db') k
                   = Some (if k = taxPro_id tp then p\<lparr>currentLoad := currentLoad p + 1\<rparr> else p))
           \<and> (\<forall>k. k \<noteq> cid \<longrightarrow>
                 map_option assignedTaxPro (map_of (clients db') k)
                   = map_option assignedTaxPro (map_of (clients db) k))))
     \<and> (\<not> success r \<longrightarrow>
           (getClient db cid = None
            \<or> (\<exists>c. getClient db cid = Some c \<and> found_taxPro (snd (findBestTaxPro db now c)) = None))
           \<and> taxPros db' = taxPros db
           \<and> (\<forall>k. map_option assignedTaxPro (map_of (clients db') k)
                     = map_option assignedTaxPro (map_of (clients db) k)))"
proof (cases "getClient db cid")
  case None
  with run show ?thesis by (auto simp: routeClientToTaxPro_unknown)
next
  case client: (Some c)
  show ?thesis
  proof (cases "found_taxPro (snd (findBestTaxPro db now c))")
    case None
    from routeClientToTaxPro_no_match [OF client None] run
    have "db' = fst (findBestTaxPro db now c)" "\<not> success r" by auto
    with client None show ?thesis by (simp add: assigned_findBestTaxPro)
  next
    case found: (Some tp)
    let ?db1 = "updateClient (fst (findBestTaxPro db now c)) now cid
                  (\<lambda>x. x\<lparr>assignedTaxPro := Some (taxPro_id tp)\<rparr>)"
    let ?tp' = "tp\<lparr>currentLoad := currentLoad tp + 1\<rparr>"
    from found_taxPro_available [OF found] obtain k where k: "(k, tp) \<in> set (taxPros db)"
      using available_in_store by blast
    note tpf = staff_wf_lookup [OF wf k]
    have mem: "(taxPro_id tp, tp) \<in> set (taxPros db)" using k tpf(2) by simp
    have look: "map_of (taxPros ?db1) (taxPro_id tp) = Some tp" using tpf by simp
    have max1: "max 0 (currentLoad tp + 1) = currentLoad tp + 1" using tpf(3) by simp
    have tp2: "taxPros (updateTaxProLoad ?db1 (taxPro_id tp) 1)
                 = AList.update (taxPro_id tp) ?tp' (taxPros db)"
      using look max1 by (simp add: updateTaxProLoad_def)
    from routeClientToTaxPro_match [OF client found] run
    have db': "db' = updateTaxProLoad ?db1 (taxPro_id tp) 1"
      and r: "success r"
        "routed_taxPro r = Some (case map_of (taxPros db') (taxPro_id tp) of
                                   Some stored \<Rightarrow> stored | None \<Rightarrow> tp)"
      by (auto simp: Let_def)
    have tps: "taxPros db' = AList.update (taxPro_id tp) ?tp' (taxPros db)"
      using db' tp2 by simp
    have keys: "map fst (taxPros db') = map fst (taxPros db)"
      using mem by (force simp: tps update_keys)
    have loads: "\<forall>(k, p) \<in> set (taxPros db).
                   map_of (taxPros db') k
                     = Some (if k = taxPro_id tp then p\<lparr>currentLoad := currentLoad p + 1\<rparr> else p)"
    proof (clarify)
      fix k' p assume kp: "(k', p) \<in> set (taxPros db)"
      note pf = staff_wf_lookup [OF wf kp]
      show "map_of (taxPros db') k'
              = Some (if k' = taxPro_id tp then p\<lparr>currentLoad := currentLoad p + 1\<rparr> else p)"
      proof (cases "k' = taxPro_id tp")
        case True
        with pf(1) tpf(1,2) have "p = tp" by simp
        with True show ?thesis by (simp add: tps update_conv')
      next
        case False
        with pf(1) show ?thesis by (simp add: tps update_conv')
      qed
    qed
    have routed: "routed_taxPro r = Some ?tp'"
      using r(2) by (simp add: tps update_conv')
    from client obtain c' where c': "map_of (clients (fst (findBestTaxPro db now c))) cid = Some c'"
      using getClient_findBestTaxPro_dom by blast
    have assigned: "map_option assignedTaxPro (getClient db' cid) = Some (Some (taxPro_id tp))"
      using c' by (simp add: db' getClient_def map_of_clients_updateClient)
    have others: "\<forall>k. k \<noteq> cid \<longrightarrow>
                    map_option assignedTaxPro (map_of (clients db') k)
                      = map_option assignedTaxPro (map_of (clients db) k)"
      by (simp add: db' map_of_clients_updateClient assigned_findBestTaxPro)
    from client found mem assigned routed keys loads others r(1) show ?thesis by blast
  qed
qed

section \<open>The routing properties on example stores\<close>

lemma cryptoClient_level:
  "getComplexityLevel (calculateComplexityScore cryptoClient) = complex"
  by (simp add: calculateComplexityScore_sum getComplexityLevel_def cryptoClient_def
      newClientProfile_def)

lemma cryptoClient_specs:
  "getRequiredSpecializations cryptoClient = [spec_individual, spec_crypto]"
  by (simp add: getRequiredSpecializations_def cryptoClient_def newClientProfile_def set_add_def)

lemma routingDb_available: "getAvailableTaxPros routingDb = [expertPro, simplePro]"
  by (simp add: getAvailableTaxPros_def routingDb_def expertPro_def simplePro_def)

lemma score_expertPro: "score (scorePro complex [spec_individual, spec_crypto] expertPro) = 95"
  by code_simp

lemma score_simplePro: "score (scorePro complex [spec_individual, spec_crypto] simplePro) = - 46"
  by code_simp

lemma routingDb_ranked:
  "sort_by (\<lambda>a b. js_sub (score b) (score a))
     [scorePro complex [spec_individual, spec_crypto] expertPro,
      scorePro complex [spec_individual, spec_crypto] simplePro]
   = [scorePro complex [spec_individual, spec_crypto] expertPro,
      scorePro complex [spec_individual, spec_crypto] simplePro]"
  by (simp add: sort_by_def score_expertPro score_simplePro js_sub_le_0_iff)

lemma staff_numbers_ok_newDatabase: "staff_numbers_ok newDatabase"
  by code_simp

lemma staff_numbers_ok_routingDb: "staff_numbers_ok routingDb"
  by code_simp

theorem findBestTaxPro_scoring_witness:
  "staff_numbers_ok routingDb
   \<and> getAvailableTaxPros routingDb = [expertPro, simplePro]
   \<and> score (scorePro complex [spec_individual, spec_crypto] expertPro) = 95
   \<and> score (scorePro complex [spec_individual, spec_crypto] simplePro) = - 46
   \<and> found_taxPro (snd (findBestTaxPro routingDb 7 cryptoClient)) = Some expertPro
   \<and> found_alternates (snd (findBestTaxPro routingDb 7 cryptoClient)) = [simplePro]"
proof -
  from findBestTaxPro_scoring [OF staff_numbers_ok_routingDb, of cryptoClient 7]
  have "found_taxPro (snd (findBestTaxPro routingDb 7 cryptoClient)) = Some expertPro
        \<and> found_alternates (snd (findBestTaxPro routingDb 7 cryptoClient)) = [simplePro]"
    by (simp add: Let_def cryptoClient_level cryptoClient_specs routingDb_available
        routingDb_ranked score_expertPro)
  then show ?thesis
    using staff_numbers_ok_routingDb
    by (simp add: routingDb_available score_expertPro score_simplePro)
qed

text \<open>
  Rounding decides between two candidates whose scores are equal as fractions, 242/3: the
  second candidate's score is one unit in the last place higher, and it is the match.
\<close>

lemma tieDb_scores:
  "map score (map (scorePro (getComplexityLevel (calculateComplexityScore tieClient))
                     (getRequiredSpecializations tieClient)) (getAvailableTaxPros tieDb))
     = [2838206015165781 / 35184372088832, 5676412030331563 / 70368744177664]"
  by code_simp

lemma tieDb_match:
  "staff_numbers_ok tieDb
   \<and> map_option taxPro_id (found_taxPro (snd (findBestTaxPro tieDb 7 tieClient))) = Some ''tp-b''
   \<and> map taxPro_id (found_alternates (snd (findBestTaxPro tieDb 7 tieClient))) = [''tp-a'']"
  by code_simp

lemma saturatedClient_score: "calculateComplexityScore saturatedClient = 100"
proof -
  have a: "0 \<le> sum_list (map weight_incomeTypes allIncomeTypes)"
    by (rule sum_list_incomeTypes_nonneg)
  have b: "0 \<le> sum_list (map weight_deductions allDeductions)"
    by (rule sum_list_deductions_nonneg)
  show ?thesis
    using a b by (simp add: calculateComplexityScore_sum saturatedClient_def newClientProfile_def)
qed

lemma fullDb_taxPros: "taxPros fullDb = [(taxPro_id (expertPro\<lparr>currentLoad := 4\<rparr>), expertPro\<lparr>currentLoad := 4\<rparr>)]"
  by (simp add: fullDb_def expertPro_def)

theorem findBestTaxPro_only_available_witness:
  "taxPros fullDb = [(''tp-a'', expertPro\<lparr>currentLoad := 4\<rparr>)]
   \<and> maxComplexity (expertPro\<lparr>currentLoad := 4\<rparr>) = expert
   \<and> currentLoad (expertPro\<lparr>currentLoad := 4\<rparr>) = 4
   \<and> maxDailyAppointments (expertPro\<lparr>currentLoad := 4\<rparr>) = 4
   \<and> getComplexityLevel (calculateComplexityScore saturatedClient) = expert
   \<and> found_taxPro (snd (findBestTaxPro fullDb 7 saturatedClient)) = None
   \<and> found_alternates (snd (findBestTaxPro fullDb 7 saturatedClient)) = []"
proof -
  have h: "maxComplexity (expertPro\<lparr>currentLoad := 4\<rparr>) = expert"
    "currentLoad (expertPro\<lparr>currentLoad := 4\<rparr>) = 4"
    "maxDailyAppointments (expertPro\<lparr>currentLoad := 4\<rparr>) = 4"
    by (simp_all add: expertPro_def)
  have lvl: "getComplexityLevel (calculateComplexityScore saturatedClient) = expert"
    by (simp add: saturatedClient_score getComplexityLevel_def)
  from findBestTaxPro_only_available [of fullDb 7 saturatedClient]
  have "found_taxPro (snd (findBestTaxPro fullDb 7 saturatedClient)) = None
        \<and> found_alternates (snd (findBestTaxPro fullDb 7 saturatedClient)) = []"
    using h by (simp add: Let_def fullDb_taxPros)
  with h lvl show ?thesis by (simp add: fullDb_def)
qed

lemma staff_wf_routingDb: "staff_wf routingDb"
  by (simp add: staff_wf_def routingDb_def expertPro_def simplePro_def)

lemma routingDb_found:
  "found_taxPro (snd (findBestTaxPro routingDb 7 cryptoClient)) = Some expertPro"
  by (simp add: findBestTaxPro_some_available rankedPros_def routingDb_available
      cryptoClient_level cryptoClient_specs routingDb_ranked score_expertPro)

theorem routeClientToTaxPro_frame_witness:
  "staff_wf routingDb
   \<and> success (snd (routeClientToTaxPro routingDb 7 ''client-2''))
   \<and> routed_taxPro (snd (routeClientToTaxPro routingDb 7 ''client-2''))
       = Some (expertPro\<lparr>currentLoad := 2\<rparr>)
   \<and> map_option assignedTaxPro (getClient (fst (routeClientToTaxPro routingDb 7 ''client-2'')) ''client-2'')
       = Some (Some ''tp-a'')
   \<and> map_of (taxPros (fst (routeClientToTaxPro routingDb 7 ''client-2''))) ''tp-a''
       = Some (expertPro\<lparr>currentLoad := 2\<rparr>)
   \<and> map_of (taxPros (fst (routeClientToTaxPro routingDb 7 ''client-2''))) ''tp-b'' = Some simplePro"
proof -
  obtain db' r where run: "routeClientToTaxPro routingDb 7 ''client-2'' = (db', r)"
    by (cases "routeClientToTaxPro routingDb 7 ''client-2''")
  have c: "getClient routingDb ''client-2'' = Some cryptoClient"
    by (simp add: getClient_def routingDb_def)
  have ok: "success r"
    using routeClientToTaxPro_match [OF c routingDb_found] run by (auto simp: Let_def)
  from routeClientToTaxPro_frame [OF staff_wf_routingDb run] ok c routingDb_found
  have f: "map_option assignedTaxPro (getClient db' ''client-2'') = Some (Some (taxPro_id expertPro))"
    "routed_taxPro r = Some (expertPro\<lparr>currentLoad := currentLoad expertPro + 1\<rparr>)"
    "\<forall>(k, p) \<in> set (taxPros routingDb).
        map_of (taxPros db') k
          = Some (if k = taxPro_id expertPro then p\<lparr>currentLoad := currentLoad p + 1\<rparr> else p)"
    by auto
  have ids: "taxPro_id expertPro = ''tp-a''" "currentLoad expertPro + 1 = 2"
    by (simp_all add: expertPro_def)
  from f(3) have "map_of (taxPros db') ''tp-a'' = Some (expertPro\<lparr>currentLoad := 2\<rparr>)"
    "map_of (taxPros db') ''tp-b'' = Some simplePro"
    by (simp_all add: routingDb_def ids)
  with f(1,2) ok staff_wf_routingDb show ?thesis
    by (simp add: run ids)
qed


lemma staff_wf_newDatabase: "staff_wf newDatabase"
  by (simp add: staff_wf_def newDatabase_def initializeTaxPros_def)

lemma set_update_subset: "set (AList.update k v al) \<subseteq> insert (k, v) (set al)"
  by (induction al) auto

lemma staff_wf_routeClientToTaxPro:
  assumes "staff_wf db"
  shows "staff_wf (fst (routeClientToTaxPro db now cid))"
proof -
  obtain db' r where run: "routeClientToTaxPro db now cid = (db', r)"
    by (cases "routeClientToTaxPro db now cid")
  show ?thesis
  proof (cases "getClient db cid")
    case None
    with assms show ?thesis by (simp add: routeClientToTaxPro_unknown)
  next
    case client: (Some c)
    show ?thesis
    proof (cases "found_taxPro (snd (findBestTaxPro db now c))")
      case None
      with client assms show ?thesis by (simp add: routeClientToTaxPro_no_match staff_wf_def)
    next
      case found: (Some tp)
      from found_taxPro_available [OF found] obtain k where k: "(k, tp) \<in> set (taxPros db)"
        using available_in_store by blast
      note tpf = staff_wf_lookup [OF assms k]
      let ?tp' = "tp\<lparr>currentLoad := max 0 (currentLoad tp + 1)\<rparr>"
      have t: "taxPros (fst (routeClientToTaxPro db now cid))
                 = AList.update (taxPro_id tp) ?tp' (taxPros db)"
        using tpf by (simp add: routeClientToTaxPro_match [OF client found] Let_def updateTaxProLoad_def)
      have "distinct (map fst (AList.update (taxPro_id tp) ?tp' (taxPros db)))"
        using assms by (simp add: staff_wf_def distinct_update)
      moreover have "\<forall>(k', p) \<in> set (AList.update (taxPro_id tp) ?tp' (taxPros db)).
                        taxPro_id p = k' \<and> 0 \<le> currentLoad p"
        using assms tpf set_update_subset [of "taxPro_id tp" ?tp' "taxPros db"]
        by (fastforce simp: staff_wf_def)
      ultimately show ?thesis unfolding staff_wf_def t by simp
    qed
  qed
qed

section \<open>Properties of the document checklist\<close>

lemma find_None_iff_doc: "find P xs = None \<longleftrightarrow> (\<forall>x \<in> set xs. \<not> P x)"
  by (induction xs) auto

text \<open>
  C8. For a client with a stored checklist, \<open>markDocumentCollected\<close> with a document id
  that no item of that checklist has returns success = false with the message
  "Document not found in checklist", and the store is unchanged: the checklist, the
  client's \<open>documentsCollected\<close> and the client's \<open>documentsPending\<close> with it.
\<close>

theorem markDocumentCollected_unknown_document:
  assumes "map_of (checklists db) clientId = Some checklist"
    and "\<forall>d \<in> set (documents checklist). doc_id d \<noteq> documentId"
  shows "markDocumentCollected db now clientId documentId
           = (db, \<lparr>mark_success = False, mark_message = ''Document not found in checklist''\<rparr>)"
proof -
  from assms(2) have "find (\<lambda>d. doc_id d = documentId) (documents checklist) = None"
    by (simp add: find_None_iff_doc)
  with assms(1) show ?thesis by (simp add: markDocumentCollected_def)
qed


lemma startsWith_append [simp]: "startsWith (p @ s) p"
  by (induction p) simp_all

lemma startsWith_generateDocumentId: "startsWith (generateDocumentId t r) ''doc-''"
  unfolding generateDocumentId_def append_assoc by (rule startsWith_append)

lemma template_keys_not_generated:
  "\<forall>(k, t) \<in> set DOCUMENT_TEMPLATES. \<not> startsWith k ''doc-''"
  by (simp add: DOCUMENT_TEMPLATES_def)

lemma template_key_not_generated:
  "map_of DOCUMENT_TEMPLATES k = Some t \<Longrightarrow> \<not> startsWith k ''doc-''"
  using template_keys_not_generated by (auto dest: map_of_SomeD)

lemma generated_id_no_template: "map_of DOCUMENT_TEMPLATES (generateDocumentId t r) = None"
  using template_key_not_generated [of "generateDocumentId t r"] startsWith_generateDocumentId
  by (cases "map_of DOCUMENT_TEMPLATES (generateDocumentId t r)") auto

lemma makeDocuments_uncollected:
  assumes "\<forall>k \<in> set coll. startsWith k ''doc-''"
  shows "\<forall>d \<in> set (makeDocuments ids coll i keys). \<not> collected d \<and> startsWith (doc_id d) ''doc-''"
proof (induction keys arbitrary: i)
  case Nil
  show ?case by simp
next
  case (Cons k keys)
  show ?case
  proof (cases "map_of DOCUMENT_TEMPLATES k")
    case None
    with Cons show ?thesis by simp
  next
    case (Some t)
    from template_key_not_generated [OF Some] assms have "k \<notin> set coll" by blast
    with Some Cons show ?thesis by (simp add: startsWith_generateDocumentId)
  qed
qed

lemma generateDocumentChecklist_Some:
  assumes "getClient db cid = Some c"
  shows "\<exists>db' cl. generateDocumentChecklist db now ids cid = Inr (db', cl)
           \<and> documents cl = sort_by compareDocuments
                               (makeDocuments ids (documentsCollected c) 0 (documentKeys c))
           \<and> map_of (checklists db') cid = Some cl
           \<and> map_option documentsCollected (getClient db' cid) = Some (documentsCollected c)"
  using assms
  by (simp add: generateDocumentChecklist_def Let_def getClient_def updateClient_def update_conv')

lemma updateFirst_cases: "y \<in> set (updateFirst P f xs) \<Longrightarrow> \<exists>x \<in> set xs. y = x \<or> y = f x"
  by (induction xs) (auto split: if_splits)

lemma find_Some_doc: "find P xs = Some x \<Longrightarrow> P x \<and> x \<in> set xs"
  by (induction xs) (auto split: if_splits)

lemma checklists_updateClient [simp]: "checklists (updateClient db now k f) = checklists db"
  by (simp add: updateClient_def split: option.splits)

lemma clients_updateChecklistItem [simp]:
  "clients (updateChecklistItem db now cid did f) = clients db"
  by (simp add: updateChecklistItem_def split: option.splits)

lemma getClient_updateChecklistItem [simp]:
  "getClient (updateChecklistItem db now cid did f) k = getClient db k"
  by (simp add: getClient_def)

lemma checklist_after_update:
  assumes "map_of (checklists db) cid = Some cl"
    and "\<forall>d \<in> set (documents cl). startsWith (doc_id d) ''doc-''"
    and "map_of (checklists (updateChecklistItem db now cid did (\<lambda>d. d\<lparr>collected := True\<rparr>))) cid
           = Some cl'"
  shows "\<forall>d \<in> set (documents cl'). startsWith (doc_id d) ''doc-''"
proof (cases "\<exists>d \<in> set (documents cl). doc_id d = did")
  case False
  with assms show ?thesis by (simp add: updateChecklistItem_def)
next
  case True
  with assms(1,3) have
    "documents cl' = updateFirst (\<lambda>d. doc_id d = did) (\<lambda>d. d\<lparr>collected := True\<rparr>) (documents cl)"
    by (auto simp: updateChecklistItem_def update_conv')
  with assms(2) show ?thesis by (auto dest!: updateFirst_cases)
qed

lemma markDocumentCollected_fst:
  "fst (markDocumentCollected db now cid did) =
     (case map_of (checklists db) cid of
        None \<Rightarrow> db
      | Some cl \<Rightarrow>
          (case find (\<lambda>d. doc_id d = did) (documents cl) of
             None \<Rightarrow> db
           | Some d \<Rightarrow>
               (case getClient db cid of
                  None \<Rightarrow> updateChecklistItem db now cid did (\<lambda>d. d\<lparr>collected := True\<rparr>)
                | Some c \<Rightarrow>
                    updateClient (updateChecklistItem db now cid did (\<lambda>d. d\<lparr>collected := True\<rparr>))
                      now cid
                      (\<lambda>x. x\<lparr>documentsCollected :=
                                 (if did \<notin> set (documentsCollected c)
                                  then documentsCollected c @ [did] else documentsCollected c),
                               documentsPending := filter (\<lambda>i. i \<noteq> did) (documentsPending c)\<rparr>))))"
  by (simp add: markDocumentCollected_def Let_def split: option.splits)

lemma ids_generated_mark:
  assumes "ids_generated db cid"
  shows "ids_generated (fst (markDocumentCollected db now cid did)) cid"
proof (cases "map_of (checklists db) cid")
  case None
  with assms show ?thesis by (simp add: markDocumentCollected_fst)
next
  case (Some cl)
  from assms Some obtain c where c: "getClient db cid = Some c"
    and ck: "\<forall>k \<in> set (documentsCollected c). startsWith k ''doc-''"
    and dk: "\<forall>d \<in> set (documents cl). startsWith (doc_id d) ''doc-''"
    by (auto simp: ids_generated_def split: option.splits)
  show ?thesis
  proof (cases "find (\<lambda>d. doc_id d = did) (documents cl)")
    case None
    with Some assms show ?thesis by (simp add: markDocumentCollected_fst)
  next
    case found: (Some d)
    from find_Some_doc [OF found] dk have did: "startsWith did ''doc-''" by auto
    let ?db1 = "updateChecklistItem db now cid did (\<lambda>d. d\<lparr>collected := True\<rparr>)"
    let ?upd = "\<lambda>x. x\<lparr>documentsCollected :=
                          (if did \<notin> set (documentsCollected c)
                           then documentsCollected c @ [did] else documentsCollected c),
                        documentsPending := filter (\<lambda>i. i \<noteq> did) (documentsPending c)\<rparr>"
    have fst: "fst (markDocumentCollected db now cid did) = updateClient ?db1 now cid ?upd"
      using Some found c by (simp add: markDocumentCollected_fst)
    have cl: "\<forall>cl'. map_of (checklists ?db1) cid = Some cl'
                \<longrightarrow> (\<forall>d \<in> set (documents cl'). startsWith (doc_id d) ''doc-'')"
      using checklist_after_update [OF Some dk] by blast
    have c1: "map_of (clients ?db1) cid = Some c" using c by (simp add: getClient_def)
    show ?thesis
      unfolding fst ids_generated_def
      using cl c1 ck did
      by (auto simp: getClient_def updateClient_def update_conv' split: option.splits)
  qed
qed

lemma ids_generated_generate:
  assumes "ids_generated db cid"
  shows "\<exists>db' cl. generateDocumentChecklist db now ids cid = Inr (db', cl)
           \<and> ids_generated db' cid \<and> (\<forall>d \<in> set (documents cl). \<not> collected d)"
proof -
  from assms obtain c where c: "getClient db cid = Some c"
    and ck: "\<forall>k \<in> set (documentsCollected c). startsWith k ''doc-''"
    by (auto simp: ids_generated_def split: option.splits)
  from generateDocumentChecklist_Some [OF c, of now ids] obtain db' cl where
    g: "generateDocumentChecklist db now ids cid = Inr (db', cl)"
    and d: "documents cl = sort_by compareDocuments
                             (makeDocuments ids (documentsCollected c) 0 (documentKeys c))"
    and s: "map_of (checklists db') cid = Some cl"
    and k: "map_option documentsCollected (getClient db' cid) = Some (documentsCollected c)"
    by blast
  from makeDocuments_uncollected [OF ck] d
  have u: "\<forall>d \<in> set (documents cl). \<not> collected d \<and> startsWith (doc_id d) ''doc-''"
    by (simp add: set_sort_by)
  from k ck s u have "ids_generated db' cid"
    by (auto simp: ids_generated_def split: option.splits)
  with g u show ?thesis by blast
qed

lemma ids_generated_applyOp:
  "ids_generated db cid \<Longrightarrow> ids_generated (applyOp cid db op) cid"
proof (cases op)
  case (Generate now ids)
  assume "ids_generated db cid"
  from ids_generated_generate [OF this, of now ids] Generate show ?thesis by auto
next
  case (Mark now did)
  assume "ids_generated db cid"
  from ids_generated_mark [OF this] Mark show ?thesis by simp
qed

lemma ids_generated_runOps:
  "ids_generated db cid \<Longrightarrow> ids_generated (runOps cid db ops) cid"
  unfolding runOps_def
  by (induction ops arbitrary: db) (simp_all add: ids_generated_applyOp)

lemma markDocumentCollected_appends:
  assumes "mark_success (snd (markDocumentCollected db now cid did))"
    and "getClient (fst (markDocumentCollected db now cid did)) cid = Some c'"
  shows "did \<in> set (documentsCollected c')"
  using assms
  by (auto simp: markDocumentCollected_def Let_def getClient_def updateClient_def update_conv'
      split: option.splits if_splits)

text \<open>
  C10. Collected status does not survive regeneration. No identifier made by
  \<open>generateDocumentId\<close> is a template key; a successful \<open>markDocumentCollected\<close> leaves
  the document id it was given in the client's \<open>documentsCollected\<close>; and for a client
  that starts with nothing collected and no checklist, after any run of regenerations and
  markings, every item of a regenerated checklist has collected = false.
\<close>

theorem collected_lost_on_regeneration:
  assumes "getClient db cid = Some c" and "documentsCollected c = []"
    and "map_of (checklists db) cid = None"
  shows "(\<forall>t r. map_of DOCUMENT_TEMPLATES (generateDocumentId t r) = None)
         \<and> (\<forall>db1 t did c'. mark_success (snd (markDocumentCollected db1 t cid did))
                \<and> getClient (fst (markDocumentCollected db1 t cid did)) cid = Some c'
                \<longrightarrow> did \<in> set (documentsCollected c'))
         \<and> (\<exists>db' cl. generateDocumentChecklist (runOps cid db ops) now ids cid = Inr (db', cl)
                \<and> (\<forall>d \<in> set (documents cl). \<not> collected d))"
proof -
  from assms have "ids_generated db cid" by (simp add: ids_generated_def)
  then have "ids_generated (runOps cid db ops) cid" by (rule ids_generated_runOps)
  from ids_generated_generate [OF this, of now ids]
  have "\<exists>db' cl. generateDocumentChecklist (runOps cid db ops) now ids cid = Inr (db', cl)
          \<and> (\<forall>d \<in> set (documents cl). \<not> collected d)"
    by blast
  then show ?thesis
    using generated_id_no_template markDocumentCollected_appends by blast
qed

lemma exampleOps_collected:
  "map_option documentsCollected (getClient (runOps ''client-2'' routingDb exampleOps) ''client-2'')
     = Some [''doc-7-r0'']"
  by code_simp

lemma exampleOps_checklist_marked:
  "map_option (\<lambda>cl. map (\<lambda>d. (doc_id d, collected d)) (documents cl))
     (map_of (checklists (runOps ''client-2'' routingDb exampleOps)) ''client-2'')
   = Some [(''doc-7-r0'', True), (''doc-7-r1'', False), (''doc-7-r3'', False),
           (''doc-7-r4'', False), (''doc-7-r2'', False), (''doc-7-r5'', False)]"
  by code_simp

theorem collected_lost_on_regeneration_witness:
  "getClient routingDb ''client-2'' = Some cryptoClient
   \<and> documentsCollected cryptoClient = []
   \<and> map_of (checklists routingDb) ''client-2'' = None
   \<and> map_option documentsCollected (getClient (runOps ''client-2'' routingDb exampleOps) ''client-2'')
       = Some [''doc-7-r0'']
   \<and> (\<exists>db' cl. generateDocumentChecklist (runOps ''client-2'' routingDb exampleOps) 9 exampleIds
                   ''client-2'' = Inr (db', cl)
          \<and> (\<forall>d \<in> set (documents cl). \<not> collected d))"
proof -
  have h: "getClient routingDb ''client-2'' = Some cryptoClient"
    "documentsCollected cryptoClient = []"
    "map_of (checklists routingDb) ''client-2'' = None"
    by (simp_all add: getClient_def routingDb_def cryptoClient_def newClientProfile_def)
  from collected_lost_on_regeneration [OF h, of exampleOps 9 exampleIds] h exampleOps_collected
  show ?thesis by blast
qed


lemma ids_generated_routingDb: "ids_generated routingDb ''client-2''"
  by (simp add: ids_generated_def getClient_def routingDb_def cryptoClient_def newClientProfile_def)

lemma ids_generated_checklistDb: "ids_generated checklistDb ''client-2''"
  unfolding checklistDb_def by (rule ids_generated_applyOp [OF ids_generated_routingDb])

lemma checklistDb_has_checklist: "map_of (checklists checklistDb) ''client-2'' \<noteq> None"
  by code_simp

theorem markDocumentCollected_unknown_document_witness:
  "map_of (checklists checklistDb) ''client-2'' \<noteq> None
   \<and> markDocumentCollected checklistDb 8 ''client-2'' ''income_w2''
       = (checklistDb, \<lparr>mark_success = False, mark_message = ''Document not found in checklist''\<rparr>)"
proof -
  from checklistDb_has_checklist obtain cl where
    cl: "map_of (checklists checklistDb) ''client-2'' = Some cl" by blast
  with ids_generated_checklistDb
  have g: "\<forall>d \<in> set (documents cl). startsWith (doc_id d) ''doc-''"
    by (simp add: ids_generated_def split: option.splits)
  have "\<not> startsWith ''income_w2'' ''doc-''" by simp
  with g have h: "\<forall>d \<in> set (documents cl). doc_id d \<noteq> ''income_w2''" by metis
  from markDocumentCollected_unknown_document [OF cl h, of 8] cl show ?thesis by simp
qed

section \<open>Unresolved identifiers\<close>

lemma createAppointment_known:
  "getClient db clientId = Some c \<Longrightarrow>
   \<exists>db' a. createAppointment db now rnd clientId tid sched ty = Inr (db', a) \<and> taxProId a = tid"
  by (simp add: createAppointment_def Let_def)

lemma createAppointmentReminder_unresolved_staff:
  assumes "getClient db clientId = Some c" "getAppointment db aid = Some a"
    "getTaxPro db (taxProId a) = None"
  shows "\<exists>db' r. createAppointmentReminder db now rnd clientId aid rt sf = Inr (db', r)
           \<and> reminder_message r =
               (if rt = appointment_reminder_24h
                then AppointmentReminder24hMessage (firstName c) ''your tax professional'' (scheduledAt a)
                else AppointmentReminder1hMessage (firstName c) ''your tax professional'')"
  using assms by (simp add: createAppointmentReminder_def Let_def)

lemma handleToolCall_catch:
  "snd (toolCase db now ids shiftHours call) = Inl (Error m) \<Longrightarrow>
   handleToolCall db now ids shiftHours call
     = (fst (toolCase db now ids shiftHours call),
        \<lparr>content_text = Plain (''Error: '' @ m), isError = True\<rparr>)"
  by (cases "toolCase db now ids shiftHours call") (simp add: handleToolCall_def)

lemma handleToolCall_return:
  "snd (toolCase db now ids shiftHours call) = Inr r \<Longrightarrow>
   handleToolCall db now ids shiftHours call = (fst (toolCase db now ids shiftHours call), r)"
  by (cases "toolCase db now ids shiftHours call") (simp add: handleToolCall_def)

lemma unknown_client_services:
  assumes "getClient db clientId = None"
  shows "generateDocumentChecklist db now ids clientId = Inl (Error ''Client not found'')"
    and "createAppointment db now rnd clientId tid sched ty = Inl (Error ''Client not found'')"
    and "getAppointmentEstimate db clientId = Inl (Error ''Client not found'')"
    and "createDocumentReminder db now ids clientId aid docs = Inl (Error ''Client not found'')"
    and "createAppointmentReminder db now rnd clientId aid rt sf
           = Inl (Error ''Client or appointment not found'')"
    and "routeClientToTaxPro db now clientId
           = (db, \<lparr>success = False, routed_taxPro = None, message = Text ''Client not found'',
                   routed_alternates = None\<rparr>)"
    and "getIntakeSummary db clientId = Plain ''Client not found''"
    and "getTaxProRecommendations db now clientId = (db, Plain ''Client not found'')"
    and "createBatchDocumentReminder db now rnd clientId aid = (db, None)"
  using assms
  by (simp_all add: generateDocumentChecklist_def createAppointment_def getAppointmentEstimate_def
      createDocumentReminder_def createAppointmentReminder_def routeClientToTaxPro_def
      getIntakeSummary_def getTaxProRecommendations_def createBatchDocumentReminder_def)

lemma unknown_client_tools:
  assumes "getClient db clientId = None"
  shows "handleToolCall db now ids shiftHours (generate_document_checklist clientId)
           = (db, \<lparr>content_text = Plain ''Error: Client not found'', isError = True\<rparr>)"
    and "handleToolCall db now ids shiftHours (create_appointment clientId tid sched tyo)
           = (db, \<lparr>content_text = Plain ''Error: Client not found'', isError = True\<rparr>)"
    and "handleToolCall db now ids shiftHours (get_appointment_estimate clientId)
           = (db, \<lparr>content_text = Plain ''Error: Client not found'', isError = True\<rparr>)"
    and "handleToolCall db now ids shiftHours (route_to_tax_pro clientId)
           = (db, \<lparr>content_text = RoutingFailedText (Text ''Client not found''), isError = False\<rparr>)"
    and "handleToolCall db now ids shiftHours (get_client_summary clientId)
           = (db, \<lparr>content_text = Plain ''Client not found'', isError = False\<rparr>)"
    and "handleToolCall db now ids shiftHours (get_tax_pro_recommendations clientId)
           = (db, \<lparr>content_text = Plain ''Client not found'', isError = False\<rparr>)"
    and "handleToolCall db now ids shiftHours (calculate_complexity clientId)
           = (db, \<lparr>content_text = Plain ''Client not found'', isError = False\<rparr>)"
    and "handleToolCall db now ids shiftHours (get_client clientId)
           = (db, \<lparr>content_text = Plain ''Client not found'', isError = False\<rparr>)"
  using assms
  by (simp_all add: handleToolCall_def toolCase_def textResponse_def
      unknown_client_services [OF assms])

lemma unknown_checklist_tools:
  assumes "map_of (checklists db) clientId = None"
  shows "markDocumentCollected db now clientId documentId
           = (db, \<lparr>mark_success = False, mark_message = ''Checklist not found''\<rparr>)"
    and "getDocumentChecklist db clientId = None"
    and "getPendingDocuments db clientId = []"
    and "handleToolCall db now ids shiftHours (mark_document_collected clientId documentId)
           = (db, \<lparr>content_text =
                     MarkResultJson \<lparr>mark_success = False, mark_message = ''Checklist not found''\<rparr>,
                   isError = False\<rparr>)"
    and "handleToolCall db now ids shiftHours (get_document_checklist clientId)
           = (db, \<lparr>content_text =
                     Plain ''No checklist found. Generate one first using generate_document_checklist.'',
                   isError = False\<rparr>)"
    and "handleToolCall db now ids shiftHours (get_pending_documents clientId)
           = (db, \<lparr>content_text = AllCollectedText, isError = False\<rparr>)"
    and "handleToolCall db now ids shiftHours (create_document_reminders clientId aid)
           = (db, \<lparr>content_text = Plain ''No pending documents to create reminders for.'',
                   isError = False\<rparr>)"
  using assms
  by (simp_all add: handleToolCall_def toolCase_def textResponse_def markDocumentCollected_def
      getDocumentChecklist_def getPendingDocuments_def)

lemma unknown_session_tools:
  assumes "map_of (sessions db) sessionId = None"
  shows "processIntakeResponse db now sessionId a
           = (db, (emptyIntakeResult False)\<lparr>intake_message := Some ''Session not found''\<rparr>)"
    and "getIntakeProgress db sessionId = None"
    and "handleToolCall db now ids shiftHours (process_intake_response sessionId a)
           = (db, \<lparr>content_text =
                     IntakeResultJson
                       ((emptyIntakeResult False)\<lparr>intake_message := Some ''Session not found''\<rparr>),
                   isError = False\<rparr>)"
    and "handleToolCall db now ids shiftHours (get_intake_progress sessionId)
           = (db, \<lparr>content_text = Plain ''Session not found'', isError = False\<rparr>)"
  using assms
  by (simp_all add: handleToolCall_def toolCase_def textResponse_def processIntakeResponse_def
      getIntakeProgress_def)

lemma unknown_reminder_tools:
  assumes "getReminder db reminderId = None"
  shows "sendReminder db now reminderId
           = (db, \<lparr>send_success = False, send_message = ''Reminder not found''\<rparr>)"
    and "handleToolCall db now ids shiftHours (send_reminder reminderId)
           = (db, \<lparr>content_text =
                     SendResultJson \<lparr>send_success = False, send_message = ''Reminder not found''\<rparr>,
                   isError = False\<rparr>)"
  using assms
  by (simp_all add: handleToolCall_def toolCase_def textResponse_def sendReminder_def)

lemma start_intake_unknown_client:
  assumes "getClient db clientId = None" "clientId \<noteq> []"
  shows "\<exists>db' r. handleToolCall db now ids shiftHours (start_intake (Some clientId)) = (db', r)
           \<and> \<not> isError r \<and> getClient db' clientId = Some (newClientProfile clientId now)"
  using assms
  by (auto simp: handleToolCall_def toolCase_def textResponse_def startIntakeSession_def
      createNewClient_def createClient_def createSession_def getClient_def Let_def
      newClientProfile_def update_conv' split: option.splits prod.splits)

text \<open>
  C7, as stated, fails. In a store without the client, \<open>generateDocumentChecklist\<close>,
  \<open>createAppointment\<close> and \<open>getAppointmentEstimate\<close> throw \<open>Error('Client not found')\<close>;
  they do not return a failure result. And \<open>createAppointment\<close> for a known client with a
  staff id that does not resolve returns an appointment for that staff id: no failure.
\<close>

theorem unknown_client_throws:
  "generateDocumentChecklist newDatabase 7 exampleIds ''client-9'' = Inl (Error ''Client not found'')
   \<and> createAppointment newDatabase 7 ''r0'' ''client-9'' ''tp-001'' 100 virtual
       = Inl (Error ''Client not found'')
   \<and> getAppointmentEstimate newDatabase ''client-9'' = Inl (Error ''Client not found'')
   \<and> getTaxPro routingDb ''tp-none'' = None
   \<and> \<not> isl (createAppointment routingDb 7 ''r0'' ''client-2'' ''tp-none'' 100 virtual)
   \<and> taxProId (snd (projr (createAppointment routingDb 7 ''r0'' ''client-2'' ''tp-none'' 100 virtual)))
       = ''tp-none''"
  by code_simp

text \<open>
  C7, amended. For an id that does not resolve, the handler of the tool calls always
  returns a response: a failure that a service throws is caught there. Which response,
  by the kind of id:
  \<^item> Client. \<open>routeClientToTaxPro\<close> returns success = false with "Client not found",
    \<open>getIntakeSummary\<close> and \<open>getTaxProRecommendations\<close> return the text "Client not found",
    \<open>createBatchDocumentReminder\<close> returns null. \<open>generateDocumentChecklist\<close>,
    \<open>createAppointment\<close>, \<open>getAppointmentEstimate\<close> and \<open>createDocumentReminder\<close> throw
    \<open>Error('Client not found')\<close>, and \<open>createAppointmentReminder\<close> throws
    \<open>Error('Client or appointment not found')\<close>. The tools generate_document_checklist,
    create_appointment and get_appointment_estimate return "Error: Client not found" with
    \<open>isError\<close> set; route_to_tax_pro returns the routing failure, and get_client_summary,
    get_tax_pro_recommendations, calculate_complexity and get_client return
    "Client not found", all four without \<open>isError\<close>. The store is unchanged in each.
  \<^item> Client, in start_intake: no failure. A nonempty client id that does not resolve is
    registered as a new client.
  \<^item> Checklist. \<open>markDocumentCollected\<close> returns success = false with
    "Checklist not found", \<open>getDocumentChecklist\<close> returns null and
    \<open>getPendingDocuments\<close> the empty list; the four tools on a checklist return a text
    without \<open>isError\<close>, and the store is unchanged.
  \<^item> Session. \<open>processIntakeResponse\<close> returns success = false with "Session not found",
    and with "Client not found" when the client of the session does not resolve;
    \<open>getIntakeProgress\<close> returns null. The store is unchanged.
  \<^item> Reminder. \<open>sendReminder\<close> returns success = false with "Reminder not found", and with
    "Client not found" when the client of an unsent reminder does not resolve. The store
    is unchanged.
  \<^item> Appointment. \<open>createAppointmentReminder\<close> throws
    \<open>Error('Client or appointment not found')\<close>.
  \<^item> Staff: no failure. \<open>createAppointment\<close> for a known client stores the staff id it is
    given, and \<open>createAppointmentReminder\<close> names "your tax professional" when the staff
    id of the appointment does not resolve.
  \<^item> Every tool call. An \<open>Error\<close> thrown by the case of the tool is returned as "Error: "
    followed by its message, with \<open>isError\<close> set; what the case returns is returned as
    it is.
\<close>

theorem unresolved_id_results:
  "(getClient db clientId = None \<longrightarrow>
      generateDocumentChecklist db now ids clientId = Inl (Error ''Client not found'')
      \<and> createAppointment db now rnd clientId tid sched ty = Inl (Error ''Client not found'')
      \<and> getAppointmentEstimate db clientId = Inl (Error ''Client not found'')
      \<and> createDocumentReminder db now ids clientId aid docs = Inl (Error ''Client not found'')
      \<and> createAppointmentReminder db now rnd clientId aid rt sf
          = Inl (Error ''Client or appointment not found'')
      \<and> routeClientToTaxPro db now clientId
          = (db, \<lparr>success = False, routed_taxPro = None, message = Text ''Client not found'',
                  routed_alternates = None\<rparr>)
      \<and> getIntakeSummary db clientId = Plain ''Client not found''
      \<and> getTaxProRecommendations db now clientId = (db, Plain ''Client not found'')
      \<and> createBatchDocumentReminder db now rnd clientId aid = (db, None)
      \<and> handleToolCall db now ids shiftHours (generate_document_checklist clientId) = (db, \<lparr>content_text = Plain ''Error: Client not found'', isError = True\<rparr>)
      \<and> handleToolCall db now ids shiftHours (create_appointment clientId tid sched tyo) = (db, \<lparr>content_text = Plain ''Error: Client not found'', isError = True\<rparr>)
      \<and> handleToolCall db now ids shiftHours (get_appointment_estimate clientId) = (db, \<lparr>content_text = Plain ''Error: Client not found'', isError = True\<rparr>)
      \<and> handleToolCall db now ids shiftHours (route_to_tax_pro clientId)
          = (db, \<lparr>content_text = RoutingFailedText (Text ''Client not found''), isError = False\<rparr>)
      \<and> handleToolCall db now ids shiftHours (get_client_summary clientId) = (db, \<lparr>content_text = Plain ''Client not found'', isError = False\<rparr>)
      \<and> handleToolCall db now ids shiftHours (get_tax_pro_recommendations clientId) = (db, \<lparr>content_text = Plain ''Client not found'', isError = False\<rparr>)
      \<and> handleToolCall db now ids shiftHours (calculate_complexity clientId) = (db, \<lparr>content_text = Plain ''Client not found'', isError = False\<rparr>)
      \<and> handleToolCall db now ids shiftHours (get_client clientId) = (db, \<lparr>content_text = Plain ''Client not found'', isError = False\<rparr>))
   \<and> (getClient db clientId = None \<and> clientId \<noteq> [] \<longrightarrow>
      (\<exists>db' r. handleToolCall db now ids shiftHours (start_intake (Some clientId)) = (db', r)
         \<and> \<not> isError r \<and> getClient db' clientId = Some (newClientProfile clientId now)))
   \<and> (map_of (checklists db) clientId = None \<longrightarrow>
      markDocumentCollected db now clientId documentId
        = (db, \<lparr>mark_success = False, mark_message = ''Checklist not found''\<rparr>)
      \<and> getDocumentChecklist db clientId = None
      \<and> getPendingDocuments db clientId = []
      \<and> handleToolCall db now ids shiftHours (mark_document_collected clientId documentId)
          = (db, \<lparr>content_text =
                    MarkResultJson \<lparr>mark_success = False, mark_message = ''Checklist not found''\<rparr>,
                  isError = False\<rparr>)
      \<and> handleToolCall db now ids shiftHours (get_document_checklist clientId)
          = (db, \<lparr>content_text =
                    Plain ''No checklist found. Generate one first using generate_document_checklist.'',
                  isError = False\<rparr>)
      \<and> handleToolCall db now ids shiftHours (get_pending_documents clientId)
          = (db, \<lparr>content_text = AllCollectedText, isError = False\<rparr>)
      \<and> handleToolCall db now ids shiftHours (create_document_reminders clientId aid)
          = (db, \<lparr>content_text = Plain ''No pending documents to create reminders for.'',
                  isError = False\<rparr>))
   \<and> (map_of (sessions db) sessionId = None \<longrightarrow>
      processIntakeResponse db now sessionId a
        = (db, (emptyIntakeResult False)\<lparr>intake_message := Some ''Session not found''\<rparr>)
      \<and> getIntakeProgress db sessionId = None
      \<and> handleToolCall db now ids shiftHours (process_intake_response sessionId a)
          = (db, \<lparr>content_text =
                    IntakeResultJson
                      ((emptyIntakeResult False)\<lparr>intake_message := Some ''Session not found''\<rparr>),
                  isError = False\<rparr>)
      \<and> handleToolCall db now ids shiftHours (get_intake_progress sessionId)
          = (db, \<lparr>content_text = Plain ''Session not found'', isError = False\<rparr>))
   \<and> (\<forall>s. map_of (sessions db) sessionId = Some s \<and> getClient db (session_clientId s) = None
        \<longrightarrow>
      processIntakeResponse db now sessionId a
        = (db, (emptyIntakeResult False)\<lparr>intake_message := Some ''Client not found''\<rparr>))
   \<and> (getReminder db reminderId = None \<longrightarrow>
      sendReminder db now reminderId
        = (db, \<lparr>send_success = False, send_message = ''Reminder not found''\<rparr>)
      \<and> handleToolCall db now ids shiftHours (send_reminder reminderId)
          = (db, \<lparr>content_text =
                    SendResultJson \<lparr>send_success = False, send_message = ''Reminder not found''\<rparr>,
                  isError = False\<rparr>))
   \<and> (\<forall>r. getReminder db reminderId = Some r \<and> \<not> sent r
          \<and> getClient db (reminder_clientId r) = None \<longrightarrow>
      sendReminder db now reminderId
        = (db, \<lparr>send_success = False, send_message = ''Client not found''\<rparr>))
   \<and> (getAppointment db aid = None \<longrightarrow>
      createAppointmentReminder db now rnd clientId aid rt sf
        = Inl (Error ''Client or appointment not found''))
   \<and> (\<forall>c. getClient db clientId = Some c \<longrightarrow>
      (\<exists>db' apt. createAppointment db now rnd clientId tid sched ty = Inr (db', apt)
                  \<and> taxProId apt = tid))
   \<and> (\<forall>c apt. getClient db clientId = Some c \<and> getAppointment db aid = Some apt
          \<and> getTaxPro db (taxProId apt) = None \<longrightarrow>
      (\<exists>db' r. createAppointmentReminder db now rnd clientId aid rt sf = Inr (db', r)
         \<and> reminder_message r =
             (if rt = appointment_reminder_24h
              then AppointmentReminder24hMessage (firstName c) ''your tax professional''
                     (scheduledAt apt)
              else AppointmentReminder1hMessage (firstName c) ''your tax professional'')))
   \<and> (\<forall>m. snd (toolCase db now ids shiftHours call) = Inl (Error m) \<longrightarrow>
      handleToolCall db now ids shiftHours call
        = (fst (toolCase db now ids shiftHours call),
           \<lparr>content_text = Plain (''Error: '' @ m), isError = True\<rparr>))
   \<and> (\<forall>r. snd (toolCase db now ids shiftHours call) = Inr r \<longrightarrow>
      handleToolCall db now ids shiftHours call = (fst (toolCase db now ids shiftHours call), r))"
proof -
  have client: "getClient db clientId = None \<longrightarrow>
      generateDocumentChecklist db now ids clientId = Inl (Error ''Client not found'')
      \<and> createAppointment db now rnd clientId tid sched ty = Inl (Error ''Client not found'')
      \<and> getAppointmentEstimate db clientId = Inl (Error ''Client not found'')
      \<and> createDocumentReminder db now ids clientId aid docs = Inl (Error ''Client not found'')
      \<and> createAppointmentReminder db now rnd clientId aid rt sf
          = Inl (Error ''Client or appointment not found'')
      \<and> routeClientToTaxPro db now clientId
          = (db, \<lparr>success = False, routed_taxPro = None, message = Text ''Client not found'',
                  routed_alternates = None\<rparr>)
      \<and> getIntakeSummary db clientId = Plain ''Client not found''
      \<and> getTaxProRecommendations db now clientId = (db, Plain ''Client not found'')
      \<and> createBatchDocumentReminder db now rnd clientId aid = (db, None)
      \<and> handleToolCall db now ids shiftHours (generate_document_checklist clientId) = (db, \<lparr>content_text = Plain ''Error: Client not found'', isError = True\<rparr>)
      \<and> handleToolCall db now ids shiftHours (create_appointment clientId tid sched tyo) = (db, \<lparr>content_text = Plain ''Error: Client not found'', isError = True\<rparr>)
      \<and> handleToolCall db now ids shiftHours (get_appointment_estimate clientId) = (db, \<lparr>content_text = Plain ''Error: Client not found'', isError = True\<rparr>)
      \<and> handleToolCall db now ids shiftHours (route_to_tax_pro clientId)
          = (db, \<lparr>content_text = RoutingFailedText (Text ''Client not found''), isError = False\<rparr>)
      \<and> handleToolCall db now ids shiftHours (get_client_summary clientId) = (db, \<lparr>content_text = Plain ''Client not found'', isError = False\<rparr>)
      \<and> handleToolCall db now ids shiftHours (get_tax_pro_recommendations clientId) = (db, \<lparr>content_text = Plain ''Client not found'', isError = False\<rparr>)
      \<and> handleToolCall db now ids shiftHours (calculate_complexity clientId) = (db, \<lparr>content_text = Plain ''Client not found'', isError = False\<rparr>)
      \<and> handleToolCall db now ids shiftHours (get_client clientId) = (db, \<lparr>content_text = Plain ''Client not found'', isError = False\<rparr>)"
    using unknown_client_services unknown_client_tools by simp
  have start: "getClient db clientId = None \<and> clientId \<noteq> [] \<longrightarrow>
      (\<exists>db' r. handleToolCall db now ids shiftHours (start_intake (Some clientId)) = (db', r)
         \<and> \<not> isError r \<and> getClient db' clientId = Some (newClientProfile clientId now))"
    using start_intake_unknown_client by blast
  have checklist: "map_of (checklists db) clientId = None \<longrightarrow>
      markDocumentCollected db now clientId documentId
        = (db, \<lparr>mark_success = False, mark_message = ''Checklist not found''\<rparr>)
      \<and> getDocumentChecklist db clientId = None
      \<and> getPendingDocuments db clientId = []
      \<and> handleToolCall db now ids shiftHours (mark_document_collected clientId documentId)
          = (db, \<lparr>content_text =
                    MarkResultJson \<lparr>mark_success = False, mark_message = ''Checklist not found''\<rparr>,
                  isError = False\<rparr>)
      \<and> handleToolCall db now ids shiftHours (get_document_checklist clientId)
          = (db, \<lparr>content_text =
                    Plain ''No checklist found. Generate one first using generate_document_checklist.'',
                  isError = False\<rparr>)
      \<and> handleToolCall db now ids shiftHours (get_pending_documents clientId)
          = (db, \<lparr>content_text = AllCollectedText, isError = False\<rparr>)
      \<and> handleToolCall db now ids shiftHours (create_document_reminders clientId aid)
          = (db, \<lparr>content_text = Plain ''No pending documents to create reminders for.'',
                  isError = False\<rparr>)"
    using unknown_checklist_tools by simp
  have session: "map_of (sessions db) sessionId = None \<longrightarrow>
      processIntakeResponse db now sessionId a
        = (db, (emptyIntakeResult False)\<lparr>intake_message := Some ''Session not found''\<rparr>)
      \<and> getIntakeProgress db sessionId = None
      \<and> handleToolCall db now ids shiftHours (process_intake_response sessionId a)
          = (db, \<lparr>content_text =
                    IntakeResultJson
                      ((emptyIntakeResult False)\<lparr>intake_message := Some ''Session not found''\<rparr>),
                  isError = False\<rparr>)
      \<and> handleToolCall db now ids shiftHours (get_intake_progress sessionId)
          = (db, \<lparr>content_text = Plain ''Session not found'', isError = False\<rparr>)"
    using unknown_session_tools by simp
  have session_client: "\<forall>s. map_of (sessions db) sessionId = Some s \<and> getClient db (session_clientId s) = None
        \<longrightarrow>
      processIntakeResponse db now sessionId a
        = (db, (emptyIntakeResult False)\<lparr>intake_message := Some ''Client not found''\<rparr>)"
    by (simp add: processIntakeResponse_def)
  have reminder: "getReminder db reminderId = None \<longrightarrow>
      sendReminder db now reminderId
        = (db, \<lparr>send_success = False, send_message = ''Reminder not found''\<rparr>)
      \<and> handleToolCall db now ids shiftHours (send_reminder reminderId)
          = (db, \<lparr>content_text =
                    SendResultJson \<lparr>send_success = False, send_message = ''Reminder not found''\<rparr>,
                  isError = False\<rparr>)"
    using unknown_reminder_tools by simp
  have reminder_client: "\<forall>r. getReminder db reminderId = Some r \<and> \<not> sent r
          \<and> getClient db (reminder_clientId r) = None \<longrightarrow>
      sendReminder db now reminderId
        = (db, \<lparr>send_success = False, send_message = ''Client not found''\<rparr>)"
    by (simp add: sendReminder_def)
  have appointment: "getAppointment db aid = None \<longrightarrow>
      createAppointmentReminder db now rnd clientId aid rt sf
        = Inl (Error ''Client or appointment not found'')"
    by (simp add: createAppointmentReminder_def split: option.splits)
  have staff_stored: "\<forall>c. getClient db clientId = Some c \<longrightarrow>
      (\<exists>db' apt. createAppointment db now rnd clientId tid sched ty = Inr (db', apt)
                  \<and> taxProId apt = tid)"
    using createAppointment_known by blast
  have staff_fallback: "\<forall>c apt. getClient db clientId = Some c \<and> getAppointment db aid = Some apt
          \<and> getTaxPro db (taxProId apt) = None \<longrightarrow>
      (\<exists>db' r. createAppointmentReminder db now rnd clientId aid rt sf = Inr (db', r)
         \<and> reminder_message r =
             (if rt = appointment_reminder_24h
              then AppointmentReminder24hMessage (firstName c) ''your tax professional''
                     (scheduledAt apt)
              else AppointmentReminder1hMessage (firstName c) ''your tax professional''))"
    using createAppointmentReminder_unresolved_staff by blast
  have caught: "\<forall>m. snd (toolCase db now ids shiftHours call) = Inl (Error m) \<longrightarrow>
      handleToolCall db now ids shiftHours call
        = (fst (toolCase db now ids shiftHours call),
           \<lparr>content_text = Plain (''Error: '' @ m), isError = True\<rparr>)"
    using handleToolCall_catch by blast
  have returned: "\<forall>r. snd (toolCase db now ids shiftHours call) = Inr r \<longrightarrow>
      handleToolCall db now ids shiftHours call = (fst (toolCase db now ids shiftHours call), r)"
    using handleToolCall_return by blast
  show ?thesis
    by (intro conjI client start checklist session session_client reminder reminder_client appointment staff_stored staff_fallback caught returned)
qed

lemma newDatabase_unresolved:
  "getClient newDatabase ''client-9'' = None" "getAppointment newDatabase ''apt-9'' = None"
  "map_of (checklists newDatabase) ''client-9'' = None"
  "map_of (sessions newDatabase) ''session-9'' = None"
  "getReminder newDatabase ''reminder-9'' = None"
  by (simp_all add: getClient_def getAppointment_def getReminder_def newDatabase_def)

lemma orphanDb_lookups:
  "getClient orphanDb ''client-9'' = None"
  "getClient orphanDb ''client-2'' = Some cryptoClient"
  "getAppointment orphanDb ''apt-1'' = Some orphanAppointment"
  "getTaxPro orphanDb (taxProId orphanAppointment) = None"
  "getReminder orphanDb ''reminder-1'' = Some orphanReminder"
  "\<not> sent orphanReminder" "reminder_clientId orphanReminder = ''client-9''"
  "firstName cryptoClient = []"
  "map_of (sessions orphanDb) ''session-2''
     = Some (intakeSession\<lparr>session_id := ''session-2'', session_clientId := ''client-9''\<rparr>)"
  "getTaxPro orphanDb ''tp-none'' = None"
  by (simp_all add: orphanDb_def routingDb_def getClient_def getAppointment_def getTaxPro_def
      getReminder_def orphanAppointment_def orphanReminder_def cryptoClient_def
      newClientProfile_def)

lemma example_tool_cases:
  "snd (toolCase newDatabase 7 exampleIds exampleShift (get_appointment_estimate ''client-9''))
     = Inl (Error ''Client not found'')"
  "fst (toolCase newDatabase 7 exampleIds exampleShift (get_appointment_estimate ''client-9''))
     = newDatabase"
  "snd (toolCase orphanDb 7 exampleIds exampleShift (get_client ''client-2''))
     = Inr \<lparr>content_text = ClientJson cryptoClient, isError = False\<rparr>"
  "fst (toolCase orphanDb 7 exampleIds exampleShift (get_client ''client-2'')) = orphanDb"
  using newDatabase_unresolved(1) orphanDb_lookups(2)
  by (simp_all add: toolCase_def getAppointmentEstimate_def textResponse_def)

theorem unresolved_id_results_witness:
  "getClient newDatabase ''client-9'' = None
   \<and> map_of (checklists newDatabase) ''client-9'' = None
   \<and> map_of (sessions newDatabase) ''session-9'' = None
   \<and> getReminder newDatabase ''reminder-9'' = None
   \<and> getAppointment newDatabase ''apt-9'' = None
   \<and> getAppointmentEstimate newDatabase ''client-9'' = Inl (Error ''Client not found'')
   \<and> handleToolCall newDatabase 7 exampleIds exampleShift (generate_document_checklist ''client-9'')
       = (newDatabase, \<lparr>content_text = Plain ''Error: Client not found'', isError = True\<rparr>)
   \<and> handleToolCall newDatabase 7 exampleIds exampleShift
         (create_appointment ''client-9'' ''tp-001'' 100 None)
       = (newDatabase, \<lparr>content_text = Plain ''Error: Client not found'', isError = True\<rparr>)
   \<and> handleToolCall newDatabase 7 exampleIds exampleShift (route_to_tax_pro ''client-9'')
       = (newDatabase,
          \<lparr>content_text = RoutingFailedText (Text ''Client not found''), isError = False\<rparr>)
   \<and> handleToolCall newDatabase 7 exampleIds exampleShift (get_client ''client-9'')
       = (newDatabase, \<lparr>content_text = Plain ''Client not found'', isError = False\<rparr>)
   \<and> (\<exists>db' r. handleToolCall newDatabase 7 exampleIds exampleShift (start_intake (Some ''client-9''))
                  = (db', r)
          \<and> \<not> isError r \<and> getClient db' ''client-9'' = Some (newClientProfile ''client-9'' 7))
   \<and> handleToolCall newDatabase 7 exampleIds exampleShift
         (mark_document_collected ''client-9'' ''doc-7-r0'')
       = (newDatabase,
          \<lparr>content_text =
             MarkResultJson \<lparr>mark_success = False, mark_message = ''Checklist not found''\<rparr>,
           isError = False\<rparr>)
   \<and> handleToolCall newDatabase 7 exampleIds exampleShift (get_intake_progress ''session-9'')
       = (newDatabase, \<lparr>content_text = Plain ''Session not found'', isError = False\<rparr>)
   \<and> processIntakeResponse orphanDb 7 ''session-2'' ''yes''
       = (orphanDb, (emptyIntakeResult False)\<lparr>intake_message := Some ''Client not found''\<rparr>)
   \<and> handleToolCall newDatabase 7 exampleIds exampleShift (send_reminder ''reminder-9'')
       = (newDatabase,
          \<lparr>content_text =
             SendResultJson \<lparr>send_success = False, send_message = ''Reminder not found''\<rparr>,
           isError = False\<rparr>)
   \<and> getReminder orphanDb ''reminder-1'' = Some orphanReminder
   \<and> getClient orphanDb (reminder_clientId orphanReminder) = None
   \<and> sendReminder orphanDb 7 ''reminder-1''
       = (orphanDb, \<lparr>send_success = False, send_message = ''Client not found''\<rparr>)
   \<and> createAppointmentReminder newDatabase 7 ''r0'' ''client-9'' ''apt-9'' appointment_reminder_1h 900
       = Inl (Error ''Client or appointment not found'')
   \<and> getClient orphanDb ''client-2'' = Some cryptoClient
   \<and> getTaxPro orphanDb ''tp-none'' = None
   \<and> (\<exists>db' apt. createAppointment orphanDb 7 ''r0'' ''client-2'' ''tp-none'' 100 virtual
                    = Inr (db', apt)
          \<and> taxProId apt = ''tp-none'')
   \<and> getAppointment orphanDb ''apt-1'' = Some orphanAppointment
   \<and> getTaxPro orphanDb (taxProId orphanAppointment) = None
   \<and> (\<exists>db' r. createAppointmentReminder orphanDb 7 ''r0'' ''client-2'' ''apt-1''
                    appointment_reminder_1h 900 = Inr (db', r)
          \<and> reminder_message r = AppointmentReminder1hMessage [] ''your tax professional'')
   \<and> snd (toolCase newDatabase 7 exampleIds exampleShift (get_appointment_estimate ''client-9''))
       = Inl (Error ''Client not found'')
   \<and> handleToolCall newDatabase 7 exampleIds exampleShift (get_appointment_estimate ''client-9'')
       = (newDatabase, \<lparr>content_text = Plain ''Error: Client not found'', isError = True\<rparr>)
   \<and> snd (toolCase orphanDb 7 exampleIds exampleShift (get_client ''client-2''))
       = Inr \<lparr>content_text = ClientJson cryptoClient, isError = False\<rparr>
   \<and> handleToolCall orphanDb 7 exampleIds exampleShift (get_client ''client-2'')
       = (orphanDb, \<lparr>content_text = ClientJson cryptoClient, isError = False\<rparr>)"
proof -
  note n = newDatabase_unresolved
  note o = orphanDb_lookups
  note e = example_tool_cases
  note t1 = unresolved_id_results [where db = newDatabase and clientId = "''client-9''" and now = 7
      and ids = exampleIds and rnd = "''r0''" and tid = "''tp-001''" and sched = 100
      and ty = virtual and aid = "''apt-9''" and docs = "[]" and rt = appointment_reminder_1h
      and sf = 900 and shiftHours = exampleShift and tyo = None and documentId = "''doc-7-r0''"
      and sessionId = "''session-9''" and a = "''yes''" and reminderId = "''reminder-9''"
      and call = "get_appointment_estimate ''client-9''"]
  note t2 = unresolved_id_results [where db = orphanDb and clientId = "''client-2''" and now = 7
      and ids = exampleIds and rnd = "''r0''" and tid = "''tp-none''" and sched = 100
      and ty = virtual and aid = "''apt-1''" and docs = "[]" and rt = appointment_reminder_1h
      and sf = 900 and shiftHours = exampleShift and tyo = None and documentId = "''doc-7-r0''"
      and sessionId = "''session-2''" and a = "''yes''" and reminderId = "''reminder-1''"
      and call = "get_client ''client-2''"]
  note c2 = conjunct2
  note client1 = t1 [THEN conjunct1, THEN mp, OF n(1)]
  note start1 = t1 [THEN c2, THEN conjunct1, THEN mp]
  note checklist1 = t1 [THEN c2, THEN c2, THEN conjunct1, THEN mp, OF n(3)]
  note session1 = t1 [THEN c2, THEN c2, THEN c2, THEN conjunct1, THEN mp, OF n(4)]
  note session2 =
    t2 [THEN c2, THEN c2, THEN c2, THEN c2, THEN conjunct1, THEN spec,
        of "intakeSession\<lparr>session_id := ''session-2'', session_clientId := ''client-9''\<rparr>",
        THEN mp]
  note reminder1 =
    t1 [THEN c2, THEN c2, THEN c2, THEN c2, THEN c2, THEN conjunct1, THEN mp, OF n(5)]
  note reminder2 =
    t2 [THEN c2, THEN c2, THEN c2, THEN c2, THEN c2, THEN c2, THEN conjunct1,
        THEN spec, of orphanReminder, THEN mp]
  note appointment1 =
    t1 [THEN c2, THEN c2, THEN c2, THEN c2, THEN c2, THEN c2, THEN c2, THEN conjunct1,
        THEN mp, OF n(2)]
  note stored2 =
    t2 [THEN c2, THEN c2, THEN c2, THEN c2, THEN c2, THEN c2, THEN c2, THEN c2, THEN conjunct1,
        THEN spec, of cryptoClient, THEN mp, OF o(2)]
  note fallback2 =
    t2 [THEN c2, THEN c2, THEN c2, THEN c2, THEN c2, THEN c2, THEN c2, THEN c2, THEN c2,
        THEN conjunct1, THEN spec, THEN spec, of cryptoClient orphanAppointment, THEN mp]
  note caught1 =
    t1 [THEN c2, THEN c2, THEN c2, THEN c2, THEN c2, THEN c2, THEN c2, THEN c2, THEN c2, THEN c2,
        THEN conjunct1, THEN spec, of "''Client not found''", THEN mp, OF e(1)]
  note returned2 =
    t2 [THEN c2, THEN c2, THEN c2, THEN c2, THEN c2, THEN c2, THEN c2, THEN c2, THEN c2, THEN c2,
        THEN c2, THEN spec, of "\<lparr>content_text = ClientJson cryptoClient, isError = False\<rparr>",
        THEN mp, OF e(3)]
  have a1: "getAppointmentEstimate newDatabase ''client-9'' = Inl (Error ''Client not found'')"
    using client1 by simp
  have a2: "handleToolCall newDatabase 7 exampleIds exampleShift
        (generate_document_checklist ''client-9'')
       = (newDatabase, \<lparr>content_text = Plain ''Error: Client not found'', isError = True\<rparr>)"
    using client1 by simp
  have a3: "handleToolCall newDatabase 7 exampleIds exampleShift
         (create_appointment ''client-9'' ''tp-001'' 100 None)
       = (newDatabase, \<lparr>content_text = Plain ''Error: Client not found'', isError = True\<rparr>)"
    using client1 by simp
  have a4: "handleToolCall newDatabase 7 exampleIds exampleShift (route_to_tax_pro ''client-9'')
       = (newDatabase,
          \<lparr>content_text = RoutingFailedText (Text ''Client not found''), isError = False\<rparr>)"
    using client1 by simp
  have a5: "handleToolCall newDatabase 7 exampleIds exampleShift (get_client ''client-9'')
       = (newDatabase, \<lparr>content_text = Plain ''Client not found'', isError = False\<rparr>)"
    using client1 by simp
  have "getClient newDatabase ''client-9'' = None \<and> ''client-9'' \<noteq> []"
    using n(1) by simp
  note a6 = start1 [OF this]
  have b1: "handleToolCall newDatabase 7 exampleIds exampleShift
         (mark_document_collected ''client-9'' ''doc-7-r0'')
       = (newDatabase,
          \<lparr>content_text =
             MarkResultJson \<lparr>mark_success = False, mark_message = ''Checklist not found''\<rparr>,
           isError = False\<rparr>)"
    using checklist1 by simp
  have b2: "handleToolCall newDatabase 7 exampleIds exampleShift (get_intake_progress ''session-9'')
       = (newDatabase, \<lparr>content_text = Plain ''Session not found'', isError = False\<rparr>)"
    using session1 by simp
  have "map_of (sessions orphanDb) ''session-2''
          = Some (intakeSession\<lparr>session_id := ''session-2'', session_clientId := ''client-9''\<rparr>)
        \<and> getClient orphanDb
            (session_clientId
              (intakeSession\<lparr>session_id := ''session-2'', session_clientId := ''client-9''\<rparr>))
          = None"
    using o(1,9) by simp
  note b3 = session2 [OF this]
  have b4: "handleToolCall newDatabase 7 exampleIds exampleShift (send_reminder ''reminder-9'')
       = (newDatabase,
          \<lparr>content_text =
             SendResultJson \<lparr>send_success = False, send_message = ''Reminder not found''\<rparr>,
           isError = False\<rparr>)"
    using reminder1 by simp
  have c0: "getClient orphanDb (reminder_clientId orphanReminder) = None"
    using o(1,7) by simp
  have "getReminder orphanDb ''reminder-1'' = Some orphanReminder \<and> \<not> sent orphanReminder
      \<and> getClient orphanDb (reminder_clientId orphanReminder) = None"
    using o(5,6) c0 by simp
  note c1 = reminder2 [OF this]
  have "getClient orphanDb ''client-2'' = Some cryptoClient
      \<and> getAppointment orphanDb ''apt-1'' = Some orphanAppointment
      \<and> getTaxPro orphanDb (taxProId orphanAppointment) = None"
    using o(2-4) by simp
  from fallback2 [OF this] o(8) have d1:
    "\<exists>db' r. createAppointmentReminder orphanDb 7 ''r0'' ''client-2'' ''apt-1''
                    appointment_reminder_1h 900 = Inr (db', r)
          \<and> reminder_message r = AppointmentReminder1hMessage [] ''your tax professional''"
    by simp
  have f1: "handleToolCall newDatabase 7 exampleIds exampleShift
        (get_appointment_estimate ''client-9'')
       = (newDatabase, \<lparr>content_text = Plain ''Error: Client not found'', isError = True\<rparr>)"
    using caught1 e(2) by simp
  have f2: "handleToolCall orphanDb 7 exampleIds exampleShift (get_client ''client-2'')
       = (orphanDb, \<lparr>content_text = ClientJson cryptoClient, isError = False\<rparr>)"
    using returned2 e(4) by simp
  show ?thesis
    by (intro conjI n(1) n(3) n(4) n(5) n(2) a1 a2 a3 a4 a5 a6 b1 b2 b3 b4 o(5) c0 c1
        appointment1 o(2) o(10) stored2 o(3) o(4) d1 e(1) f1 e(3) f2)
qed

section \<open>Properties of the guided intake\<close>

lemma sessions_updateClient [simp]: "sessions (updateClient db now k f) = sessions db"
  by (simp add: updateClient_def split: option.splits)

lemma sessions_storeClient [simp]: "sessions (storeClient db k c) = sessions db"
  by (simp add: storeClient_def)

lemma sessions_updateClientFromResponse [simp]:
  "sessions (fst (updateClientFromResponse db now key c st a)) = sessions db"
  by (simp add: updateClientFromResponse_def Let_def)

lemma indexOf_special: "indexOf INTAKE_STEPS step_special_situations = 6"
  by (simp add: INTAKE_STEPS_def)

lemma next_after_special: "INTAKE_STEPS ! 7 = step_document_upload"
  by (simp add: INTAKE_STEPS_def)

lemma isStepComplete_special:
  "str_includes (toLowerCase a) ''no'' \<Longrightarrow> str_includes (toLowerCase a) ''none''
   \<Longrightarrow> isStepComplete step_special_situations a"
  by (simp add: isStepComplete_def Let_def)

lemma map_of_updateSession:
  "map_of (sessions db) sid = Some s \<Longrightarrow>
   map_of (sessions (updateSession db now sid f)) sid = Some ((f s)\<lparr>lastActivityAt := now\<rparr>)"
  by (simp add: updateSession_def update_conv')

text \<open>
  C9. When the current step of a session is special_situations and the lower-cased answer
  contains both "no" and "none", \<open>processIntakeResponse\<close> completes the step at once,
  however many of its four questions have been answered: the stored session moves to
  document_upload with special_situations appended to its completed steps, and the result
  reports the step as completed and asks the document_upload question.
\<close>

theorem special_situations_short_circuit:
  assumes s: "map_of (sessions db) sessionId = Some session"
    and st: "currentStep session = step_special_situations"
    and c: "getClient db (session_clientId session) = Some client"
    and no: "str_includes (toLowerCase a) ''no''"
    and none: "str_includes (toLowerCase a) ''none''"
  shows "\<exists>db' r session'.
           processIntakeResponse db now sessionId a = (db', r)
           \<and> intake_success r \<and> stepCompleted r = Some True
           \<and> intake_currentStep r = Some step_document_upload
           \<and> nextQuestion r = Some (hd (INTAKE_QUESTIONS step_document_upload))
           \<and> map_of (sessions db') sessionId = Some session'
           \<and> currentStep session' = step_document_upload
           \<and> completedSteps session' = completedSteps session @ [step_special_situations]
           \<and> length (responses session') = Suc (length (responses session))
           \<and> session_status session' = session_status session"
proof -
  obtain db1 c1 where u:
    "updateClientFromResponse db now (session_clientId session) client step_special_situations a
       = (db1, c1)"
    by (cases "updateClientFromResponse db now (session_clientId session) client
                 step_special_situations a")
  have s1: "map_of (sessions db1) sessionId = Some session"
    using sessions_updateClientFromResponse
      [of db now "session_clientId session" client step_special_situations a] u s by simp
  note fin = isStepComplete_special [OF no none]
  show ?thesis
    using s st c u fin s1
    by (simp add: processIntakeResponse_def Let_def indexOf_special next_after_special
        INTAKE_STEPS_def at_index_def emptyIntakeResult_def map_of_updateSession)
qed

lemma intake_example_answer:
  "str_includes (toLowerCase ''No, none'') ''no''" "str_includes (toLowerCase ''No, none'') ''none''"
  by code_simp+

theorem special_situations_short_circuit_witness:
  "map_of (sessions intakeDb) ''session-1'' = Some intakeSession
   \<and> currentStep intakeSession = step_special_situations
   \<and> responses intakeSession = []
   \<and> getClient intakeDb (session_clientId intakeSession) = Some cryptoClient
   \<and> str_includes (toLowerCase ''No, none'') ''no''
   \<and> str_includes (toLowerCase ''No, none'') ''none''
   \<and> (\<exists>db' r session'.
          processIntakeResponse intakeDb 9 ''session-1'' ''No, none'' = (db', r)
          \<and> intake_currentStep r = Some step_document_upload
          \<and> map_of (sessions db') ''session-1'' = Some session'
          \<and> currentStep session' = step_document_upload
          \<and> completedSteps session' = completedSteps intakeSession @ [step_special_situations]
          \<and> length (responses session') = 1)"
proof -
  have h: "map_of (sessions intakeDb) ''session-1'' = Some intakeSession"
    "currentStep intakeSession = step_special_situations"
    "getClient intakeDb (session_clientId intakeSession) = Some cryptoClient"
    by (simp_all add: intakeDb_def intakeSession_def routingDb_def getClient_def)
  have r: "responses intakeSession = []" by (simp add: intakeSession_def)
  from special_situations_short_circuit [OF h intake_example_answer, of 9]
  obtain db' r' session' where
    "processIntakeResponse intakeDb 9 ''session-1'' ''No, none'' = (db', r')"
    "intake_currentStep r' = Some step_document_upload"
    "map_of (sessions db') ''session-1'' = Some session'"
    "currentStep session' = step_document_upload"
    "completedSteps session' = completedSteps intakeSession @ [step_special_situations]"
    "length (responses session') = Suc (length (responses intakeSession))"
    by blast
  with h r intake_example_answer show ?thesis by simp
qed

end
